theory Spec2Isabelle
  imports Complex_Main
begin

section \<open>Python values\<close>

text \<open>
  The simulation computes with Python floats. They are modelled as the real numbers:
  every statement below is about the exact arithmetic the formulas of the source denote,
  not about rounding. Python raises where HOL would return an unspecified value; those
  places return a value of type \<open>error + 'a\<close>.
\<close>

datatype error =
  TypeError | KeyError | ValueError | ZeroDivisionError | IndexError | AttributeError

text \<open>\<open>s.startswith(p)\<close> and \<open>sub in s\<close> on strings.\<close>

fun startswith :: "string \<Rightarrow> string \<Rightarrow> bool" where
  "startswith s [] = True"
| "startswith [] (p # ps) = False"
| "startswith (c # cs) (p # ps) = (c = p \<and> startswith cs ps)"

fun str_in :: "string \<Rightarrow> string \<Rightarrow> bool" where
  "str_in sub [] = (sub = [])"
| "str_in sub (c # cs) = (startswith (c # cs) sub \<or> str_in sub cs)"

text \<open>
  A Python \<open>dict\<close> keeps its keys in insertion order; assigning to a key that is present
  replaces the value in place. \<open>d.get(k, default)\<close> is \<open>dict_get\<close>.
\<close>

fun dict_set :: "('k \<times> 'v) list \<Rightarrow> 'k \<Rightarrow> 'v \<Rightarrow> ('k \<times> 'v) list" where
  "dict_set [] k v = [(k, v)]"
| "dict_set ((k', v') # d) k v = (if k' = k then (k, v) # d else (k', v') # dict_set d k v)"

definition dict_get :: "('k \<times> 'v) list \<Rightarrow> 'k \<Rightarrow> 'v \<Rightarrow> 'v" where
  "dict_get d k dflt = (case map_of d k of None \<Rightarrow> dflt | Some v \<Rightarrow> v)"

definition sum_values :: "('k \<times> real) list \<Rightarrow> real" where
  "sum_values d = sum_list (map snd d)"

section \<open>Data model (agents/base.py)\<close>

record LiquidityPosition =
  B0 :: real
  B1 :: real
  B2 :: real
  B3 :: real
  E1 :: real
  E2 :: real

definition LiquidityPosition_init :: LiquidityPosition where
  "LiquidityPosition_init = \<lparr>B0 = 0, B1 = 0, B2 = 0, B3 = 0, E1 = 0, E2 = 0\<rparr>"

text \<open>The field \<open>name\<close> of a balance-sheet item is \<open>item_name\<close> here, to keep it apart
  from the agent's \<open>name\<close>.\<close>

record BalanceSheetItem =
  item_name :: string
  amount_mm :: real
  category :: string
  sensitivity_map :: "(string \<times> real) list"
  is_collateral_eligible :: bool
  is_reaction_instrument :: bool
  current_haircut_pct :: real

definition BalanceSheetItem_init ::
  "string \<Rightarrow> real \<Rightarrow> string \<Rightarrow> (string \<times> real) list \<Rightarrow> bool \<Rightarrow> bool \<Rightarrow> BalanceSheetItem" where
  "BalanceSheetItem_init n amt cat sens coll react =
     \<lparr>item_name = n, amount_mm = amt, category = cat, sensitivity_map = sens,
      is_collateral_eligible = coll, is_reaction_instrument = react, current_haircut_pct = 0\<rparr>"

section \<open>Market state (market.py)\<close>

record MarketState =
  gilt_10y_yield_chg_bps :: real
  gilt_30y_yield_chg_bps :: real
  il_gilt_yield_chg_bps :: real
  ust_10y_yield_chg_bps :: real
  ig_corp_spread_chg_bps :: real
  hy_corp_spread_chg_bps :: real
  equity_chg_pct :: real
  sonia_swap_chg_bps :: real
  fx_gbpusd_chg_pct :: real
  repo_haircut_gilt_chg_pct :: real
  repo_haircut_corp_chg_pct :: real
  bond_futures_basis_chg_bps :: real
  vix_level :: real
  gilt_bid_ask_spread_bps :: real
  corp_bid_ask_spread_bps :: real
  repo_market_availability_pct :: real
  market_depth_gilt_mm :: real
  market_depth_corp_mm :: real
  endogenous_gilt_selling_mm :: real
  endogenous_corp_selling_mm :: real
  endogenous_repo_demand_mm :: real
  endogenous_gilt_yield_add_bps :: real
  endogenous_ig_spread_add_bps :: real
  endogenous_equity_add_pct :: real
  day :: nat

definition MarketState_init :: MarketState where
  "MarketState_init =
     \<lparr>gilt_10y_yield_chg_bps = 0, gilt_30y_yield_chg_bps = 0, il_gilt_yield_chg_bps = 0,
      ust_10y_yield_chg_bps = 0, ig_corp_spread_chg_bps = 0, hy_corp_spread_chg_bps = 0,
      equity_chg_pct = 0, sonia_swap_chg_bps = 0, fx_gbpusd_chg_pct = 0,
      repo_haircut_gilt_chg_pct = 0, repo_haircut_corp_chg_pct = 0,
      bond_futures_basis_chg_bps = 0, vix_level = 15,
      gilt_bid_ask_spread_bps = 2, corp_bid_ask_spread_bps = 5,
      repo_market_availability_pct = 1,
      market_depth_gilt_mm = 5000, market_depth_corp_mm = 2000,
      endogenous_gilt_selling_mm = 0, endogenous_corp_selling_mm = 0,
      endogenous_repo_demand_mm = 0, endogenous_gilt_yield_add_bps = 0,
      endogenous_ig_spread_add_bps = 0, endogenous_equity_add_pct = 0, day = 0\<rparr>"

definition apply_exogenous_scenario :: "MarketState \<Rightarrow> (string \<times> real) list \<Rightarrow> MarketState" where
  "apply_exogenous_scenario m day_values =
     (let vix = dict_get day_values ''vix'' 15;
          stress_intensity = vix / 15
      in m\<lparr>gilt_10y_yield_chg_bps := dict_get day_values ''gilt_10y_yield'' 0,
            gilt_30y_yield_chg_bps := dict_get day_values ''gilt_30y_yield'' 0,
            il_gilt_yield_chg_bps := dict_get day_values ''il_gilt_yield'' 0,
            ust_10y_yield_chg_bps := dict_get day_values ''ust_10y_yield'' 0,
            ig_corp_spread_chg_bps := dict_get day_values ''ig_corp_spread'' 0,
            hy_corp_spread_chg_bps := dict_get day_values ''hy_corp_spread'' 0,
            equity_chg_pct := dict_get day_values ''equity'' 0,
            sonia_swap_chg_bps := dict_get day_values ''sonia_swap'' 0,
            fx_gbpusd_chg_pct := dict_get day_values ''fx_gbpusd'' 0,
            repo_haircut_gilt_chg_pct := dict_get day_values ''repo_haircut_gilt'' 0,
            repo_haircut_corp_chg_pct := dict_get day_values ''repo_haircut_corp'' 0,
            bond_futures_basis_chg_bps := dict_get day_values ''bond_futures_basis'' 0,
            vix_level := vix,
            endogenous_gilt_selling_mm := 0,
            endogenous_corp_selling_mm := 0,
            endogenous_repo_demand_mm := 0,
            endogenous_gilt_yield_add_bps := 0,
            endogenous_ig_spread_add_bps := 0,
            endogenous_equity_add_pct := 0,
            gilt_bid_ask_spread_bps := 2 * stress_intensity,
            corp_bid_ask_spread_bps := 5 * stress_intensity,
            repo_market_availability_pct := max 0.5 (1 - (stress_intensity - 1) * 0.15)\<rparr>)"

text \<open>
  \<open>apply_endogenous_feedback\<close> updates the fields in the order of the source. Its last two
  statements divide by \<open>vix_level / 15\<close>, which raises \<open>ZeroDivisionError\<close> when the
  volatility index is zero.
\<close>

definition gilt_selling_feedback :: "MarketState \<Rightarrow> MarketState" where
  "gilt_selling_feedback m =
     (if market_depth_gilt_mm m > 0 then
        (let gilt_price_impact = (endogenous_gilt_selling_mm m / market_depth_gilt_mm m) * 20
         in m\<lparr>endogenous_gilt_yield_add_bps := endogenous_gilt_yield_add_bps m + gilt_price_impact,
               gilt_10y_yield_chg_bps := gilt_10y_yield_chg_bps m + gilt_price_impact * 0.5,
               gilt_30y_yield_chg_bps := gilt_30y_yield_chg_bps m + gilt_price_impact * 0.7\<rparr>)
      else m)"

definition corp_selling_feedback :: "MarketState \<Rightarrow> MarketState" where
  "corp_selling_feedback m =
     (if market_depth_corp_mm m > 0 then
        (let corp_price_impact = (endogenous_corp_selling_mm m / market_depth_corp_mm m) * 30
         in m\<lparr>endogenous_ig_spread_add_bps := endogenous_ig_spread_add_bps m + corp_price_impact,
               ig_corp_spread_chg_bps := ig_corp_spread_chg_bps m + corp_price_impact * 0.6,
               hy_corp_spread_chg_bps := hy_corp_spread_chg_bps m + corp_price_impact * 1.2\<rparr>)
      else m)"

definition repo_demand_feedback :: "MarketState \<Rightarrow> MarketState" where
  "repo_demand_feedback m =
     (let total_repo_capacity = (50000::real) in
      if total_repo_capacity > 0 then
        (let repo_pressure = endogenous_repo_demand_mm m / total_repo_capacity
         in m\<lparr>repo_market_availability_pct :=
                 max 0.5 (repo_market_availability_pct m - repo_pressure * 0.25)\<rparr>)
      else m)"

definition apply_endogenous_feedback :: "MarketState \<Rightarrow> error + MarketState" where
  "apply_endogenous_feedback m0 =
     (let m1 = gilt_selling_feedback m0;
          m2 = corp_selling_feedback m1;
          m3 = repo_demand_feedback m2;
          m4 = m3\<lparr>gilt_bid_ask_spread_bps :=
                     gilt_bid_ask_spread_bps m3 + endogenous_gilt_selling_mm m3 * 0.001,
                   corp_bid_ask_spread_bps :=
                     corp_bid_ask_spread_bps m3 + endogenous_corp_selling_mm m3 * 0.002\<rparr>;
          stress = vix_level m4 / 15
      in if stress = 0 then Inl ZeroDivisionError
         else Inr (m4\<lparr>market_depth_gilt_mm := max 1000 (5000 / stress),
                       market_depth_corp_mm := max 500 (2000 / stress)\<rparr>))"

definition get_variable :: "MarketState \<Rightarrow> string \<Rightarrow> real" where
  "get_variable m var_name =
     dict_get
       [(''gilt_10y_yield'', gilt_10y_yield_chg_bps m),
        (''gilt_30y_yield'', gilt_30y_yield_chg_bps m),
        (''il_gilt_yield'', il_gilt_yield_chg_bps m),
        (''ust_10y_yield'', ust_10y_yield_chg_bps m),
        (''ig_corp_spread'', ig_corp_spread_chg_bps m),
        (''hy_corp_spread'', hy_corp_spread_chg_bps m),
        (''equity'', equity_chg_pct m),
        (''sonia_swap'', sonia_swap_chg_bps m),
        (''fx_gbpusd'', fx_gbpusd_chg_pct m),
        (''repo_haircut_gilt'', repo_haircut_gilt_chg_pct m),
        (''repo_haircut_corp'', repo_haircut_corp_chg_pct m),
        (''bond_futures_basis'', bond_futures_basis_chg_bps m),
        (''vix'', vix_level m)]
       var_name 0"

section \<open>Relationship network: the typed edge lists (network.py)\<close>

text \<open>
  The four edge lists are what every simulation function reads. The \<open>networkx\<close> graph
  built beside them is read by the dashboard only and is not modelled.
\<close>

record RelationshipNetwork =
  bank_hf_edges :: "(string \<times> string) list"
  bank_ldi_edges :: "(string \<times> string) list"
  bank_insurer_edges :: "(string \<times> string) list"
  nbfi_oef_edges :: "(string \<times> string) list"

definition RelationshipNetwork_init :: RelationshipNetwork where
  "RelationshipNetwork_init =
     \<lparr>bank_hf_edges = [], bank_ldi_edges = [], bank_insurer_edges = [], nbfi_oef_edges = []\<rparr>"

definition get_connected_hfs :: "RelationshipNetwork \<Rightarrow> string \<Rightarrow> string list" where
  "get_connected_hfs net bank_name = [hf. (bank, hf) \<leftarrow> bank_hf_edges net, bank = bank_name]"

definition get_connected_banks :: "RelationshipNetwork \<Rightarrow> string \<Rightarrow> string list" where
  "get_connected_banks net hf_name = [bank. (bank, hf) \<leftarrow> bank_hf_edges net, hf = hf_name]"

definition get_connected_ldis :: "RelationshipNetwork \<Rightarrow> string \<Rightarrow> string list" where
  "get_connected_ldis net bank_name = [ldi. (bank, ldi) \<leftarrow> bank_ldi_edges net, bank = bank_name]"

definition get_clearing_banks :: "RelationshipNetwork \<Rightarrow> string \<Rightarrow> string list" where
  "get_clearing_banks net ldi_name = [bank. (bank, ldi) \<leftarrow> bank_ldi_edges net, ldi = ldi_name]"

definition get_oef_redeemers :: "RelationshipNetwork \<Rightarrow> string \<Rightarrow> string list" where
  "get_oef_redeemers net oef_name = [nbfi. (nbfi, oef) \<leftarrow> nbfi_oef_edges net, oef = oef_name]"

definition get_redemption_targets :: "RelationshipNetwork \<Rightarrow> string \<Rightarrow> string list" where
  "get_redemption_targets net nbfi_name = [oef. (nbfi, oef) \<leftarrow> nbfi_oef_edges net, nbfi = nbfi_name]"

section \<open>Configuration constants (config.py)\<close>

named_theorems config_defs

definition REACTION_PARAMS_bank_sell_gilt :: "real \<times> real" where
  [config_defs]: "REACTION_PARAMS_bank_sell_gilt = (0.10, 0.20)"
definition REACTION_PARAMS_bank_sell_corp :: "real \<times> real" where
  [config_defs]: "REACTION_PARAMS_bank_sell_corp = (0.08, 0.02)"

definition REACTION_PARAMS_ldi_pension_repo_ask_pct :: real where
  [config_defs]: "REACTION_PARAMS_ldi_pension_repo_ask_pct = 0.85"
definition REACTION_PARAMS_ldi_pension_sell_gilt :: "real \<times> real" where
  [config_defs]: "REACTION_PARAMS_ldi_pension_sell_gilt = (0.15, 0.15)"
definition REACTION_PARAMS_ldi_pension_sell_il_gilt :: "real \<times> real" where
  [config_defs]: "REACTION_PARAMS_ldi_pension_sell_il_gilt = (0.08, 0.02)"
definition REACTION_PARAMS_ldi_pension_sell_corp :: "real \<times> real" where
  [config_defs]: "REACTION_PARAMS_ldi_pension_sell_corp = (0.05, 0.015)"

definition REACTION_PARAMS_hedge_fund_repo_ask_pct :: real where
  [config_defs]: "REACTION_PARAMS_hedge_fund_repo_ask_pct = 0.85"
definition REACTION_PARAMS_hedge_fund_sell_gilt :: "real \<times> real" where
  [config_defs]: "REACTION_PARAMS_hedge_fund_sell_gilt = (0.10, 0.10)"
definition REACTION_PARAMS_hedge_fund_sell_corp :: "real \<times> real" where
  [config_defs]: "REACTION_PARAMS_hedge_fund_sell_corp = (0.10, 0.025)"
definition REACTION_PARAMS_hedge_fund_sell_equity :: "real \<times> real" where
  [config_defs]: "REACTION_PARAMS_hedge_fund_sell_equity = (0.10, 0.025)"
definition REACTION_PARAMS_hedge_fund_sell_basis_unwind :: "real \<times> real" where
  [config_defs]: "REACTION_PARAMS_hedge_fund_sell_basis_unwind = (0.10, 0.04)"
definition REACTION_PARAMS_hedge_fund_multi_strategy :: "real \<times> real" where
  [config_defs]: "REACTION_PARAMS_hedge_fund_multi_strategy = (0.05, 0.03)"

definition REACTION_PARAMS_insurer_repo_ask_pct :: real where
  [config_defs]: "REACTION_PARAMS_insurer_repo_ask_pct = 0.80"
definition REACTION_PARAMS_insurer_sell_gilt :: "real \<times> real" where
  [config_defs]: "REACTION_PARAMS_insurer_sell_gilt = (0.15, 0.10)"
definition REACTION_PARAMS_insurer_sell_corp :: "real \<times> real" where
  [config_defs]: "REACTION_PARAMS_insurer_sell_corp = (0.08, 0.02)"
definition REACTION_PARAMS_insurer_sell_equity :: "real \<times> real" where
  [config_defs]: "REACTION_PARAMS_insurer_sell_equity = (0.05, 0.025)"

definition REACTION_PARAMS_oef_mmf_sell_gilt :: "real \<times> real" where
  [config_defs]: "REACTION_PARAMS_oef_mmf_sell_gilt = (0.10, 0.20)"
definition REACTION_PARAMS_oef_mmf_sell_corp :: "real \<times> real" where
  [config_defs]: "REACTION_PARAMS_oef_mmf_sell_corp = (0.08, 0.02)"

definition BUFFER_PARAMS_bank_boe_eligible_mult :: real where
  [config_defs]: "BUFFER_PARAMS_bank_boe_eligible_mult = 0.15"
definition BUFFER_PARAMS_bank_cet1_mult :: real where
  [config_defs]: "BUFFER_PARAMS_bank_cet1_mult = 0.08"
definition BUFFER_PARAMS_bank_wholesale_funding_runoff_mult :: real where
  [config_defs]: "BUFFER_PARAMS_bank_wholesale_funding_runoff_mult = 0.10"
definition BUFFER_PARAMS_bank_floor_pct_of_bs :: real where
  [config_defs]: "BUFFER_PARAMS_bank_floor_pct_of_bs = 0.002"

definition BUFFER_PARAMS_ldi_pension_cash_mult :: real where
  [config_defs]: "BUFFER_PARAMS_ldi_pension_cash_mult = 1.0"
definition BUFFER_PARAMS_ldi_pension_unencumbered_collateral_mult :: real where
  [config_defs]: "BUFFER_PARAMS_ldi_pension_unencumbered_collateral_mult = 0.3"
definition BUFFER_PARAMS_ldi_pension_floor_pct_of_aum :: real where
  [config_defs]: "BUFFER_PARAMS_ldi_pension_floor_pct_of_aum = 0.005"

definition BUFFER_PARAMS_hedge_fund_cash_mult :: real where
  [config_defs]: "BUFFER_PARAMS_hedge_fund_cash_mult = 1.0"
definition BUFFER_PARAMS_hedge_fund_floor_pct_of_aum :: real where
  [config_defs]: "BUFFER_PARAMS_hedge_fund_floor_pct_of_aum = 0.005"

definition BUFFER_PARAMS_insurer_cash_mult :: real where
  [config_defs]: "BUFFER_PARAMS_insurer_cash_mult = 0.5"
definition BUFFER_PARAMS_insurer_committed_repo_mult :: real where
  [config_defs]: "BUFFER_PARAMS_insurer_committed_repo_mult = 0.2"
definition BUFFER_PARAMS_insurer_rcf_mult :: real where
  [config_defs]: "BUFFER_PARAMS_insurer_rcf_mult = 0.2"
definition BUFFER_PARAMS_insurer_floor_pct_of_assets :: real where
  [config_defs]: "BUFFER_PARAMS_insurer_floor_pct_of_assets = 0.002"

definition BUFFER_PARAMS_oef_mmf_cash_mult :: real where
  [config_defs]: "BUFFER_PARAMS_oef_mmf_cash_mult = 0.5"
definition BUFFER_PARAMS_oef_mmf_floor_pct_of_aum :: real where
  [config_defs]: "BUFFER_PARAMS_oef_mmf_floor_pct_of_aum = 0.01"

definition FEEDBACK_PARAMS_bank_counterparty_loss_coeff :: real where
  [config_defs]: "FEEDBACK_PARAMS_bank_counterparty_loss_coeff = 0.005"
definition FEEDBACK_PARAMS_bank_repo_refusal_stress_threshold :: real where
  [config_defs]: "FEEDBACK_PARAMS_bank_repo_refusal_stress_threshold = 0.266353"

section \<open>Agents: the base class and its five subclasses\<close>

text \<open>
  An agent is the record of the attributes \<open>BaseAgent.__init__\<close> sets, together with the
  attributes of its class. The class decides which method bodies run; the string
  \<open>agent_type\<close> is what the network and the engine filter on.
\<close>

record BankFields =
  tier :: string
  risk_appetite :: real
  total_bs_mm :: real
  gilt_mm_appetite_mm :: real
  corp_mm_appetite_mm :: real
  mm_appetite_consumed_pct :: real
  repo_capacity_mm :: real
  willingness_to_roll_pct :: real
  willingness_to_extend_new_pct :: real
  haircut_sensitivity :: real
  daily_capacity_history :: "real list"
  corp_appetite_consumed_pct :: real
  daily_corp_capacity_history :: "real list"
  daily_combined_capacity_history :: "real list"

record HedgeFundFields =
  hf_strategy :: string
  hf_aum_mm :: real
  gross_leverage :: real
  var_utilisation :: real
  deleverage_trigger_var_pct :: real
  repo_dependence :: string
  repo_dep_mult :: real
  primary_sensitivities :: "string list"
  secondary_sensitivities :: "string list"
  repo_refused_by_all :: bool
  has_ever_sought_repo :: bool

record LDIFields =
  yield_buffer_bps :: real
  ldi_leverage_ratio :: real
  ldi_aum_mm :: real
  recap_available_mm :: real
  recap_speed_days :: real
  is_pooled :: bool
  recap_used_mm :: real
  yield_buffer_consumed_pct :: real

record InsurerFields =
  hedge_ratio :: real
  dirty_csa_pct :: real
  total_mm :: real
  committed_repo_mm :: real
  rcf_mm :: real

record OEFFields =
  oef_strategy :: string
  oef_aum_mm :: real
  pension_investor_pct :: real
  insurer_investor_pct :: real
  cash_buffer_pct :: real
  cumulative_redemption_inflows_mm :: real

datatype AgentClass =
    BankAgent BankFields
  | HedgeFundAgent HedgeFundFields
  | LDIPensionAgent LDIFields
  | InsurerAgent InsurerFields
  | OEFMMFAgent OEFFields

record BaseAgent =
  name :: string
  agent_type :: string
  theta :: real
  size_factor :: real
  balance_sheet :: "BalanceSheetItem list"
  liquidity :: LiquidityPosition
  has_reacted :: bool
  reactions :: "(string \<times> real) list"
  cumulative_margin_calls_mm :: real
  cumulative_asset_sales_mm :: real
  cumulative_gilt_sales_mm :: real
  cumulative_repo_demand_mm :: real
  cumulative_redemptions_mm :: real

record Agent = BaseAgent +
  cls :: AgentClass

definition get_item :: "Agent \<Rightarrow> string \<Rightarrow> BalanceSheetItem option" where
  "get_item self n = find (\<lambda>item. item_name item = n) (balance_sheet self)"

definition amount_or_zero :: "BalanceSheetItem option \<Rightarrow> real" where
  "amount_or_zero it = (case it of Some i \<Rightarrow> amount_mm i | None \<Rightarrow> 0)"

definition set_B0 :: "Agent \<Rightarrow> real \<Rightarrow> Agent" where
  "set_B0 self v = self\<lparr>liquidity := (liquidity self)\<lparr>B0 := v\<rparr>\<rparr>"

text \<open>\<open>{a.name: a for a in agents}\<close>: a later agent of the same name replaces an earlier one.\<close>

definition agent_map :: "Agent list \<Rightarrow> string \<Rightarrow> Agent option" where
  "agent_map agents = map_of (rev (map (\<lambda>a. (name a, a)) agents))"

text \<open>The loop every \<open>compute_mtm_impact\<close> runs over the items it is given.\<close>

definition mtm_sum :: "BalanceSheetItem list \<Rightarrow> (string \<times> real) list \<Rightarrow> real" where
  "mtm_sum items day_delta =
     (\<Sum>item\<leftarrow>items. \<Sum>(var, sens)\<leftarrow>sensitivity_map item.
        \<bar>amount_mm item * sens * dict_get day_delta var 0\<bar>)"

text \<open>
  One step of a reaction waterfall: when the item is held, record
  \<open>min(shortfall * sf, amount * hc)\<close> under the action and reduce the shortfall by it.
  \<open>sell_step\<close> is the same step under the guard \<open>if shortfall > 0\<close>.
\<close>

definition draw_step ::
  "Agent \<Rightarrow> string \<Rightarrow> string \<Rightarrow> real \<times> real \<Rightarrow> (string \<times> real) list \<times> real
   \<Rightarrow> (string \<times> real) list \<times> real" where
  "draw_step self item action caps st =
     (case st of (reacts, shortfall) \<Rightarrow>
      (case caps of (sf, hc) \<Rightarrow>
       (case get_item self item of
          Some it \<Rightarrow>
            if amount_mm it > 0 then
              (let sell = min (shortfall * sf) (amount_mm it * hc)
               in (dict_set reacts action sell, shortfall - sell))
            else (reacts, shortfall)
        | None \<Rightarrow> (reacts, shortfall))))"

definition sell_step ::
  "Agent \<Rightarrow> string \<Rightarrow> string \<Rightarrow> real \<times> real \<Rightarrow> (string \<times> real) list \<times> real
   \<Rightarrow> (string \<times> real) list \<times> real" where
  "sell_step self item action caps st =
     (if snd st > 0 then draw_step self item action caps st else st)"

subsection \<open>Bank (agents/bank.py)\<close>

definition Bank_compute_initial_buffer :: "Agent \<Rightarrow> BankFields \<Rightarrow> real \<times> Agent" where
  "Bank_compute_initial_buffer self b =
     (let boe_val = amount_or_zero (get_item self ''BoE Facility Eligible'');
          cet1_val = amount_or_zero (get_item self ''CET1 Buffer'');
          wf_val = amount_or_zero (get_item self ''Wholesale Funding'');
          b0 = boe_val * BUFFER_PARAMS_bank_boe_eligible_mult
               + cet1_val * BUFFER_PARAMS_bank_cet1_mult
               - wf_val * BUFFER_PARAMS_bank_wholesale_funding_runoff_mult;
          b0' = max b0 (total_bs_mm b * BUFFER_PARAMS_bank_floor_pct_of_bs)
      in (b0', set_B0 self b0'))"

definition Bank_compute_mtm_impact :: "Agent \<Rightarrow> (string \<times> real) list \<Rightarrow> real" where
  "Bank_compute_mtm_impact self day_delta = mtm_sum (balance_sheet self) day_delta"

definition Bank_compute_margin_calls :: "Agent \<Rightarrow> MarketState \<Rightarrow> real" where
  "Bank_compute_margin_calls self market =
     (case get_item self ''Derivative Assets'' of
        None \<Rightarrow> 0
      | Some deriv \<Rightarrow>
          (let stress = vix_level market / 15;
               vm = amount_mm deriv * \<bar>gilt_10y_yield_chg_bps market\<bar> * 0.0001 * 0.05;
               im_increase = (if stress > 1 then amount_mm deriv * (stress - 1) * 0.005 else 0)
           in vm + im_increase))"

definition Bank_compute_redemptions :: "Agent \<Rightarrow> MarketState \<Rightarrow> real" where
  "Bank_compute_redemptions self market =
     (case get_item self ''Wholesale Funding'' of
        None \<Rightarrow> 0
      | Some wfund \<Rightarrow>
          (let stress = vix_level market / 15
           in if stress > 2 then amount_mm wfund * (stress - 2) * 0.02 else 0))"

definition Bank_compute_reactions :: "Agent \<Rightarrow> BankFields \<Rightarrow> (string \<times> real) list" where
  "Bank_compute_reactions self b =
     (let shortfall = max 0 (- B1 (liquidity self));
          st1 = draw_step self ''BoE Facility Eligible'' ''boe_facility'' (0.3, 0.5) ([], shortfall);
          st2 = sell_step self ''Repo Lending'' ''reduce_repo_lending''
                  (0.3, (1 - risk_appetite b) * 0.3) st1;
          st3 = sell_step self ''Gilt Holdings'' ''sell_gilt'' REACTION_PARAMS_bank_sell_gilt st2;
          st4 = sell_step self ''Corporate Bond Holdings'' ''sell_corp_bonds''
                  REACTION_PARAMS_bank_sell_corp st3
      in fst st4)"

definition assess_repo_request ::
  "Agent \<Rightarrow> BankFields \<Rightarrow> string \<Rightarrow> real \<Rightarrow> RelationshipNetwork option \<Rightarrow> real" where
  "assess_repo_request self b requesting_agent_name amount network =
     (case network of
        None \<Rightarrow> 0
      | Some net \<Rightarrow>
          (let connected_hfs = get_connected_hfs net (name self);
               connected_ldis = get_connected_ldis net (name self);
               connected_insurers = [i. (bk, i) \<leftarrow> bank_insurer_edges net, bk = name self];
               all_connected = connected_hfs @ connected_ldis @ connected_insurers
           in if requesting_agent_name \<notin> set all_connected then 0
              else
                (let threshold = FEEDBACK_PARAMS_bank_repo_refusal_stress_threshold;
                     stress_ratio = E1 (liquidity self) / max (B0 (liquidity self)) 1;
                     stress_scaling = max 0 (1 - stress_ratio / threshold);
                     available = repo_capacity_mm b * willingness_to_extend_new_pct b
                 in min amount (available * risk_appetite b * stress_scaling))))"

definition absorb_selling_pressure :: "BankFields \<Rightarrow> real \<Rightarrow> real \<times> BankFields" where
  "absorb_selling_pressure b amount =
     (let remaining_appetite = gilt_mm_appetite_mm b * (1 - mm_appetite_consumed_pct b);
          absorbed = min amount (remaining_appetite * risk_appetite b)
      in if gilt_mm_appetite_mm b > 0 then
           (absorbed,
            b\<lparr>mm_appetite_consumed_pct :=
                min 1 (mm_appetite_consumed_pct b + absorbed / gilt_mm_appetite_mm b)\<rparr>)
         else (absorbed, b))"

definition absorb_corp_selling_pressure :: "BankFields \<Rightarrow> real \<Rightarrow> real \<times> BankFields" where
  "absorb_corp_selling_pressure b amount =
     (let remaining_appetite = corp_mm_appetite_mm b * (1 - corp_appetite_consumed_pct b);
          absorbed = min amount (remaining_appetite * risk_appetite b)
      in if corp_mm_appetite_mm b > 0 then
           (absorbed,
            b\<lparr>corp_appetite_consumed_pct :=
                min 1 (corp_appetite_consumed_pct b + absorbed / corp_mm_appetite_mm b)\<rparr>)
         else (absorbed, b))"

definition tighten_repo_for_counterparties :: "BankFields \<Rightarrow> BankFields" where
  "tighten_repo_for_counterparties b =
     (let tightening = (1 - risk_appetite b) * 0.3
      in b\<lparr>willingness_to_extend_new_pct := max 0 (willingness_to_extend_new_pct b - tightening),
            willingness_to_roll_pct := max 0.5 (willingness_to_roll_pct b - tightening * 0.5)\<rparr>)"

definition post_registration_update :: "Agent \<Rightarrow> BankFields \<Rightarrow> real \<Rightarrow> real \<Rightarrow> Agent" where
  "post_registration_update self b gilt_to_absorb corp_to_absorb =
     (let b1 = snd (absorb_selling_pressure b gilt_to_absorb);
          b2 = snd (absorb_corp_selling_pressure b1 corp_to_absorb);
          b3 = (if has_reacted self then tighten_repo_for_counterparties b2 else b2);
          b4 = b3\<lparr>daily_capacity_history :=
                    daily_capacity_history b3 @ [mm_appetite_consumed_pct b3],
                  daily_corp_capacity_history :=
                    daily_corp_capacity_history b3 @ [corp_appetite_consumed_pct b3]\<rparr>;
          total_cap = gilt_mm_appetite_mm b4 + corp_mm_appetite_mm b4;
          combined =
            (if total_cap > 0 then
               (let gilt_used = mm_appetite_consumed_pct b4 * gilt_mm_appetite_mm b4;
                    corp_used = corp_appetite_consumed_pct b4 * corp_mm_appetite_mm b4
                in (gilt_used + corp_used) / total_cap)
             else 0);
          b5 = b4\<lparr>daily_combined_capacity_history :=
                    daily_combined_capacity_history b4 @ [combined]\<rparr>
      in self\<lparr>cls := BankAgent b5\<rparr>)"

text \<open>
  The repo round of the hedge fund, the LDI fund and the insurer: the ask is split evenly
  over the connected banks; a name that is not an agent with \<open>assess_repo_request\<close> (not a
  bank) is answered at the market's repo availability.
\<close>

definition seek_repo_from ::
  "Agent list \<Rightarrow> MarketState \<Rightarrow> RelationshipNetwork \<Rightarrow> string \<Rightarrow> string list \<Rightarrow> real \<Rightarrow> real" where
  "seek_repo_from agents market net self_name connected_names repo_ask =
     (\<Sum>bank_name\<leftarrow>connected_names.
        (let ask_per_bank = repo_ask / max (real (length connected_names)) 1
         in case agent_map agents bank_name of
              Some bank \<Rightarrow>
                (case cls bank of
                   BankAgent b \<Rightarrow> assess_repo_request bank b self_name ask_per_bank (Some net)
                 | _ \<Rightarrow> ask_per_bank * repo_market_availability_pct market)
            | None \<Rightarrow> ask_per_bank * repo_market_availability_pct market))"

subsection \<open>Hedge fund (agents/hedge_fund.py)\<close>

definition HedgeFund_compute_initial_buffer :: "Agent \<Rightarrow> HedgeFundFields \<Rightarrow> real \<times> Agent" where
  "HedgeFund_compute_initial_buffer self h =
     (let cash_val = amount_or_zero (get_item self ''Cash & Margin'');
          b0 = max (cash_val * BUFFER_PARAMS_hedge_fund_cash_mult)
                   (hf_aum_mm h * BUFFER_PARAMS_hedge_fund_floor_pct_of_aum)
      in (b0, set_B0 self b0))"

definition HedgeFund_compute_mtm_impact ::
  "Agent \<Rightarrow> HedgeFundFields \<Rightarrow> (string \<times> real) list \<Rightarrow> real" where
  "HedgeFund_compute_mtm_impact self h day_delta =
     mtm_sum [item \<leftarrow> balance_sheet self.
                category item = ''liquid_asset'' \<or> category item = ''illiquid_asset''] day_delta
     * (1 + (gross_leverage h - 1) * 0.3)"

definition max_or_zero :: "real list \<Rightarrow> real" where
  "max_or_zero xs = (case xs of [] \<Rightarrow> 0 | y # ys \<Rightarrow> fold max ys y)"

definition HedgeFund_compute_margin_calls :: "HedgeFundFields \<Rightarrow> MarketState \<Rightarrow> real" where
  "HedgeFund_compute_margin_calls h market =
     (let stress = vix_level market / 15;
          primary_moves = map (\<lambda>var. \<bar>get_variable market var\<bar>) (primary_sensitivities h);
          max_move = max_or_zero primary_moves;
          vm = hf_aum_mm h * gross_leverage h * max_move * 0.0001 * 0.022;
          im_increase = hf_aum_mm h * gross_leverage h * max 0 (stress - 1) * 0.002;
          haircut_impact =
            (if repo_dep_mult h > 0.5
             then hf_aum_mm h * repo_dep_mult h * repo_haircut_gilt_chg_pct market * 0.003
             else 0)
      in vm + im_increase + haircut_impact)"

definition HedgeFund_compute_redemptions :: "HedgeFundFields \<Rightarrow> MarketState \<Rightarrow> real" where
  "HedgeFund_compute_redemptions h market =
     (let stress = vix_level market / 15
      in if stress > 2.5 \<and> var_utilisation h > 0.85 then hf_aum_mm h * 0.02 else 0)"

definition HedgeFund_seek_repo ::
  "Agent \<Rightarrow> HedgeFundFields \<Rightarrow> MarketState \<Rightarrow> RelationshipNetwork option \<Rightarrow> Agent list
   \<Rightarrow> (string \<times> real) list \<times> real \<Rightarrow> ((string \<times> real) list \<times> real) \<times> HedgeFundFields" where
  "HedgeFund_seek_repo self h market network agents st =
     (case st of (reacts, shortfall) \<Rightarrow>
      (case network of
         None \<Rightarrow> (st, h)
       | Some net \<Rightarrow>
           if repo_dep_mult h > 0 then
             (let connected_banks = get_connected_banks net (name self);
                  repo_ask = shortfall * max (repo_dep_mult h) 0.6
                             * REACTION_PARAMS_hedge_fund_repo_ask_pct;
                  h1 = (if repo_ask > 0 then h\<lparr>has_ever_sought_repo := True\<rparr> else h);
                  repo_obtained =
                    seek_repo_from agents market net (name self) connected_banks repo_ask
              in if repo_obtained > 0 then
                   ((dict_set reacts ''seek_repo'' repo_obtained, shortfall - repo_obtained), h1)
                 else if repo_ask > 0 then (st, h1\<lparr>repo_refused_by_all := True\<rparr>)
                 else (st, h1))
           else (st, h)))"

definition HedgeFund_strategy_sales ::
  "Agent \<Rightarrow> HedgeFundFields \<Rightarrow> (string \<times> real) list \<times> real \<Rightarrow> (string \<times> real) list \<times> real" where
  "HedgeFund_strategy_sales self h st =
     (if snd st > 0 then
        (if hf_strategy h = ''relative_value'' then
           sell_step self ''Gilt Positions (net)'' ''sell_gilt'' REACTION_PARAMS_hedge_fund_sell_gilt
             (draw_step self ''Basis Trade Positions'' ''sell_gilt_basis_unwind''
                REACTION_PARAMS_hedge_fund_sell_basis_unwind st)
         else if hf_strategy h = ''macro_rates'' then
           draw_step self ''Gilt Positions (net)'' ''sell_gilt'' REACTION_PARAMS_hedge_fund_sell_gilt st
         else if hf_strategy h = ''credit_long_short'' then
           draw_step self ''Corp Bond Positions'' ''sell_corp_bonds''
             REACTION_PARAMS_hedge_fund_sell_corp st
         else if hf_strategy h = ''long_short_equity'' then
           draw_step self ''Equity Positions'' ''sell_equity''
             REACTION_PARAMS_hedge_fund_sell_equity st
         else
           sell_step self ''Equity Positions'' ''sell_equity''
             REACTION_PARAMS_hedge_fund_multi_strategy
             (sell_step self ''Corp Bond Positions'' ''sell_corp_bonds''
                REACTION_PARAMS_hedge_fund_multi_strategy
                (sell_step self ''Gilt Positions (net)'' ''sell_gilt''
                   REACTION_PARAMS_hedge_fund_multi_strategy st)))
      else st)"

definition HedgeFund_compute_reactions ::
  "Agent \<Rightarrow> HedgeFundFields \<Rightarrow> MarketState \<Rightarrow> RelationshipNetwork option \<Rightarrow> Agent list
   \<Rightarrow> (string \<times> real) list \<times> Agent" where
  "HedgeFund_compute_reactions self h market network agents =
     (let shortfall = max 0 (- B1 (liquidity self)) + E1 (liquidity self) * 0.2;
          r1 = HedgeFund_seek_repo self h market network agents ([], shortfall);
          h1 = snd r1;
          st2 = HedgeFund_strategy_sales self h1 (fst r1);
          reacts =
            (case network of
               None \<Rightarrow> fst st2
             | Some net \<Rightarrow>
                 if snd st2 > 0 then
                   (let oef_targets = get_redemption_targets net (name self)
                    in if oef_targets \<noteq> [] then
                         (let redeem_per_oef =
                                min (snd st2 * 0.2) (hf_aum_mm h1 * 0.05)
                                / max (real (length oef_targets)) 1
                          in dict_set (fst st2) ''redeem_mmf''
                               (redeem_per_oef * real (length oef_targets)))
                       else fst st2)
                 else fst st2)
      in (reacts, self\<lparr>cls := HedgeFundAgent h1\<rparr>))"

subsection \<open>LDI / pension fund (agents/ldi_pension.py)\<close>

definition LDIPension_compute_initial_buffer :: "Agent \<Rightarrow> LDIFields \<Rightarrow> real \<times> Agent" where
  "LDIPension_compute_initial_buffer self l =
     (let cash_val = amount_or_zero (get_item self ''Cash & MMF'');
          uec_val = amount_or_zero (get_item self ''Unencumbered Collateral'');
          b0 = cash_val * BUFFER_PARAMS_ldi_pension_cash_mult
               + uec_val * BUFFER_PARAMS_ldi_pension_unencumbered_collateral_mult;
          b0' = max b0 (ldi_aum_mm l * BUFFER_PARAMS_ldi_pension_floor_pct_of_aum)
      in (b0', set_B0 self b0'))"

definition LDIPension_compute_mtm_impact ::
  "Agent \<Rightarrow> LDIFields \<Rightarrow> (string \<times> real) list \<Rightarrow> real" where
  "LDIPension_compute_mtm_impact self l day_delta =
     mtm_sum (balance_sheet self) day_delta * (ldi_leverage_ratio l * 0.5)"

text \<open>
  \<open>compute_margin_calls\<close> of the LDI fund stores the consumed share of the yield buffer on
  the agent, and divides by \<open>yield_buffer_bps\<close>.
\<close>

definition LDIPension_compute_margin_calls ::
  "Agent \<Rightarrow> LDIFields \<Rightarrow> MarketState \<Rightarrow> error + real \<times> Agent" where
  "LDIPension_compute_margin_calls self l market =
     (case get_item self ''Derivatives Exposure'' of
        None \<Rightarrow> Inr (0, self)
      | Some deriv \<Rightarrow>
          (let gilt_move = max \<bar>gilt_10y_yield_chg_bps market\<bar> \<bar>gilt_30y_yield_chg_bps market\<bar>;
               vm = amount_mm deriv * gilt_move * 0.0001 * 0.04;
               stress = vix_level market / 15;
               im_increase = amount_mm deriv * max 0 (stress - 1) * 0.003;
               cumulative_gilt_move = \<bar>gilt_10y_yield_chg_bps market\<bar>
           in if yield_buffer_bps l = 0 then Inl ZeroDivisionError
              else
                (let consumed = min 1 (cumulative_gilt_move / yield_buffer_bps l);
                     l' = l\<lparr>yield_buffer_consumed_pct := consumed\<rparr>;
                     vm' = (if consumed \<ge> 1
                            then vm + amount_mm deriv
                                      * (cumulative_gilt_move - yield_buffer_bps l') * 0.0001 * 0.06
                            else vm)
                 in Inr (vm' + im_increase, self\<lparr>cls := LDIPensionAgent l'\<rparr>))))"

definition LDIPension_compute_redemptions ::
  "Agent \<Rightarrow> LDIFields \<Rightarrow> RelationshipNetwork option \<Rightarrow> real" where
  "LDIPension_compute_redemptions self l network =
     (case network of
        None \<Rightarrow> 0
      | Some net \<Rightarrow>
          if yield_buffer_consumed_pct l > 0.7 then
            (let oef_targets = get_redemption_targets net (name self)
             in case get_item self ''Cash & MMF'' of
                  None \<Rightarrow> 0
                | Some cash_mmf \<Rightarrow>
                    if oef_targets \<noteq> [] \<and> amount_mm cash_mmf > 0
                    then amount_mm cash_mmf * yield_buffer_consumed_pct l * 0.3
                    else 0)
          else 0)"

definition LDIPension_recapitalise ::
  "LDIFields \<Rightarrow> (string \<times> real) list \<times> real \<Rightarrow> ((string \<times> real) list \<times> real) \<times> LDIFields" where
  "LDIPension_recapitalise l st =
     (case st of (reacts, shortfall) \<Rightarrow>
        if shortfall > 0 \<and> recap_available_mm l > recap_used_mm l then
          (let daily_recap = (recap_available_mm l - recap_used_mm l) / max (recap_speed_days l) 1;
               recap_use = min (shortfall * 0.3) daily_recap
           in ((dict_set reacts ''recapitalisation'' recap_use, shortfall - recap_use),
               l\<lparr>recap_used_mm := recap_used_mm l + recap_use\<rparr>))
        else (st, l))"

text \<open>Step 3 of the LDI fund and of the insurer: repo from the connected banks.\<close>

definition seek_repo_step ::
  "Agent \<Rightarrow> MarketState \<Rightarrow> RelationshipNetwork option \<Rightarrow> Agent list \<Rightarrow> (RelationshipNetwork \<Rightarrow> string list)
   \<Rightarrow> real \<Rightarrow> (string \<times> real) list \<times> real \<Rightarrow> (string \<times> real) list \<times> real" where
  "seek_repo_step self market network agents connected_of repo_ask_pct st =
     (case st of (reacts, shortfall) \<Rightarrow>
      (case network of
         None \<Rightarrow> st
       | Some net \<Rightarrow>
           if shortfall > 0 then
             (let repo_ask = shortfall * repo_ask_pct;
                  repo_obtained =
                    seek_repo_from agents market net (name self) (connected_of net) repo_ask
              in if repo_obtained > 0
                 then (dict_set reacts ''seek_repo'' repo_obtained, shortfall - repo_obtained)
                 else st)
           else st))"

text \<open>The last step of the LDI fund and of the insurer: redeem from a connected pooled fund.\<close>

definition redeem_mmf_step ::
  "Agent \<Rightarrow> RelationshipNetwork option \<Rightarrow> real \<Rightarrow> real \<Rightarrow> (string \<times> real) list \<times> real
   \<Rightarrow> (string \<times> real) list \<times> real" where
  "redeem_mmf_step self network share cap st =
     (case st of (reacts, shortfall) \<Rightarrow>
      (case network of
         None \<Rightarrow> st
       | Some net \<Rightarrow>
           if shortfall > 0 \<and> get_redemption_targets net (name self) \<noteq> []
           then (dict_set reacts ''redeem_mmf'' (min (shortfall * share) cap), shortfall)
           else st))"

definition LDIPension_compute_reactions ::
  "Agent \<Rightarrow> LDIFields \<Rightarrow> MarketState \<Rightarrow> RelationshipNetwork option \<Rightarrow> Agent list
   \<Rightarrow> (string \<times> real) list \<times> Agent" where
  "LDIPension_compute_reactions self l market network agents =
     (let shortfall = max 0 (- B1 (liquidity self)) + E1 (liquidity self) * 0.1;
          st1 = draw_step self ''Unencumbered Collateral'' ''post_collateral'' (0.4, 0.5)
                  ([], shortfall);
          r2 = LDIPension_recapitalise l st1;
          l' = snd r2;
          st3 = seek_repo_step self market network agents
                  (\<lambda>net. get_clearing_banks net (name self))
                  REACTION_PARAMS_ldi_pension_repo_ask_pct (fst r2);
          st4 = sell_step self ''Gilt Holdings'' ''sell_gilt''
                  REACTION_PARAMS_ldi_pension_sell_gilt st3;
          st5 = sell_step self ''IL Gilt Holdings'' ''sell_gilt_il''
                  REACTION_PARAMS_ldi_pension_sell_il_gilt st4;
          st6 = sell_step self ''Corporate Bond Holdings'' ''sell_corp_bonds''
                  REACTION_PARAMS_ldi_pension_sell_corp st5;
          st7 = redeem_mmf_step self network 0.2 (ldi_aum_mm l' * 0.05) st6
      in (fst st7, self\<lparr>cls := LDIPensionAgent l'\<rparr>))"

subsection \<open>Insurer (agents/insurer.py)\<close>

definition Insurer_compute_initial_buffer :: "Agent \<Rightarrow> InsurerFields \<Rightarrow> real \<times> Agent" where
  "Insurer_compute_initial_buffer self ins =
     (let cash_val = amount_or_zero (get_item self ''Cash & Liquid'');
          repo_val = amount_or_zero (get_item self ''Committed Repo Lines'');
          rcf_val = amount_or_zero (get_item self ''RCF Available'');
          b0 = cash_val * BUFFER_PARAMS_insurer_cash_mult
               + repo_val * BUFFER_PARAMS_insurer_committed_repo_mult
               + rcf_val * BUFFER_PARAMS_insurer_rcf_mult;
          b0' = max b0 (total_mm ins * BUFFER_PARAMS_insurer_floor_pct_of_assets)
      in (b0', set_B0 self b0'))"

definition Insurer_compute_mtm_impact ::
  "Agent \<Rightarrow> InsurerFields \<Rightarrow> (string \<times> real) list \<Rightarrow> real" where
  "Insurer_compute_mtm_impact self ins day_delta =
     (let total_mtm = mtm_sum (balance_sheet self) day_delta
      in case get_item self ''Derivative Hedges'' of
           None \<Rightarrow> total_mtm
         | Some deriv \<Rightarrow>
             (let hedge_offset = total_mtm * hedge_ratio ins * 0.3
              in max 0 (total_mtm - hedge_offset)))"

definition Insurer_compute_margin_calls :: "Agent \<Rightarrow> InsurerFields \<Rightarrow> MarketState \<Rightarrow> real" where
  "Insurer_compute_margin_calls self ins market =
     (case get_item self ''Derivative Hedges'' of
        None \<Rightarrow> 0
      | Some deriv \<Rightarrow>
          (let stress = vix_level market / 15;
               vm = amount_mm deriv * \<bar>gilt_10y_yield_chg_bps market\<bar> * 0.0001 * 0.008;
               im = amount_mm deriv * max 0 (stress - 1) * 0.0008;
               vm' = (if dirty_csa_pct ins > 0
                      then vm + amount_mm deriv * dirty_csa_pct ins
                                * repo_haircut_corp_chg_pct market * 0.01 * 0.05
                      else vm)
           in vm' + im))"

definition Insurer_compute_redemptions :: "InsurerFields \<Rightarrow> MarketState \<Rightarrow> real" where
  "Insurer_compute_redemptions ins market =
     (let stress = vix_level market / 15
      in if stress > 2.5 then total_mm ins * 0.005 else 0)"

definition Insurer_compute_reactions ::
  "Agent \<Rightarrow> InsurerFields \<Rightarrow> MarketState \<Rightarrow> RelationshipNetwork option \<Rightarrow> Agent list
   \<Rightarrow> (string \<times> real) list" where
  "Insurer_compute_reactions self ins market network agents =
     (let shortfall = max 0 (- B1 (liquidity self)) + E1 (liquidity self) * 0.1;
          st1 = draw_step self ''Committed Repo Lines'' ''draw_repo_line'' (0.3, 0.5)
                  ([], shortfall);
          st2 = draw_step self ''RCF Available'' ''draw_rcf'' (0.2, 0.5) st1;
          st3 = seek_repo_step self market network agents
                  (\<lambda>net. [bk. (bk, i) \<leftarrow> bank_insurer_edges net, i = name self])
                  REACTION_PARAMS_insurer_repo_ask_pct st2;
          st4 = sell_step self ''Gilt Holdings'' ''sell_gilt'' REACTION_PARAMS_insurer_sell_gilt st3;
          st5 = sell_step self ''Corporate Bond Holdings'' ''sell_corp_bonds''
                  REACTION_PARAMS_insurer_sell_corp st4;
          st6 = sell_step self ''Equity Portfolio'' ''sell_equity''
                  REACTION_PARAMS_insurer_sell_equity st5;
          st7 = redeem_mmf_step self network 0.15 (total_mm ins * 0.03) st6
      in fst st7)"

subsection \<open>Pooled fund (agents/oef_mmf.py)\<close>

definition OEFMMF_compute_initial_buffer :: "Agent \<Rightarrow> OEFFields \<Rightarrow> real \<times> Agent" where
  "OEFMMF_compute_initial_buffer self f =
     (let cash_val = amount_or_zero (get_item self ''Cash Buffer'');
          b0 = max (cash_val * BUFFER_PARAMS_oef_mmf_cash_mult)
                   (oef_aum_mm f * BUFFER_PARAMS_oef_mmf_floor_pct_of_aum)
      in (b0, set_B0 self b0))"

definition OEFMMF_compute_mtm_impact :: "Agent \<Rightarrow> (string \<times> real) list \<Rightarrow> real" where
  "OEFMMF_compute_mtm_impact self day_delta = mtm_sum (balance_sheet self) day_delta"

text \<open>The redemption one connected requester asks of the pooled fund.\<close>

definition redemption_from :: "OEFFields \<Rightarrow> Agent option \<Rightarrow> real" where
  "redemption_from f nbfi_opt =
     (case nbfi_opt of
        None \<Rightarrow> 0
      | Some nbfi \<Rightarrow>
          (let stress_ratio =
                 (if B0 (liquidity nbfi) > 0 then E1 (liquidity nbfi) / B0 (liquidity nbfi) else 0)
           in if stress_ratio > 0.3 then
                (let base_redemption = size_factor nbfi * 0.001 * stress_ratio
                 in if agent_type nbfi = ''ldi_pension''
                    then base_redemption * (pension_investor_pct f * 2)
                    else if agent_type nbfi = ''insurer''
                    then base_redemption * (insurer_investor_pct f * 1.5)
                    else if agent_type nbfi = ''hedge_fund''
                    then base_redemption * 0.5
                    else base_redemption)
              else 0))"

definition OEFMMF_compute_redemptions ::
  "Agent \<Rightarrow> OEFFields \<Rightarrow> RelationshipNetwork option \<Rightarrow> Agent list \<Rightarrow> real \<times> Agent" where
  "OEFMMF_compute_redemptions self f network agents =
     (case network of
        None \<Rightarrow> (0, self)
      | Some net \<Rightarrow>
          (let redeemers = get_oef_redeemers net (name self)
           in if redeemers = [] then (0, self)
              else
                (let total_redemptions =
                       (\<Sum>nbfi_name\<leftarrow>redeemers. redemption_from f (agent_map agents nbfi_name))
                 in (total_redemptions,
                     self\<lparr>cls := OEFMMFAgent
                       (f\<lparr>cumulative_redemption_inflows_mm :=
                            cumulative_redemption_inflows_mm f + total_redemptions\<rparr>)\<rparr>))))"

definition OEFMMF_compute_reactions :: "Agent \<Rightarrow> OEFFields \<Rightarrow> (string \<times> real) list" where
  "OEFMMF_compute_reactions self f =
     (let shortfall = max 0 (- B1 (liquidity self)) + E1 (liquidity self) * 0.1;
          st1 = draw_step self ''Cash Buffer'' ''use_cash_buffer'' (0.5, 0.7) ([], shortfall);
          st2 = sell_step self ''Gilt Holdings'' ''sell_gilt'' REACTION_PARAMS_oef_mmf_sell_gilt st1;
          st3 = sell_step self ''Corporate Bond Holdings'' ''sell_corp_bonds''
                  REACTION_PARAMS_oef_mmf_sell_corp st2
      in if snd st3 > 0 \<and> oef_aum_mm f > 0 then
           (let redemption_ratio = cumulative_redemption_inflows_mm f / oef_aum_mm f
            in if redemption_ratio > 0.15
               then dict_set (fst st3) ''swing_pricing'' (snd st3 * 0.2)
               else fst st3)
         else fst st3)"

subsection \<open>Method dispatch on the class of the agent\<close>

definition compute_initial_buffer :: "Agent \<Rightarrow> real \<times> Agent" where
  "compute_initial_buffer self =
     (case cls self of
        BankAgent b \<Rightarrow> Bank_compute_initial_buffer self b
      | HedgeFundAgent h \<Rightarrow> HedgeFund_compute_initial_buffer self h
      | LDIPensionAgent l \<Rightarrow> LDIPension_compute_initial_buffer self l
      | InsurerAgent ins \<Rightarrow> Insurer_compute_initial_buffer self ins
      | OEFMMFAgent f \<Rightarrow> OEFMMF_compute_initial_buffer self f)"

definition compute_mtm_impact :: "Agent \<Rightarrow> MarketState \<Rightarrow> (string \<times> real) list \<Rightarrow> real" where
  "compute_mtm_impact self market day_delta =
     (case cls self of
        BankAgent b \<Rightarrow> Bank_compute_mtm_impact self day_delta
      | HedgeFundAgent h \<Rightarrow> HedgeFund_compute_mtm_impact self h day_delta
      | LDIPensionAgent l \<Rightarrow> LDIPension_compute_mtm_impact self l day_delta
      | InsurerAgent ins \<Rightarrow> Insurer_compute_mtm_impact self ins day_delta
      | OEFMMFAgent f \<Rightarrow> OEFMMF_compute_mtm_impact self day_delta)"

definition compute_margin_calls :: "Agent \<Rightarrow> MarketState \<Rightarrow> error + real \<times> Agent" where
  "compute_margin_calls self market =
     (case cls self of
        BankAgent b \<Rightarrow> Inr (Bank_compute_margin_calls self market, self)
      | HedgeFundAgent h \<Rightarrow> Inr (HedgeFund_compute_margin_calls h market, self)
      | LDIPensionAgent l \<Rightarrow> LDIPension_compute_margin_calls self l market
      | InsurerAgent ins \<Rightarrow> Inr (Insurer_compute_margin_calls self ins market, self)
      | OEFMMFAgent f \<Rightarrow> Inr (0, self))"

definition compute_redemptions ::
  "Agent \<Rightarrow> MarketState \<Rightarrow> RelationshipNetwork option \<Rightarrow> Agent list \<Rightarrow> real \<times> Agent" where
  "compute_redemptions self market network agents =
     (case cls self of
        BankAgent b \<Rightarrow> (Bank_compute_redemptions self market, self)
      | HedgeFundAgent h \<Rightarrow> (HedgeFund_compute_redemptions h market, self)
      | LDIPensionAgent l \<Rightarrow> (LDIPension_compute_redemptions self l network, self)
      | InsurerAgent ins \<Rightarrow> (Insurer_compute_redemptions ins market, self)
      | OEFMMFAgent f \<Rightarrow> OEFMMF_compute_redemptions self f network agents)"

definition compute_reactions ::
  "Agent \<Rightarrow> MarketState \<Rightarrow> RelationshipNetwork option \<Rightarrow> Agent list
   \<Rightarrow> (string \<times> real) list \<times> Agent" where
  "compute_reactions self market network agents =
     (case cls self of
        BankAgent b \<Rightarrow> (Bank_compute_reactions self b, self)
      | HedgeFundAgent h \<Rightarrow> HedgeFund_compute_reactions self h market network agents
      | LDIPensionAgent l \<Rightarrow> LDIPension_compute_reactions self l market network agents
      | InsurerAgent ins \<Rightarrow> (Insurer_compute_reactions self ins market network agents, self)
      | OEFMMFAgent f \<Rightarrow> (OEFMMF_compute_reactions self f, self))"

subsection \<open>The three stages of the base class (agents/base.py)\<close>

text \<open>
  The methods take the list \<open>agents\<close> as it stands when they are called. The agent itself
  is in that list; what the hooks read through it (the liquidity, size and type of other
  agents, the repo terms of banks) is nothing the running method has written before the
  hook reads it.
\<close>

definition compute_stage1 ::
  "Agent \<Rightarrow> MarketState \<Rightarrow> (string \<times> real) list \<Rightarrow> RelationshipNetwork option \<Rightarrow> Agent list
   \<Rightarrow> error + real \<times> Agent" where
  "compute_stage1 self market day_delta network agents =
     (let mtm = compute_mtm_impact self market day_delta
      in case compute_margin_calls self market of
           Inl e \<Rightarrow> Inl e
         | Inr (margin, self1) \<Rightarrow>
             (case compute_redemptions self1 market network agents of
                (redemptions, self2) \<Rightarrow>
                  (let e1 = mtm + margin + redemptions;
                       self3 = self2\<lparr>liquidity := (liquidity self2)\<lparr>E1 := e1\<rparr>\<rparr>;
                       self4 = self3\<lparr>liquidity :=
                                 (liquidity self3)\<lparr>B1 := B0 (liquidity self3) - E1 (liquidity self3)\<rparr>\<rparr>
                   in Inr (E1 (liquidity self4),
                           self4\<lparr>cumulative_margin_calls_mm :=
                                    cumulative_margin_calls_mm self4 + margin,
                                  cumulative_redemptions_mm :=
                                    cumulative_redemptions_mm self4 + redemptions\<rparr>))))"

definition should_react :: "Agent \<Rightarrow> bool" where
  "should_react self =
     (if B0 (liquidity self) \<le> 0 then False
      else E1 (liquidity self) / B0 (liquidity self) > theta self)"

text \<open>The rate at which \<open>compute_stage2\<close> credits an action, chosen by the action's name.\<close>

definition realisation :: "MarketState \<Rightarrow> string \<Rightarrow> real" where
  "realisation market action =
     (if startswith action ''sell_'' then max 0.5 (1 - gilt_bid_ask_spread_bps market / 100)
      else if str_in ''repo'' action then repo_market_availability_pct market
      else if str_in ''boe'' action then 0.95
      else if str_in ''redeem'' action then 0.90
      else 0.80)"

definition count_sales :: "Agent \<Rightarrow> string \<times> real \<Rightarrow> Agent" where
  "count_sales self r =
     (case r of (action, amount) \<Rightarrow>
        (let s1 = (if str_in ''sell'' action
                   then (let s0 = self\<lparr>cumulative_asset_sales_mm :=
                                         cumulative_asset_sales_mm self + amount\<rparr>
                         in if str_in ''gilt'' action
                            then s0\<lparr>cumulative_gilt_sales_mm :=
                                      cumulative_gilt_sales_mm s0 + amount\<rparr>
                            else s0)
                   else self)
         in if str_in ''repo'' action
            then s1\<lparr>cumulative_repo_demand_mm := cumulative_repo_demand_mm s1 + amount\<rparr>
            else s1))"

definition compute_stage2 ::
  "Agent \<Rightarrow> MarketState \<Rightarrow> RelationshipNetwork option \<Rightarrow> Agent list \<Rightarrow> Agent" where
  "compute_stage2 self market network agents =
     (if \<not> should_react self then
        self\<lparr>has_reacted := False, reactions := [],
             liquidity := (liquidity self)\<lparr>B2 := B1 (liquidity self)\<rparr>\<rparr>
      else
        (case compute_reactions (self\<lparr>has_reacted := True\<rparr>) market network agents of
           (rs, self1) \<Rightarrow>
             (let self2 = self1\<lparr>reactions := rs\<rparr>;
                  mitigation = (\<Sum>(action, amount)\<leftarrow>reactions self2.
                                  amount * realisation market action);
                  self3 = self2\<lparr>liquidity :=
                            (liquidity self2)\<lparr>B2 := B1 (liquidity self2) + mitigation\<rparr>\<rparr>
              in foldl count_sales self3 (reactions self3))))"

definition apply_stage3 :: "Agent \<Rightarrow> real \<Rightarrow> Agent" where
  "apply_stage3 self e2 =
     (let self1 = self\<lparr>liquidity := (liquidity self)\<lparr>E2 := E2 (liquidity self) + e2\<rparr>\<rparr>
      in self1\<lparr>liquidity :=
                (liquidity self1)\<lparr>B3 := B2 (liquidity self1) - E2 (liquidity self1)\<rparr>\<rparr>)"

definition register_action :: "MarketState \<Rightarrow> string \<times> real \<Rightarrow> MarketState" where
  "register_action market r =
     (case r of (action, amount) \<Rightarrow>
        if str_in ''gilt'' action \<and> str_in ''sell'' action
        then market\<lparr>endogenous_gilt_selling_mm := endogenous_gilt_selling_mm market + amount\<rparr>
        else if str_in ''corp'' action \<and> str_in ''sell'' action
        then market\<lparr>endogenous_corp_selling_mm := endogenous_corp_selling_mm market + amount\<rparr>
        else if str_in ''repo'' action
        then market\<lparr>endogenous_repo_demand_mm := endogenous_repo_demand_mm market + amount\<rparr>
        else market)"

definition register_actions_to_market :: "Agent \<Rightarrow> MarketState \<Rightarrow> MarketState" where
  "register_actions_to_market self market = foldl register_action market (reactions self)"

definition reset_daily :: "Agent \<Rightarrow> Agent" where
  "reset_daily self =
     self\<lparr>liquidity := (liquidity self)\<lparr>E1 := 0, E2 := 0\<rparr>, has_reacted := False, reactions := []\<rparr>"

section \<open>Constructors\<close>

text \<open>
  A configuration is the dictionary the factory builds: strings, numbers, booleans, lists
  and nested dictionaries. \<open>config[k]\<close> raises \<open>KeyError\<close> on a missing key. The model
  reads every entry at the type the constructor uses it at, and answers \<open>TypeError\<close> where
  the entry has another type.
\<close>

datatype pyval = Num real | Str string | Bool bool | PList "pyval list" | PDict "(string \<times> pyval) list"

definition and_then :: "error + 'a \<Rightarrow> ('a \<Rightarrow> error + 'b) \<Rightarrow> error + 'b" where
  "and_then r f = (case r of Inl e \<Rightarrow> Inl e | Inr v \<Rightarrow> f v)"

definition getitem :: "(string \<times> pyval) list \<Rightarrow> string \<Rightarrow> error + pyval" where
  "getitem d k = (case map_of d k of None \<Rightarrow> Inl KeyError | Some v \<Rightarrow> Inr v)"

definition as_num :: "pyval \<Rightarrow> error + real" where
  "as_num v = (case v of Num r \<Rightarrow> Inr r | _ \<Rightarrow> Inl TypeError)"

definition as_str :: "pyval \<Rightarrow> error + string" where
  "as_str v = (case v of Str t \<Rightarrow> Inr t | _ \<Rightarrow> Inl TypeError)"

definition as_bool :: "pyval \<Rightarrow> error + bool" where
  "as_bool v = (case v of Bool t \<Rightarrow> Inr t | _ \<Rightarrow> Inl TypeError)"

definition as_dict :: "pyval \<Rightarrow> error + (string \<times> pyval) list" where
  "as_dict v = (case v of PDict d \<Rightarrow> Inr d | _ \<Rightarrow> Inl TypeError)"

fun as_str_list :: "pyval list \<Rightarrow> error + string list" where
  "as_str_list [] = Inr []"
| "as_str_list (v # vs) =
     and_then (as_str v) (\<lambda>t. and_then (as_str_list vs) (\<lambda>ts. Inr (t # ts)))"

definition get_num :: "(string \<times> pyval) list \<Rightarrow> string \<Rightarrow> error + real" where
  "get_num d k = and_then (getitem d k) as_num"

definition get_str :: "(string \<times> pyval) list \<Rightarrow> string \<Rightarrow> error + string" where
  "get_str d k = and_then (getitem d k) as_str"

definition get_bool :: "(string \<times> pyval) list \<Rightarrow> string \<Rightarrow> error + bool" where
  "get_bool d k = and_then (getitem d k) as_bool"

definition get_dict :: "(string \<times> pyval) list \<Rightarrow> string \<Rightarrow> error + (string \<times> pyval) list" where
  "get_dict d k = and_then (getitem d k) as_dict"

text \<open>
  \<open>BaseAgent.__init__(self, name, agent_type, theta, size_factor=1.0)\<close>, called with keyword
  arguments. Python binds the keywords to the parameters before the body runs: a keyword
  that names no parameter, or a parameter without default that gets no argument, raises
  \<open>TypeError\<close>. The subclass constructors extend the result by their own attributes.
\<close>

definition BaseAgent_init_params :: "string list" where
  "BaseAgent_init_params = [''name'', ''agent_type'', ''theta'', ''size_factor'']"

definition BaseAgent_init :: "(string \<times> pyval) list \<Rightarrow> error + BaseAgent" where
  "BaseAgent_init kwargs =
     (if filter (\<lambda>k. k \<notin> set BaseAgent_init_params) (map fst kwargs) \<noteq> []
      then Inl TypeError
      else
        (case (map_of kwargs ''name'', map_of kwargs ''agent_type'', map_of kwargs ''theta'') of
           (Some (Str n), Some (Str t), Some (Num th)) \<Rightarrow>
             and_then (as_num (dict_get kwargs ''size_factor'' (Num 1)))
               (\<lambda>sz. Inr \<lparr>name = n, agent_type = t, theta = th, size_factor = sz,
                           balance_sheet = [], liquidity = LiquidityPosition_init,
                           has_reacted = False, reactions = [],
                           cumulative_margin_calls_mm = 0, cumulative_asset_sales_mm = 0,
                           cumulative_gilt_sales_mm = 0, cumulative_repo_demand_mm = 0,
                           cumulative_redemptions_mm = 0\<rparr>)
         | _ \<Rightarrow> Inl TypeError))"

subsection \<open>\<open>BankAgent.__init__\<close>\<close>

definition Bank_balance_sheet :: "(string \<times> pyval) list \<Rightarrow> error + BalanceSheetItem list" where
  "Bank_balance_sheet bs =
     and_then (get_num bs ''gilt_holdings_mm'') (\<lambda>gilt.
     and_then (get_num bs ''corp_bond_holdings_mm'') (\<lambda>corp.
     and_then (get_num bs ''equity_portfolio_mm'') (\<lambda>eq.
     and_then (get_num bs ''repo_lending_mm'') (\<lambda>repo.
     and_then (get_num bs ''derivative_assets_mm'') (\<lambda>deriv.
     and_then (get_num bs ''boe_facility_eligible_mm'') (\<lambda>boe.
     and_then (get_num bs ''wholesale_funding_mm'') (\<lambda>wfund.
     and_then (get_num bs ''cet1_buffer_mm'') (\<lambda>cet1.
       Inr [BalanceSheetItem_init ''Gilt Holdings'' gilt ''liquid_asset''
              [(''gilt_10y_yield'', -0.00045), (''gilt_30y_yield'', -0.00065)] True True,
            BalanceSheetItem_init ''Corporate Bond Holdings'' corp ''liquid_asset''
              [(''ig_corp_spread'', -0.0004), (''hy_corp_spread'', -0.0002)] True True,
            BalanceSheetItem_init ''Equity Portfolio'' eq ''liquid_asset''
              [(''equity'', 0.01)] False True,
            BalanceSheetItem_init ''Repo Lending'' repo ''liquid_asset'' [] False False,
            BalanceSheetItem_init ''Derivative Assets'' deriv ''illiquid_asset''
              [(''gilt_10y_yield'', -0.0002), (''sonia_swap'', -0.0002)] False False,
            BalanceSheetItem_init ''BoE Facility Eligible'' boe ''liquid_asset'' [] True False,
            BalanceSheetItem_init ''Wholesale Funding'' wfund ''liability'' [] False False,
            BalanceSheetItem_init ''CET1 Buffer'' cet1 ''equity'' [] False False]))))))))"

definition Bank_fields :: "(string \<times> pyval) list \<Rightarrow> real \<Rightarrow> error + BankFields" where
  "Bank_fields config total_bs =
     and_then (get_str config ''tier'') (\<lambda>tr.
     and_then (get_num config ''risk_appetite'') (\<lambda>ra.
     and_then (get_dict config ''market_making_capacity'') (\<lambda>mm.
     and_then (get_num mm ''gilt_appetite_mm'') (\<lambda>gilt_app.
     and_then (get_num mm ''corp_bond_appetite_mm'') (\<lambda>corp_app.
     and_then (get_num mm ''appetite_consumed_pct'') (\<lambda>consumed.
     and_then (get_dict config ''repo_provision'') (\<lambda>rp.
     and_then (get_num rp ''total_capacity_mm'') (\<lambda>cap.
     and_then (get_num rp ''willingness_to_roll_pct'') (\<lambda>roll.
     and_then (get_num rp ''willingness_to_extend_new_pct'') (\<lambda>new.
     and_then (get_num rp ''haircut_sensitivity'') (\<lambda>hs.
       Inr \<lparr>tier = tr, risk_appetite = ra, total_bs_mm = total_bs,
            gilt_mm_appetite_mm = gilt_app, corp_mm_appetite_mm = corp_app,
            mm_appetite_consumed_pct = consumed, repo_capacity_mm = cap,
            willingness_to_roll_pct = roll, willingness_to_extend_new_pct = new,
            haircut_sensitivity = hs, daily_capacity_history = [],
            corp_appetite_consumed_pct = 0, daily_corp_capacity_history = [],
            daily_combined_capacity_history = []\<rparr>)))))))))))"

text \<open>
  The bank's constructor passes \<open>buffer_usability\<close> to \<open>BaseAgent.__init__\<close> among the
  keyword arguments. The attributes of the bank are set after that call returns.
\<close>

definition BankAgent_init :: "(string \<times> pyval) list \<Rightarrow> error + Agent" where
  "BankAgent_init config =
     and_then (getitem config ''name'') (\<lambda>nm.
     and_then (getitem config ''theta'') (\<lambda>th.
     and_then (getitem config ''total_bs_mm'') (\<lambda>total_bs.
     and_then (BaseAgent_init
                 [(''name'', nm), (''agent_type'', Str ''bank''), (''theta'', th),
                  (''size_factor'', total_bs),
                  (''buffer_usability'', dict_get config ''buffer_usability'' (Num 0))])
       (\<lambda>self.
     and_then (as_num total_bs) (\<lambda>total.
     and_then (Bank_fields config total) (\<lambda>b.
     and_then (get_dict config ''balance_sheet'') (\<lambda>bs.
     and_then (Bank_balance_sheet bs) (\<lambda>items.
       Inr (BaseAgent.extend (self\<lparr>balance_sheet := items\<rparr>)
              (Agent.fields (BankAgent b)))))))))))"

subsection \<open>\<open>InsurerAgent.__init__\<close>\<close>

definition InsurerAgent_init :: "(string \<times> pyval) list \<Rightarrow> error + Agent" where
  "InsurerAgent_init config =
     and_then (getitem config ''name'') (\<lambda>nm.
     and_then (getitem config ''theta'') (\<lambda>th.
     and_then (get_dict config ''balance_sheet'') (\<lambda>bs.
     and_then (get_num bs ''gilt_holdings_mm'') (\<lambda>gilt.
     and_then (get_num bs ''corp_bond_holdings_mm'') (\<lambda>corp.
     and_then (get_num bs ''equity_portfolio_mm'') (\<lambda>eq.
     and_then (get_num bs ''cash_and_liquid_mm'') (\<lambda>cash.
     and_then (BaseAgent_init
                 [(''name'', nm), (''agent_type'', Str ''insurer''), (''theta'', th),
                  (''size_factor'', Num (gilt + corp + eq + cash))])
       (\<lambda>self.
     and_then (get_num config ''hedge_ratio'') (\<lambda>hr.
     and_then (get_num config ''dirty_csa_pct'') (\<lambda>csa.
     and_then (get_num bs ''committed_repo_lines_mm'') (\<lambda>lines.
     and_then (get_num bs ''rcf_available_mm'') (\<lambda>rcf.
     and_then (get_num bs ''derivative_hedges_notional_mm'') (\<lambda>deriv.
     and_then (get_num bs ''margin_posted_mm'') (\<lambda>margin.
       Inr (BaseAgent.extend
              (self\<lparr>balance_sheet :=
                 [BalanceSheetItem_init ''Gilt Holdings'' gilt ''liquid_asset''
                    [(''gilt_10y_yield'', -0.0005), (''gilt_30y_yield'', -0.0007)] True True,
                  BalanceSheetItem_init ''Corporate Bond Holdings'' corp ''liquid_asset''
                    [(''ig_corp_spread'', -0.0004), (''hy_corp_spread'', -0.0002)] True True,
                  BalanceSheetItem_init ''Equity Portfolio'' eq ''liquid_asset''
                    [(''equity'', 0.01)] False True,
                  BalanceSheetItem_init ''Derivative Hedges'' deriv ''off_bs''
                    [(''gilt_10y_yield'', -0.0002), (''sonia_swap'', -0.0002)] False False,
                  BalanceSheetItem_init ''Cash & Liquid'' cash ''liquid_asset'' [] False False,
                  BalanceSheetItem_init ''Margin Posted'' margin ''illiquid_asset'' [] False False,
                  BalanceSheetItem_init ''Committed Repo Lines'' lines ''liquid_asset'' [] True False,
                  BalanceSheetItem_init ''RCF Available'' rcf ''liquid_asset'' [] False False]\<rparr>)
              (Agent.fields (InsurerAgent
                 \<lparr>hedge_ratio = hr, dirty_csa_pct = csa, total_mm = gilt + corp + eq + cash,
                  committed_repo_mm = lines, rcf_mm = rcf\<rparr>)))))))))))))))))"

subsection \<open>\<open>LDIPensionAgent.__init__\<close>\<close>

definition LDIPensionAgent_init :: "(string \<times> pyval) list \<Rightarrow> error + Agent" where
  "LDIPensionAgent_init config =
     and_then (getitem config ''name'') (\<lambda>nm.
     and_then (getitem config ''theta'') (\<lambda>th.
     and_then (get_dict config ''balance_sheet'') (\<lambda>bs.
     and_then (get_num bs ''gilt_holdings_mm'') (\<lambda>gilt.
     and_then (get_num bs ''il_gilt_holdings_mm'') (\<lambda>il.
     and_then (get_num bs ''corp_bond_holdings_mm'') (\<lambda>corp.
     and_then (get_num bs ''cash_and_mmf_mm'') (\<lambda>cash.
     and_then (BaseAgent_init
                 [(''name'', nm), (''agent_type'', Str ''ldi_pension''), (''theta'', th),
                  (''size_factor'', Num (gilt + il + corp + cash))])
       (\<lambda>self.
     and_then (get_num config ''yield_buffer_bps'') (\<lambda>ybuf.
     and_then (get_num bs ''ldi_leverage_ratio'') (\<lambda>lev.
     and_then (get_dict config ''recapitalisation'') (\<lambda>recap.
     and_then (get_num recap ''pension_scheme_can_recapitalise_mm'') (\<lambda>avail.
     and_then (get_num recap ''recapitalisation_speed_days'') (\<lambda>speed.
     and_then (get_bool recap ''pre_agreed_waterfall'') (\<lambda>pooled.
     and_then (get_num bs ''derivatives_exposure_notional_mm'') (\<lambda>deriv.
     and_then (get_num bs ''unencumbered_collateral_mm'') (\<lambda>uec.
     and_then (get_num bs ''margin_posted_mm'') (\<lambda>margin.
       Inr (BaseAgent.extend
              (self\<lparr>balance_sheet :=
                 [BalanceSheetItem_init ''Gilt Holdings'' gilt ''liquid_asset''
                    [(''gilt_10y_yield'', -0.0006), (''gilt_30y_yield'', -0.0009)] True True,
                  BalanceSheetItem_init ''IL Gilt Holdings'' il ''liquid_asset''
                    [(''il_gilt_yield'', -0.0007)] True True,
                  BalanceSheetItem_init ''Corporate Bond Holdings'' corp ''liquid_asset''
                    [(''ig_corp_spread'', -0.0004)] True True,
                  BalanceSheetItem_init ''Cash & MMF'' cash ''liquid_asset'' [] False False,
                  BalanceSheetItem_init ''Derivatives Exposure'' deriv ''off_bs''
                    [(''gilt_10y_yield'', -0.0003), (''sonia_swap'', -0.0003),
                     (''gilt_30y_yield'', -0.0004)] False False,
                  BalanceSheetItem_init ''Unencumbered Collateral'' uec ''liquid_asset'' [] True False,
                  BalanceSheetItem_init ''Margin Posted'' margin ''illiquid_asset'' [] False False]\<rparr>)
              (Agent.fields (LDIPensionAgent
                 \<lparr>yield_buffer_bps = ybuf, ldi_leverage_ratio = lev,
                  ldi_aum_mm = gilt + il + corp + cash, recap_available_mm = avail,
                  recap_speed_days = speed, is_pooled = pooled, recap_used_mm = 0,
                  yield_buffer_consumed_pct = 0\<rparr>))))))))))))))))))))"

subsection \<open>\<open>OEFMMFAgent.__init__\<close>\<close>

text \<open>\<open>_mid\<close> (and \<open>_sample_range\<close> of the hedge fund): the midpoint of a two-element range,
  zero for anything else.\<close>

definition mid :: "pyval \<Rightarrow> error + real" where
  "mid r =
     (case r of
        PList [x, y] \<Rightarrow> and_then (as_num x) (\<lambda>lo. and_then (as_num y) (\<lambda>hi. Inr ((lo + hi) / 2)))
      | _ \<Rightarrow> Inr 0)"

definition OEFMMFAgent_init :: "(string \<times> pyval) list \<Rightarrow> error + Agent" where
  "OEFMMFAgent_init config =
     and_then (getitem config ''name'') (\<lambda>nm.
     and_then (getitem config ''theta'') (\<lambda>th.
     and_then (get_num config ''aum_mm'') (\<lambda>aum.
     and_then (BaseAgent_init
                 [(''name'', nm), (''agent_type'', Str ''oef_mmf''), (''theta'', th),
                  (''size_factor'', Num aum)])
       (\<lambda>self.
     and_then (get_str config ''strategy'') (\<lambda>strat.
     and_then (get_num config ''pension_investor_pct'') (\<lambda>pens.
     and_then (get_num config ''insurer_investor_pct'') (\<lambda>insr.
     and_then (get_num config ''cash_buffer_pct'') (\<lambda>cbuf.
     and_then (get_dict config ''strategy_composition'') (\<lambda>strat_comp.
     and_then (mid (dict_get strat_comp ''gilt_pct'' (PList [Num 0.2, Num 0.3]))) (\<lambda>gilt_pct.
     and_then (mid (dict_get strat_comp ''corp_pct'' (PList [Num 0.1, Num 0.2]))) (\<lambda>corp_pct.
     and_then (mid (dict_get strat_comp ''abs_pct'' (PList [Num 0.0, Num 0.05]))) (\<lambda>abs_pct.
     and_then (mid (dict_get strat_comp ''cash_pct'' (PList [Num 0.0, Num 0.0]))) (\<lambda>cash_pct0.
       (let cash_pct = (if cash_pct0 = 0 then cbuf else cash_pct0)
        in Inr (BaseAgent.extend
              (self\<lparr>balance_sheet :=
                 [BalanceSheetItem_init ''Gilt Holdings'' (aum * gilt_pct) ''liquid_asset''
                    [(''gilt_10y_yield'', -0.0005), (''gilt_30y_yield'', -0.0006)] True True,
                  BalanceSheetItem_init ''Corporate Bond Holdings'' (aum * corp_pct) ''liquid_asset''
                    [(''ig_corp_spread'', -0.0004), (''hy_corp_spread'', -0.0002)] True True,
                  BalanceSheetItem_init ''ABS Holdings'' (aum * abs_pct) ''illiquid_asset''
                    [(''ig_corp_spread'', -0.0002)] False False,
                  BalanceSheetItem_init ''Cash Buffer'' (aum * cash_pct) ''liquid_asset''
                    [] False False]\<rparr>)
              (Agent.fields (OEFMMFAgent
                 \<lparr>oef_strategy = strat, oef_aum_mm = aum, pension_investor_pct = pens,
                  insurer_investor_pct = insr, cash_buffer_pct = cbuf,
                  cumulative_redemption_inflows_mm = 0\<rparr>)))))))))))))))))"

subsection \<open>\<open>HedgeFundAgent.__init__\<close>\<close>

definition REPO_DEP_MULT :: "(string \<times> real) list" where
  "REPO_DEP_MULT = [(''low'', 0.2), (''medium'', 0.5), (''high'', 0.8), (''very_high'', 1.0)]"

definition build_gilt_sensitivity :: "string list \<Rightarrow> string list \<Rightarrow> (string \<times> real) list" where
  "build_gilt_sensitivity primary secondary =
     (let s1 = (if ''gilt_10y_yield'' \<in> set primary then [(''gilt_10y_yield'', -0.0006)]
                else if ''gilt_10y_yield'' \<in> set secondary then [(''gilt_10y_yield'', -0.0002)]
                else []);
          s2 = (if ''gilt_30y_yield'' \<in> set primary
                then dict_set s1 ''gilt_30y_yield'' (-0.0008) else s1);
          s3 = (if ''sonia_swap'' \<in> set primary then dict_set s2 ''sonia_swap'' (-0.0003) else s2)
      in if s3 \<noteq> [] then s3 else [(''gilt_10y_yield'', -0.0002)])"

definition build_equity_sensitivity :: "string list \<Rightarrow> string list \<Rightarrow> (string \<times> real) list" where
  "build_equity_sensitivity primary secondary =
     (if ''equity'' \<in> set primary then [(''equity'', 0.012)]
      else if ''equity'' \<in> set secondary then [(''equity'', 0.005)]
      else [(''equity'', 0.002)])"

definition build_corp_sensitivity :: "string list \<Rightarrow> (string \<times> real) list" where
  "build_corp_sensitivity primary =
     (let s1 = (if ''ig_corp_spread'' \<in> set primary then [(''ig_corp_spread'', -0.0005)] else []);
          s2 = (if ''hy_corp_spread'' \<in> set primary
                then dict_set s1 ''hy_corp_spread'' (-0.0003) else s1)
      in if s2 \<noteq> [] then s2 else [(''ig_corp_spread'', -0.0002)])"

definition get_str_list :: "(string \<times> pyval) list \<Rightarrow> string \<Rightarrow> error + string list" where
  "get_str_list d k =
     (case dict_get d k (PList []) of PList vs \<Rightarrow> as_str_list vs | _ \<Rightarrow> Inl TypeError)"

definition HedgeFundAgent_init :: "(string \<times> pyval) list \<Rightarrow> error + Agent" where
  "HedgeFundAgent_init config =
     and_then (getitem config ''name'') (\<lambda>nm.
     and_then (getitem config ''theta'') (\<lambda>th.
     and_then (get_num config ''aum_mm'') (\<lambda>aum.
     and_then (BaseAgent_init
                 [(''name'', nm), (''agent_type'', Str ''hedge_fund''), (''theta'', th),
                  (''size_factor'', Num aum)])
       (\<lambda>self.
     and_then (get_str config ''strategy'') (\<lambda>strat.
     and_then (get_num config ''gross_leverage'') (\<lambda>lev.
     and_then (get_num config ''var_utilisation'') (\<lambda>var_util.
     and_then (get_num config ''deleverage_trigger_var_pct'') (\<lambda>trigger.
     and_then (as_str (dict_get config ''repo_dependence'' (Str ''medium''))) (\<lambda>dep.
     and_then (get_dict config ''strategy_profile'') (\<lambda>profile.
     and_then (get_str_list profile ''primary_sensitivities'') (\<lambda>primary.
     and_then (get_str_list profile ''secondary_sensitivities'') (\<lambda>secondary.
     and_then (mid (dict_get profile ''gilt_exposure_pct'' (PList [Num 0.0, Num 0.1]))) (\<lambda>gilt_pct.
     and_then (mid (dict_get profile ''equity_exposure_pct'' (PList [Num 0.0, Num 0.1]))) (\<lambda>equity_pct.
     and_then (mid (dict_get profile ''corp_bond_exposure_pct'' (PList [Num 0.0, Num 0.1]))) (\<lambda>corp_pct.
     and_then (mid (dict_get profile ''basis_trade_pct'' (PList [Num 0.0, Num 0.0]))) (\<lambda>basis_pct.
       (let dep_mult = dict_get REPO_DEP_MULT dep 0.5;
            gross_exposure = aum * lev
        in Inr (BaseAgent.extend
              (self\<lparr>balance_sheet :=
                 [BalanceSheetItem_init ''Gilt Positions (net)'' (gross_exposure * gilt_pct)
                    ''liquid_asset'' (build_gilt_sensitivity primary secondary) True True,
                  BalanceSheetItem_init ''Equity Positions'' (gross_exposure * equity_pct)
                    ''liquid_asset'' (build_equity_sensitivity primary secondary) False True,
                  BalanceSheetItem_init ''Corp Bond Positions'' (gross_exposure * corp_pct)
                    ''liquid_asset'' (build_corp_sensitivity primary) True True,
                  BalanceSheetItem_init ''Basis Trade Positions'' (gross_exposure * basis_pct)
                    ''liquid_asset''
                    [(''bond_futures_basis'', -0.001), (''gilt_10y_yield'', -0.0003)] False True,
                  BalanceSheetItem_init ''Cash & Margin'' (aum * 0.10) ''liquid_asset'' [] False False,
                  BalanceSheetItem_init ''Repo Borrowing'' (gross_exposure * dep_mult * 0.3)
                    ''liability'' [] False False,
                  BalanceSheetItem_init ''Margin Posted'' (aum * 0.08) ''illiquid_asset''
                    [] False False]\<rparr>)
              (Agent.fields (HedgeFundAgent
                 \<lparr>hf_strategy = strat, hf_aum_mm = aum, gross_leverage = lev,
                  var_utilisation = var_util, deleverage_trigger_var_pct = trigger,
                  repo_dependence = dep, repo_dep_mult = dep_mult,
                  primary_sensitivities = primary, secondary_sensitivities = secondary,
                  repo_refused_by_all = False, has_ever_sought_repo = False\<rparr>))))))))))))))))))))"

section \<open>Building the network (network.py)\<close>









section \<open>Stage 3 feedback (engine/feedback.py)\<close>

text \<open>
  \<open>for agent in agents: ...\<close> over a list of objects that the body changes in place: the
  body is given the list as it stands and the position it is at, and its result replaces
  the element at that position. \<open>for_each_err\<close> stops at the first exception.
\<close>

definition for_each :: "(Agent list \<Rightarrow> nat \<Rightarrow> Agent) \<Rightarrow> Agent list \<Rightarrow> Agent list" where
  "for_each body agents = fold (\<lambda>i ags. ags[i := body ags i]) [0..<length agents] agents"

definition for_each_err ::
  "(Agent list \<Rightarrow> nat \<Rightarrow> error + Agent) \<Rightarrow> Agent list \<Rightarrow> error + Agent list" where
  "for_each_err body agents =
     fold (\<lambda>i r. case r of
                    Inl e \<Rightarrow> Inl e
                  | Inr ags \<Rightarrow> (case body ags i of Inl e \<Rightarrow> Inl e | Inr a \<Rightarrow> Inr (ags[i := a])))
       [0..<length agents] (Inr agents)"

definition hedge_fund_bilateral ::
  "Agent list \<Rightarrow> RelationshipNetwork \<Rightarrow> real \<Rightarrow> Agent \<Rightarrow> real" where
  "hedge_fund_bilateral agents net s target =
     (\<Sum>bank_name\<leftarrow>get_connected_banks net (name target).
        (case agent_map agents bank_name of
           None \<Rightarrow> 0
         | Some bank \<Rightarrow>
             if has_reacted bank then
               (let bank_reaction_size = sum_values (reactions bank)
                in case get_item target ''Repo Borrowing'' of
                     None \<Rightarrow> 0
                   | Some repo_item \<Rightarrow>
                       amount_mm repo_item
                       * (bank_reaction_size / max (B0 (liquidity bank)) 1) * s * 0.05)
             else 0))"

definition bank_bilateral ::
  "Agent list \<Rightarrow> RelationshipNetwork \<Rightarrow> real \<Rightarrow> Agent \<Rightarrow> real" where
  "bank_bilateral agents net s target =
     (\<Sum>hf_name\<leftarrow>get_connected_hfs net (name target).
        (case agent_map agents hf_name of
           None \<Rightarrow> 0
         | Some hf \<Rightarrow>
             if has_reacted hf then
               (let hf_stress = E1 (liquidity hf) / max (B0 (liquidity hf)) 1;
                    hf_repo = amount_or_zero (get_item hf ''Repo Borrowing'');
                    n_banks_for_hf = max (real (length (get_connected_banks net hf_name))) 1;
                    bilateral_exposure = hf_repo / n_banks_for_hf;
                    coeff = FEEDBACK_PARAMS_bank_counterparty_loss_coeff
                in hf_stress * bilateral_exposure * coeff * s)
             else 0))"

definition oef_bilateral :: "Agent list \<Rightarrow> RelationshipNetwork \<Rightarrow> Agent \<Rightarrow> real" where
  "oef_bilateral agents net target =
     (\<Sum>nbfi_name\<leftarrow>get_oef_redeemers net (name target).
        (case agent_map agents nbfi_name of
           None \<Rightarrow> 0
         | Some nbfi \<Rightarrow> if has_reacted nbfi then sum_values (reactions nbfi) * 0.1 else 0))"

definition market_feedback :: "real \<Rightarrow> real \<Rightarrow> Agent \<Rightarrow> real" where
  "market_feedback s reacting_share target =
     (\<Sum>item\<leftarrow>balance_sheet target.
        if category item = ''liquid_asset'' then
          (\<Sum>(var, sens)\<leftarrow>sensitivity_map item.
             amount_mm item * \<bar>sens\<bar> * 0.0001 * s * 0.05 * reacting_share)
        else 0)"

definition reputation :: "real \<Rightarrow> Agent \<Rightarrow> real" where
  "reputation s target =
     (if has_reacted target then sum_values (reactions target) * (sqrt s - 1) * 0.15 else 0)"

definition crowding_penalty :: "Agent list \<Rightarrow> real \<Rightarrow> Agent \<Rightarrow> real" where
  "crowding_penalty agents s target =
     (let same_type_reacting =
            length [a \<leftarrow> agents. agent_type a = agent_type target \<and> has_reacted a];
          same_type_total = length [a \<leftarrow> agents. agent_type a = agent_type target]
      in if same_type_total > 0 \<and> has_reacted target then
           (let crowding = (real same_type_reacting / real same_type_total)\<^sup>2 * s * 0.03
            in sum_values (reactions target) * crowding)
         else 0)"

text \<open>The second-round loss of one agent in one iteration.\<close>

definition stage3_e2 ::
  "Agent list \<Rightarrow> RelationshipNetwork \<Rightarrow> real \<Rightarrow> nat \<Rightarrow> Agent \<Rightarrow> real" where
  "stage3_e2 agents net s num_reacting target =
     (if agent_type target = ''hedge_fund'' then hedge_fund_bilateral agents net s target
      else if agent_type target = ''bank'' then bank_bilateral agents net s target
      else if agent_type target = ''oef_mmf'' then oef_bilateral agents net target
      else 0)
     + market_feedback s (real num_reacting / real (length agents)) target
     + reputation s target
     + crowding_penalty agents s target"

definition compute_stage3_feedback ::
  "Agent list \<Rightarrow> MarketState \<Rightarrow> RelationshipNetwork \<Rightarrow> Agent list" where
  "compute_stage3_feedback agents market net =
     (let s = max 1 (vix_level market / 15);
          num_reacting = length (filter has_reacted agents)
      in if num_reacting = 0 then for_each (\<lambda>ags i. apply_stage3 (ags ! i) 0) agents
         else for_each (\<lambda>ags i. apply_stage3 (ags ! i) (stage3_e2 ags net s num_reacting (ags ! i)))
                agents)"

section \<open>The simulation driver (engine/simulation.py)\<close>

text \<open>The scenario file, once loaded: the horizon, when given, and one path of values per
  market variable. Reading a day beyond the end of a path raises \<open>IndexError\<close>.\<close>

record Scenario =
  horizon_days :: "nat option"
  variable_paths :: "(string \<times> real list) list"

fun get_scenario_day_paths :: "(string \<times> real list) list \<Rightarrow> nat \<Rightarrow> error + (string \<times> real) list" where
  "get_scenario_day_paths [] d = Inr []"
| "get_scenario_day_paths ((var, vals) # ps) d =
     (if d < length vals then
        (case get_scenario_day_paths ps d of
           Inl e \<Rightarrow> Inl e
         | Inr rest \<Rightarrow> Inr ((var, vals ! d) # rest))
      else Inl IndexError)"

definition get_scenario_day :: "Scenario \<Rightarrow> nat \<Rightarrow> error + (string \<times> real) list" where
  "get_scenario_day scenario d = get_scenario_day_paths (variable_paths scenario) d"

definition stage1_body ::
  "MarketState \<Rightarrow> (string \<times> real) list \<Rightarrow> RelationshipNetwork \<Rightarrow> Agent list \<Rightarrow> nat
   \<Rightarrow> error + Agent" where
  "stage1_body market day_delta net ags i =
     (let ags1 = ags[i := reset_daily (ags ! i)];
          ags2 = ags1[i := snd (compute_initial_buffer (ags1 ! i))]
      in case compute_stage1 (ags2 ! i) market day_delta (Some net) ags2 of
           Inl e \<Rightarrow> Inl e
         | Inr (e1, a) \<Rightarrow> Inr a)"

definition stage2_body ::
  "MarketState \<Rightarrow> RelationshipNetwork \<Rightarrow> Agent list \<Rightarrow> nat \<Rightarrow> Agent" where
  "stage2_body market net ags i = compute_stage2 (ags ! i) market (Some net) ags"

text \<open>Pass 2: every agent of type \<open>bank\<close> absorbs its share of the day's selling. The
  attributes read are those of the bank class; on another class Python raises
  \<open>AttributeError\<close>.\<close>

definition bank_fields :: "Agent \<Rightarrow> error + BankFields" where
  "bank_fields a = (case cls a of BankAgent b \<Rightarrow> Inr b | _ \<Rightarrow> Inl AttributeError)"

fun remaining_total :: "(BankFields \<Rightarrow> real) \<Rightarrow> Agent list \<Rightarrow> error + real" where
  "remaining_total rem [] = Inr 0"
| "remaining_total rem (b # bs) =
     (case bank_fields b of
        Inl e \<Rightarrow> Inl e
      | Inr f \<Rightarrow> (case remaining_total rem bs of Inl e \<Rightarrow> Inl e | Inr t \<Rightarrow> Inr (rem f + t)))"

definition gilt_remaining :: "BankFields \<Rightarrow> real" where
  "gilt_remaining b = gilt_mm_appetite_mm b * (1 - mm_appetite_consumed_pct b)"

definition corp_remaining :: "BankFields \<Rightarrow> real" where
  "corp_remaining b = corp_mm_appetite_mm b * (1 - corp_appetite_consumed_pct b)"

definition absorb_share ::
  "MarketState \<Rightarrow> real \<Rightarrow> real \<Rightarrow> Agent \<Rightarrow> Agent" where
  "absorb_share market gilt_remaining_total corp_remaining_total a =
     (if agent_type a = ''bank'' then
        (case cls a of
           BankAgent b \<Rightarrow>
             (let gilt_share =
                    (if gilt_remaining_total > 0
                     then endogenous_gilt_selling_mm market
                          * (gilt_remaining b / gilt_remaining_total)
                     else 0);
                  corp_share =
                    (if corp_remaining_total > 0
                     then endogenous_corp_selling_mm market
                          * (corp_remaining b / corp_remaining_total)
                     else 0)
              in post_registration_update a b gilt_share corp_share)
         | _ \<Rightarrow> a)
      else a)"

definition banks_absorb :: "Agent list \<Rightarrow> MarketState \<Rightarrow> error + Agent list" where
  "banks_absorb agents market =
     (let banks = [a \<leftarrow> agents. agent_type a = ''bank'']
      in case remaining_total gilt_remaining banks of
           Inl e \<Rightarrow> Inl e
         | Inr gilt_remaining_total \<Rightarrow>
             (case remaining_total corp_remaining banks of
                Inl e \<Rightarrow> Inl e
              | Inr corp_remaining_total \<Rightarrow>
                  Inr (map (absorb_share market gilt_remaining_total corp_remaining_total)
                         agents)))"

text \<open>Stage 3 of a day: the configured number of feedback iterations, or none.\<close>

fun feedback_iterate ::
  "nat \<Rightarrow> RelationshipNetwork \<Rightarrow> Agent list \<times> MarketState \<Rightarrow> error + Agent list \<times> MarketState" where
  "feedback_iterate 0 net st = Inr st"
| "feedback_iterate (Suc n) net (agents, market) =
     (case apply_endogenous_feedback market of
        Inl e \<Rightarrow> Inl e
      | Inr market' \<Rightarrow>
          feedback_iterate n net (compute_stage3_feedback agents market' net, market'))"

definition feedback_off :: "Agent \<Rightarrow> Agent" where
  "feedback_off a =
     (let a1 = a\<lparr>liquidity := (liquidity a)\<lparr>E2 := 0\<rparr>\<rparr>
      in a1\<lparr>liquidity := (liquidity a1)\<lparr>B3 := B2 (liquidity a1)\<rparr>\<rparr>)"

definition stage3 ::
  "bool \<Rightarrow> nat \<Rightarrow> RelationshipNetwork \<Rightarrow> Agent list \<times> MarketState
   \<Rightarrow> error + Agent list \<times> MarketState" where
  "stage3 enable_feedback feedback_iterations net st =
     (if enable_feedback then feedback_iterate feedback_iterations net st
      else Inr (map feedback_off (fst st), snd st))"

text \<open>\<open>_update_balance_sheets\<close>: the holdings sold are taken off the first item of the name.\<close>

fun set_item_amount :: "BalanceSheetItem list \<Rightarrow> string \<Rightarrow> real \<Rightarrow> BalanceSheetItem list" where
  "set_item_amount [] n v = []"
| "set_item_amount (item # items) n v =
     (if item_name item = n then item\<lparr>amount_mm := v\<rparr> # items
      else item # set_item_amount items n v)"

definition first_item :: "Agent \<Rightarrow> string list \<Rightarrow> BalanceSheetItem option" where
  "first_item a names = (case List.map_filter (get_item a) names of [] \<Rightarrow> None | item # _ \<Rightarrow> Some item)"

definition reduce_holding :: "Agent \<Rightarrow> string list \<Rightarrow> real \<Rightarrow> Agent" where
  "reduce_holding a names amount =
     (case first_item a names of
        None \<Rightarrow> a
      | Some item \<Rightarrow>
          a\<lparr>balance_sheet :=
               set_item_amount (balance_sheet a) (item_name item)
                 (max 0 (amount_mm item - amount))\<rparr>)"

definition update_for_action :: "Agent \<Rightarrow> string \<times> real \<Rightarrow> Agent" where
  "update_for_action a r =
     (case r of (action, amount) \<Rightarrow>
        if str_in ''sell_gilt'' action
        then reduce_holding a [''Gilt Holdings'', ''Gilt Positions (net)''] amount
        else if str_in ''sell_corp'' action
        then reduce_holding a
               [''Corporate Bonds'', ''Corporate Bond Holdings'', ''Corp Bond Positions''] amount
        else a)"

definition update_balance_sheets :: "Agent list \<Rightarrow> Agent list" where
  "update_balance_sheets agents = map (\<lambda>a. foldl update_for_action a (reactions a)) agents"

text \<open>One simulated day, from the scenario values to the updated balance sheets.\<close>

definition day_delta_of :: "(string \<times> real) list \<Rightarrow> (string \<times> real) list \<Rightarrow> (string \<times> real) list" where
  "day_delta_of day_values prev = map (\<lambda>(k, v). (k, v - dict_get prev k 0)) day_values"

definition stages_1_2 ::
  "RelationshipNetwork \<Rightarrow> MarketState \<Rightarrow> (string \<times> real) list \<Rightarrow> Agent list
   \<Rightarrow> error + Agent list \<times> MarketState" where
  "stages_1_2 net market day_delta agents =
     (case for_each_err (stage1_body market day_delta net) agents of
        Inl e \<Rightarrow> Inl e
      | Inr agents1 \<Rightarrow>
          (let agents2 = for_each (stage2_body market net) agents1;
               market2 = foldl (\<lambda>m a. register_actions_to_market a m) market agents2
           in case banks_absorb agents2 market2 of
                Inl e \<Rightarrow> Inl e
              | Inr agents3 \<Rightarrow> Inr (agents3, market2)))"

definition run_day ::
  "Scenario \<Rightarrow> RelationshipNetwork \<Rightarrow> bool \<Rightarrow> nat \<Rightarrow> nat \<Rightarrow> Agent list \<times> MarketState
   \<Rightarrow> error + Agent list \<times> MarketState" where
  "run_day scenario net enable_feedback feedback_iterations d st =
     (case get_scenario_day scenario d of
        Inl e \<Rightarrow> Inl e
      | Inr day_values \<Rightarrow>
          (case (if d = 0 then Inr (map (\<lambda>(k, v). (k, 0)) day_values)
                 else get_scenario_day scenario (d - 1)) of
             Inl e \<Rightarrow> Inl e
           | Inr prev \<Rightarrow>
               (let market = apply_exogenous_scenario ((snd st)\<lparr>day := d\<rparr>) day_values
                in case stages_1_2 net market (day_delta_of day_values prev) (fst st) of
                     Inl e \<Rightarrow> Inl e
                   | Inr st2 \<Rightarrow>
                       (case stage3 enable_feedback feedback_iterations net st2 of
                          Inl e \<Rightarrow> Inl e
                        | Inr (agents3, market3) \<Rightarrow>
                            Inr (update_balance_sheets agents3, market3)))))"

fun run_days ::
  "Scenario \<Rightarrow> RelationshipNetwork \<Rightarrow> bool \<Rightarrow> nat \<Rightarrow> nat list \<Rightarrow> Agent list \<times> MarketState
   \<Rightarrow> error + Agent list \<times> MarketState" where
  "run_days scenario net enable_feedback feedback_iterations [] st = Inr st"
| "run_days scenario net enable_feedback feedback_iterations (d # ds) st =
     (case run_day scenario net enable_feedback feedback_iterations d st of
        Inl e \<Rightarrow> Inl e
      | Inr st' \<Rightarrow> run_days scenario net enable_feedback feedback_iterations ds st')"

text \<open>\<open>_compute_amplification\<close>: the ratios per agent, per agent type and system-wide.
  \<open>initial_buffers[a.name]\<close> raises \<open>KeyError\<close> for a name that is not a key.\<close>

definition floor_eps :: real where
  "floor_eps = 0.001"

definition direct_loss :: "(string \<times> real) list \<Rightarrow> Agent \<Rightarrow> real" where
  "direct_loss initial_buffers a = dict_get initial_buffers (name a) 0 - B1 (liquidity a)"

definition total_loss :: "(string \<times> real) list \<Rightarrow> Agent \<Rightarrow> real" where
  "total_loss initial_buffers a = dict_get initial_buffers (name a) 0 - B3 (liquidity a)"

definition agent_ratio :: "(string \<times> real) list \<Rightarrow> Agent \<Rightarrow> string \<times> real" where
  "agent_ratio ib a =
     (name a, if direct_loss ib a > 0 then total_loss ib a / direct_loss ib a else 1)"

definition type_ratio :: "(string \<times> real) list \<Rightarrow> Agent list \<Rightarrow> string \<Rightarrow> string \<times> real" where
  "type_ratio ib agents atype =
     (''Type:'' @ atype,
      (\<Sum>a\<leftarrow>[a \<leftarrow> agents. agent_type a = atype]. max (total_loss ib a) floor_eps)
      / (\<Sum>a\<leftarrow>[a \<leftarrow> agents. agent_type a = atype]. max (direct_loss ib a) floor_eps))"

definition system_wide_ratio :: "(string \<times> real) list \<Rightarrow> Agent list \<Rightarrow> real" where
  "system_wide_ratio ib agents =
     (let total_d = (\<Sum>a\<leftarrow>agents. max (direct_loss ib a) floor_eps);
          total_t = (\<Sum>a\<leftarrow>agents. max (total_loss ib a) floor_eps)
      in if total_d > 0 then total_t / total_d else 1)"

definition compute_amplification ::
  "Agent list \<Rightarrow> (string \<times> real) list \<Rightarrow> error + (string \<times> real) list" where
  "compute_amplification agents initial_buffers =
     (if filter (\<lambda>a. map_of initial_buffers (name a) = None) agents \<noteq> [] then Inl KeyError
      else
        (let per_agent = foldl (\<lambda>d a. case agent_ratio initial_buffers a of (k, v) \<Rightarrow> dict_set d k v)
                           [] agents;
             per_type = foldl (\<lambda>d atype. case type_ratio initial_buffers agents atype of
                                              (k, v) \<Rightarrow> dict_set d k v)
                          per_agent (rev (remdups (rev (map agent_type agents))))
         in Inr (dict_set per_type ''System-Wide''
                   (system_wide_ratio initial_buffers agents))))"

record Summary =
  total_agents :: nat
  agents_reacted :: nat
  total_margin_calls_mm :: real
  total_asset_sales_mm :: real
  nbfi_gilt_sales_mm :: real
  total_repo_demand_mm :: real
  final_gilt_yield :: real
  final_ig_spread :: real
  final_repo_avail :: real
  hfs_seeking_repo :: nat
  hfs_refused_by_all :: nat

definition sought_repo :: "Agent \<Rightarrow> bool" where
  "sought_repo a = (case cls a of HedgeFundAgent h \<Rightarrow> has_ever_sought_repo h | _ \<Rightarrow> False)"

definition refused_by_all :: "Agent \<Rightarrow> bool" where
  "refused_by_all a = (case cls a of HedgeFundAgent h \<Rightarrow> repo_refused_by_all h | _ \<Rightarrow> False)"

definition compute_summary :: "Agent list \<Rightarrow> MarketState \<Rightarrow> Summary" where
  "compute_summary agents market =
     (let hfs = [a \<leftarrow> agents. agent_type a = ''hedge_fund'']
      in \<lparr>total_agents = length agents,
          agents_reacted = length (filter has_reacted agents),
          total_margin_calls_mm = (\<Sum>a\<leftarrow>agents. cumulative_margin_calls_mm a),
          total_asset_sales_mm = (\<Sum>a\<leftarrow>agents. cumulative_asset_sales_mm a),
          nbfi_gilt_sales_mm =
            (\<Sum>a\<leftarrow>[a \<leftarrow> agents. agent_type a \<noteq> ''bank'']. cumulative_gilt_sales_mm a),
          total_repo_demand_mm = (\<Sum>a\<leftarrow>agents. cumulative_repo_demand_mm a),
          final_gilt_yield = gilt_10y_yield_chg_bps market,
          final_ig_spread = ig_corp_spread_chg_bps market,
          final_repo_avail = repo_market_availability_pct market,
          hfs_seeking_repo = length (filter sought_repo hfs),
          hfs_refused_by_all = length (filter refused_by_all hfs)\<rparr>)"

text \<open>
  \<open>run_simulation\<close>, given the loaded scenario. The result holds the amplification
  ratios and the summary, and the agents as the run leaves them; the daily snapshots are
  copies of states the run passes through and are not modelled.
\<close>

record SimulationResult =
  amplification_ratios :: "(string \<times> real) list"
  summary :: Summary
  initial_buffers :: "(string \<times> real) list"
  final_agents :: "Agent list"
  final_market :: MarketState

definition run_simulation ::
  "Agent list \<Rightarrow> RelationshipNetwork \<Rightarrow> Scenario \<Rightarrow> bool \<Rightarrow> nat \<Rightarrow> error + SimulationResult" where
  "run_simulation agents net scenario enable_feedback feedback_iterations =
     (let n_days = (case horizon_days scenario of None \<Rightarrow> 10 | Some n \<Rightarrow> n);
          agents0 = for_each (\<lambda>ags i. snd (compute_initial_buffer (ags ! i))) agents;
          ib = foldl (\<lambda>d a. dict_set d (name a) (B0 (liquidity a))) [] agents0
      in case run_days scenario net enable_feedback feedback_iterations [0..<n_days]
                (agents0, MarketState_init) of
           Inl e \<Rightarrow> Inl e
         | Inr (agents', market') \<Rightarrow>
             (case compute_amplification agents' ib of
                Inl e \<Rightarrow> Inl e
              | Inr ratios \<Rightarrow>
                  Inr \<lparr>amplification_ratios = ratios,
                       summary = compute_summary agents' market',
                       initial_buffers = ib,
                       final_agents = agents',
                       final_market = market'\<rparr>))"

section \<open>Call sequences on the market\<close>

text \<open>
  Any sequence of the calls that write the market state during a run: the scenario of a
  day, the endogenous feedback, and an agent registering its reactions (which is what
  accumulates the endogenous repo demand).
\<close>

datatype market_call =
    ApplyExogenous "(string \<times> real) list"
  | ApplyEndogenous
  | RegisterActions Agent

fun market_calls :: "MarketState \<Rightarrow> market_call list \<Rightarrow> error + MarketState" where
  "market_calls m [] = Inr m"
| "market_calls m (ApplyExogenous day_values # cs) =
     market_calls (apply_exogenous_scenario m day_values) cs"
| "market_calls m (ApplyEndogenous # cs) =
     (case apply_endogenous_feedback m of Inl e \<Rightarrow> Inl e | Inr m' \<Rightarrow> market_calls m' cs)"
| "market_calls m (RegisterActions a # cs) = market_calls (register_actions_to_market a m) cs"

text \<open>The action names the five \<open>compute_reactions\<close> methods write.\<close>

definition recorded_action_names :: "string list" where
  "recorded_action_names =
     [''boe_facility'', ''reduce_repo_lending'', ''sell_gilt'', ''sell_corp_bonds'',
      ''seek_repo'', ''sell_gilt_basis_unwind'', ''sell_equity'', ''redeem_mmf'',
      ''post_collateral'', ''recapitalisation'', ''sell_gilt_il'',
      ''draw_repo_line'', ''draw_rcf'', ''use_cash_buffer'', ''swing_pricing'']"

section \<open>Concrete agents and markets\<close>

text \<open>An insurer with derivative hedges and two facilities, on a day on which the
  volatility index doubles.\<close>

definition example_insurer_config :: "(string \<times> pyval) list" where
  "example_insurer_config =
     [(''name'', Str ''Insurer_01''), (''theta'', Num 0.45),
      (''hedge_ratio'', Num 0.5), (''dirty_csa_pct'', Num 0),
      (''balance_sheet'', PDict
         [(''gilt_holdings_mm'', Num 0), (''corp_bond_holdings_mm'', Num 0),
          (''equity_portfolio_mm'', Num 0), (''derivative_hedges_notional_mm'', Num 100000),
          (''cash_and_liquid_mm'', Num 100), (''margin_posted_mm'', Num 0),
          (''committed_repo_lines_mm'', Num 100), (''rcf_available_mm'', Num 100)])]"

definition example_insurer :: Agent where
  "example_insurer =
     \<lparr>name = ''Insurer_01'', agent_type = ''insurer'', theta = 0.45, size_factor = 100,
      balance_sheet =
        [BalanceSheetItem_init ''Gilt Holdings'' 0 ''liquid_asset''
           [(''gilt_10y_yield'', -0.0005), (''gilt_30y_yield'', -0.0007)] True True,
         BalanceSheetItem_init ''Corporate Bond Holdings'' 0 ''liquid_asset''
           [(''ig_corp_spread'', -0.0004), (''hy_corp_spread'', -0.0002)] True True,
         BalanceSheetItem_init ''Equity Portfolio'' 0 ''liquid_asset'' [(''equity'', 0.01)] False True,
         BalanceSheetItem_init ''Derivative Hedges'' 100000 ''off_bs''
           [(''gilt_10y_yield'', -0.0002), (''sonia_swap'', -0.0002)] False False,
         BalanceSheetItem_init ''Cash & Liquid'' 100 ''liquid_asset'' [] False False,
         BalanceSheetItem_init ''Margin Posted'' 0 ''illiquid_asset'' [] False False,
         BalanceSheetItem_init ''Committed Repo Lines'' 100 ''liquid_asset'' [] True False,
         BalanceSheetItem_init ''RCF Available'' 100 ''liquid_asset'' [] False False],
      liquidity = LiquidityPosition_init, has_reacted = False, reactions = [],
      cumulative_margin_calls_mm = 0, cumulative_asset_sales_mm = 0,
      cumulative_gilt_sales_mm = 0, cumulative_repo_demand_mm = 0,
      cumulative_redemptions_mm = 0,
      cls = InsurerAgent \<lparr>hedge_ratio = 0.5, dirty_csa_pct = 0, total_mm = 100,
                           committed_repo_mm = 100, rcf_mm = 100\<rparr>\<rparr>"

definition stressed_market :: MarketState where
  "stressed_market = apply_exogenous_scenario MarketState_init [(''vix'', 30)]"

definition example_insurer_day :: Agent where
  "example_insurer_day =
     example_insurer\<lparr>liquidity := \<lparr>B0 = 90, B1 = 0, B2 = 0, B3 = 0, E1 = 0, E2 = 0\<rparr>\<rparr>"

definition example_insurer_stage1 :: Agent where
  "example_insurer_stage1 =
     example_insurer\<lparr>liquidity := \<lparr>B0 = 90, B1 = 10, B2 = 0, B3 = 0, E1 = 80, E2 = 0\<rparr>,
                     cumulative_margin_calls_mm := 80\<rparr>"

definition example_insurer_stage2 :: Agent where
  "example_insurer_stage2 =
     example_insurer_stage1
       \<lparr>liquidity := \<lparr>B0 = 90, B1 = 10, B2 = 12.936, B3 = 0, E1 = 80, E2 = 0\<rparr>,
        has_reacted := True,
        reactions := [(''draw_repo_line'', 2.4), (''draw_rcf'', 1.12)],
        cumulative_repo_demand_mm := 2.4\<rparr>"

text \<open>A day on which the volatility index is six times its calm level, the insurer above
  registers its reactions and the endogenous feedback runs.\<close>

definition crisis_calls :: "market_call list" where
  "crisis_calls =
     [ApplyExogenous [(''vix'', 90)], RegisterActions example_insurer_stage2, ApplyEndogenous]"

text \<open>A small bank, as the constructor would set it up, on a day on which the ten-year
  gilt yield rises by 100 basis points.\<close>

definition example_bank_config :: "(string \<times> pyval) list" where
  "example_bank_config =
     [(''name'', Str ''Bank_01 (small)''), (''tier'', Str ''small''),
      (''total_bs_mm'', Num 250), (''theta'', Num 0.4), (''risk_appetite'', Num 0.5),
      (''balance_sheet'', PDict
         [(''gilt_holdings_mm'', Num 0), (''corp_bond_holdings_mm'', Num 0),
          (''equity_portfolio_mm'', Num 0), (''repo_lending_mm'', Num 0),
          (''derivative_assets_mm'', Num 4), (''boe_facility_eligible_mm'', Num 0),
          (''wholesale_funding_mm'', Num 0), (''cet1_buffer_mm'', Num 0)]),
      (''market_making_capacity'', PDict
         [(''gilt_appetite_mm'', Num 100), (''corp_bond_appetite_mm'', Num 30),
          (''appetite_consumed_pct'', Num 0)]),
      (''repo_provision'', PDict
         [(''total_capacity_mm'', Num 20), (''willingness_to_roll_pct'', Num 0.9),
          (''willingness_to_extend_new_pct'', Num 1), (''haircut_sensitivity'', Num 1.5)])]"

definition example_bank_fields :: BankFields where
  "example_bank_fields =
     \<lparr>tier = ''small'', risk_appetite = 0.5, total_bs_mm = 250,
      gilt_mm_appetite_mm = 100, corp_mm_appetite_mm = 30, mm_appetite_consumed_pct = 0,
      repo_capacity_mm = 20, willingness_to_roll_pct = 0.9, willingness_to_extend_new_pct = 1,
      haircut_sensitivity = 1.5, daily_capacity_history = [], corp_appetite_consumed_pct = 0,
      daily_corp_capacity_history = [], daily_combined_capacity_history = []\<rparr>"

definition example_bank :: Agent where
  "example_bank =
     \<lparr>name = ''Bank_01 (small)'', agent_type = ''bank'', theta = 0.4, size_factor = 250,
      balance_sheet =
        [BalanceSheetItem_init ''Gilt Holdings'' 0 ''liquid_asset''
           [(''gilt_10y_yield'', -0.00045), (''gilt_30y_yield'', -0.00065)] True True,
         BalanceSheetItem_init ''Corporate Bond Holdings'' 0 ''liquid_asset''
           [(''ig_corp_spread'', -0.0004), (''hy_corp_spread'', -0.0002)] True True,
         BalanceSheetItem_init ''Equity Portfolio'' 0 ''liquid_asset'' [(''equity'', 0.01)] False True,
         BalanceSheetItem_init ''Repo Lending'' 0 ''liquid_asset'' [] False False,
         BalanceSheetItem_init ''Derivative Assets'' 4 ''illiquid_asset''
           [(''gilt_10y_yield'', -0.0002), (''sonia_swap'', -0.0002)] False False,
         BalanceSheetItem_init ''BoE Facility Eligible'' 0 ''liquid_asset'' [] True False,
         BalanceSheetItem_init ''Wholesale Funding'' 0 ''liability'' [] False False,
         BalanceSheetItem_init ''CET1 Buffer'' 0 ''equity'' [] False False],
      liquidity = LiquidityPosition_init, has_reacted = False, reactions = [],
      cumulative_margin_calls_mm = 0, cumulative_asset_sales_mm = 0,
      cumulative_gilt_sales_mm = 0, cumulative_repo_demand_mm = 0,
      cumulative_redemptions_mm = 0,
      cls = BankAgent example_bank_fields\<rparr>"

definition rates_up_market :: MarketState where
  "rates_up_market = apply_exogenous_scenario MarketState_init [(''gilt_10y_yield'', 100)]"

definition example_bank_day :: Agent where
  "example_bank_day =
     example_bank\<lparr>liquidity := \<lparr>B0 = 0.5, B1 = 0, B2 = 0, B3 = 0, E1 = 0, E2 = 0\<rparr>\<rparr>"

definition example_bank_stage1 :: Agent where
  "example_bank_stage1 =
     example_bank\<lparr>liquidity := \<lparr>B0 = 0.5, B1 = 0.418, B2 = 0, B3 = 0, E1 = 0.082, E2 = 0\<rparr>,
                   cumulative_margin_calls_mm := 0.002\<rparr>"

definition example_network :: RelationshipNetwork where
  "example_network =
     \<lparr>bank_hf_edges = [(''Bank_01 (small)'', ''HF_01'')], bank_ldi_edges = [],
      bank_insurer_edges = [], nbfi_oef_edges = []\<rparr>"

text \<open>The same bank with four times the balance sheet.\<close>

definition larger_bank_fields :: BankFields where
  "larger_bank_fields = example_bank_fields\<lparr>total_bs_mm := 1000\<rparr>"

definition larger_bank :: Agent where
  "larger_bank = example_bank\<lparr>size_factor := 1000, cls := BankAgent larger_bank_fields\<rparr>"

definition larger_bank_day :: Agent where
  "larger_bank_day =
     larger_bank\<lparr>liquidity := \<lparr>B0 = 2, B1 = 0, B2 = 0, B3 = 0, E1 = 0, E2 = 0\<rparr>\<rparr>"

definition larger_bank_stage1 :: Agent where
  "larger_bank_stage1 =
     larger_bank\<lparr>liquidity := \<lparr>B0 = 2, B1 = 1.918, B2 = 0, B3 = 0, E1 = 0.082, E2 = 0\<rparr>,
                  cumulative_margin_calls_mm := 0.002\<rparr>"

text \<open>
  The bank's answer to a repo request in the words of the specification: zero for a
  requester without an edge to the bank, otherwise the smaller of the request and the
  new-repo capacity scaled by risk appetite and by a willingness that falls linearly from
  1 at zero stress to 0 at the refusal threshold, with the stress ratio \<open>E1 / B0\<close>.
\<close>

definition stress_based_willingness :: "real \<Rightarrow> real" where
  "stress_based_willingness stress =
     max 0 (1 - stress / FEEDBACK_PARAMS_bank_repo_refusal_stress_threshold)"

definition is_connected :: "RelationshipNetwork \<Rightarrow> string \<Rightarrow> string \<Rightarrow> bool" where
  "is_connected net bank_name requester =
     ((bank_name, requester)
        \<in> set (bank_hf_edges net) \<union> set (bank_ldi_edges net) \<union> set (bank_insurer_edges net))"

definition claimed_assess_repo_request ::
  "Agent \<Rightarrow> BankFields \<Rightarrow> string \<Rightarrow> real \<Rightarrow> RelationshipNetwork \<Rightarrow> real" where
  "claimed_assess_repo_request self b requester amount net =
     (if \<not> is_connected net (name self) requester then 0
      else min amount
             (repo_capacity_mm b * willingness_to_extend_new_pct b * risk_appetite b
              * stress_based_willingness (E1 (liquidity self) / B0 (liquidity self))))"

text \<open>A small pooled fund whose only investor is the insurer above.\<close>

definition example_oef_config :: "(string \<times> pyval) list" where
  "example_oef_config =
     [(''name'', Str ''OEF_01''), (''strategy'', Str ''gilt_fund''), (''aum_mm'', Num 0.4),
      (''theta'', Num 0.2), (''pension_investor_pct'', Num 0.4),
      (''insurer_investor_pct'', Num 0.3), (''cash_buffer_pct'', Num 0.05),
      (''strategy_composition'', PDict
         [(''gilt_pct'', PList [Num 0.5, Num 0.7]), (''corp_pct'', PList [Num 0.1, Num 0.3]),
          (''cash_pct'', PList [Num 0.04, Num 0.06])])]"

definition example_oef_fields :: OEFFields where
  "example_oef_fields =
     \<lparr>oef_strategy = ''gilt_fund'', oef_aum_mm = 0.4, pension_investor_pct = 0.4,
      insurer_investor_pct = 0.3, cash_buffer_pct = 0.05,
      cumulative_redemption_inflows_mm = 0\<rparr>"

definition example_oef :: Agent where
  "example_oef =
     \<lparr>name = ''OEF_01'', agent_type = ''oef_mmf'', theta = 0.2, size_factor = 0.4,
      balance_sheet =
        [BalanceSheetItem_init ''Gilt Holdings'' 0.24 ''liquid_asset''
           [(''gilt_10y_yield'', -0.0005), (''gilt_30y_yield'', -0.0006)] True True,
         BalanceSheetItem_init ''Corporate Bond Holdings'' 0.08 ''liquid_asset''
           [(''ig_corp_spread'', -0.0004), (''hy_corp_spread'', -0.0002)] True True,
         BalanceSheetItem_init ''ABS Holdings'' 0.01 ''illiquid_asset''
           [(''ig_corp_spread'', -0.0002)] False False,
         BalanceSheetItem_init ''Cash Buffer'' 0.02 ''liquid_asset'' [] False False],
      liquidity = LiquidityPosition_init, has_reacted = False, reactions = [],
      cumulative_margin_calls_mm = 0, cumulative_asset_sales_mm = 0,
      cumulative_gilt_sales_mm = 0, cumulative_repo_demand_mm = 0,
      cumulative_redemptions_mm = 0,
      cls = OEFMMFAgent example_oef_fields\<rparr>"

definition redemption_network :: RelationshipNetwork where
  "redemption_network =
     \<lparr>bank_hf_edges = [], bank_ldi_edges = [], bank_insurer_edges = [],
      nbfi_oef_edges = [(''Insurer_01'', ''OEF_01'')]\<rparr>"

definition example_oef_day :: Agent where
  "example_oef_day =
     example_oef\<lparr>liquidity := \<lparr>B0 = 0.01, B1 = 0, B2 = 0, B3 = 0, E1 = 0, E2 = 0\<rparr>\<rparr>"

text \<open>The pooled fund after one call of \<open>compute_redemptions\<close>.\<close>

definition example_oef_queried :: Agent where
  "example_oef_queried =
     example_oef_day\<lparr>cls := OEFMMFAgent
        (example_oef_fields\<lparr>cumulative_redemption_inflows_mm := 0.04\<rparr>)\<rparr>"

definition example_oef_requeried :: Agent where
  "example_oef_requeried =
     example_oef_day\<lparr>cls := OEFMMFAgent
        (example_oef_fields\<lparr>cumulative_redemption_inflows_mm := 0.08\<rparr>)\<rparr>"

definition example_oef_stage1 :: Agent where
  "example_oef_stage1 =
     example_oef_queried
       \<lparr>liquidity := \<lparr>B0 = 0.01, B1 = -0.03, B2 = 0, B3 = 0, E1 = 0.04, E2 = 0\<rparr>,
        cumulative_redemptions_mm := 0.04\<rparr>"

definition example_oef_stage1_requeried :: Agent where
  "example_oef_stage1_requeried =
     example_oef_requeried
       \<lparr>liquidity := \<lparr>B0 = 0.01, B1 = -0.03, B2 = 0, B3 = 0, E1 = 0.04, E2 = 0\<rparr>,
        cumulative_redemptions_mm := 0.04\<rparr>"

text \<open>A macro-rates hedge fund, and a population of three banks, the hedge fund and the
  pooled fund, with the generator whose draws are 0, 1, 2, ...\<close>

definition example_hf_config :: "(string \<times> pyval) list" where
  "example_hf_config =
     [(''name'', Str ''HF_01''), (''strategy'', Str ''macro_rates''), (''aum_mm'', Num 1000),
      (''theta'', Num 0.25), (''gross_leverage'', Num 4), (''var_utilisation'', Num 0.7),
      (''deleverage_trigger_var_pct'', Num 0.9), (''repo_dependence'', Str ''high''),
      (''strategy_profile'', PDict
         [(''primary_sensitivities'', PList [Str ''gilt_10y_yield'', Str ''gilt_30y_yield'']),
          (''secondary_sensitivities'', PList [Str ''sonia_swap'']),
          (''gilt_exposure_pct'', PList [Num 0.4, Num 0.6]),
          (''equity_exposure_pct'', PList [Num 0, Num 0.1]),
          (''corp_bond_exposure_pct'', PList [Num 0, Num 0.1]),
          (''repo_dependence'', Str ''high'')])]"

definition example_hf_fields :: HedgeFundFields where
  "example_hf_fields =
     \<lparr>hf_strategy = ''macro_rates'', hf_aum_mm = 1000, gross_leverage = 4,
      var_utilisation = 0.7, deleverage_trigger_var_pct = 0.9, repo_dependence = ''high'',
      repo_dep_mult = 0.8,
      primary_sensitivities = [''gilt_10y_yield'', ''gilt_30y_yield''],
      secondary_sensitivities = [''sonia_swap''],
      repo_refused_by_all = False, has_ever_sought_repo = False\<rparr>"

definition example_hf :: Agent where
  "example_hf =
     \<lparr>name = ''HF_01'', agent_type = ''hedge_fund'', theta = 0.25, size_factor = 1000,
      balance_sheet =
        [BalanceSheetItem_init ''Gilt Positions (net)'' 2000 ''liquid_asset''
           [(''gilt_10y_yield'', -0.0006), (''gilt_30y_yield'', -0.0008)] True True,
         BalanceSheetItem_init ''Equity Positions'' 200 ''liquid_asset''
           [(''equity'', 0.002)] False True,
         BalanceSheetItem_init ''Corp Bond Positions'' 200 ''liquid_asset''
           [(''ig_corp_spread'', -0.0002)] True True,
         BalanceSheetItem_init ''Basis Trade Positions'' 0 ''liquid_asset''
           [(''bond_futures_basis'', -0.001), (''gilt_10y_yield'', -0.0003)] False True,
         BalanceSheetItem_init ''Cash & Margin'' 100 ''liquid_asset'' [] False False,
         BalanceSheetItem_init ''Repo Borrowing'' 960 ''liability'' [] False False,
         BalanceSheetItem_init ''Margin Posted'' 80 ''illiquid_asset'' [] False False],
      liquidity = LiquidityPosition_init, has_reacted = False, reactions = [],
      cumulative_margin_calls_mm = 0, cumulative_asset_sales_mm = 0,
      cumulative_gilt_sales_mm = 0, cumulative_repo_demand_mm = 0,
      cumulative_redemptions_mm = 0,
      cls = HedgeFundAgent example_hf_fields\<rparr>"







text \<open>Two one-day scenarios for an insurer on its own, with no relationships: one in
  which the volatility index doubles, so that the insurer reacts, and a milder one in which
  it does not.\<close>

definition lone_insurer_scenario :: Scenario where
  "lone_insurer_scenario = \<lparr>horizon_days = Some 1, variable_paths = [(''vix'', [30])]\<rparr>"

definition example_insurer_final :: Agent where
  "example_insurer_final =
     example_insurer_stage2
       \<lparr>liquidity := \<lparr>B0 = 90, B1 = 10, B2 = 12.936, B3 = 12.936, E1 = 80, E2 = 0\<rparr>\<rparr>"

definition mild_scenario :: Scenario where
  "mild_scenario = \<lparr>horizon_days = Some 1, variable_paths = [(''vix'', [21])]\<rparr>"

definition mild_market :: MarketState where
  "mild_market = apply_exogenous_scenario MarketState_init [(''vix'', 21)]"

definition example_insurer_mild :: Agent where
  "example_insurer_mild =
     example_insurer\<lparr>liquidity := \<lparr>B0 = 90, B1 = 58, B2 = 0, B3 = 0, E1 = 32, E2 = 0\<rparr>,
                     cumulative_margin_calls_mm := 32\<rparr>"

definition example_insurer_idle :: Agent where
  "example_insurer_idle =
     example_insurer_mild\<lparr>liquidity := \<lparr>B0 = 90, B1 = 58, B2 = 58, B3 = 58, E1 = 32, E2 = 0\<rparr>\<rparr>"

section \<open>Evaluation of the concrete agents\<close>

lemma example_insurer_constructed: "InsurerAgent_init example_insurer_config = Inr example_insurer"
  by (simp add: InsurerAgent_init_def example_insurer_config_def example_insurer_def and_then_def
      getitem_def get_num_def get_dict_def as_num_def as_dict_def BaseAgent_init_def
      BaseAgent_init_params_def dict_get_def BaseAgent.defs Agent.defs LiquidityPosition_init_def)

lemma stressed_market_fields:
  "vix_level stressed_market = 30" "gilt_10y_yield_chg_bps stressed_market = 0"
  "gilt_bid_ask_spread_bps stressed_market = 4"
  "repo_market_availability_pct stressed_market = 0.85"
  "repo_haircut_corp_chg_pct stressed_market = 0"
  by (simp_all add: stressed_market_def apply_exogenous_scenario_def MarketState_init_def
      dict_get_def Let_def)

lemma example_insurer_day_eval:
  "compute_initial_buffer (reset_daily example_insurer) = (90, example_insurer_day)"
  by (simp add: compute_initial_buffer_def example_insurer_def reset_daily_def example_insurer_day_def
      Insurer_compute_initial_buffer_def get_item_def amount_or_zero_def BalanceSheetItem_init_def
      config_defs set_B0_def LiquidityPosition_init_def Let_def)

lemma example_insurer_stage1_eval0:
  "compute_stage1 example_insurer_day stressed_market [] None [] = Inr (80, example_insurer_stage1)"
  by (simp add: compute_stage1_def compute_mtm_impact_def
      compute_margin_calls_def compute_redemptions_def stressed_market_fields
      Insurer_compute_mtm_impact_def Insurer_compute_margin_calls_def Insurer_compute_redemptions_def
      example_insurer_stage1_def example_insurer_day_def example_insurer_def
      get_item_def BalanceSheetItem_init_def mtm_sum_def dict_get_def LiquidityPosition_init_def Let_def)

lemma example_insurer_stage1_eval:
  "compute_stage1 (snd (compute_initial_buffer (reset_daily example_insurer)))
     stressed_market [] None [] = Inr (80, example_insurer_stage1)"
  by (simp add: example_insurer_day_eval example_insurer_stage1_eval0)

lemma example_insurer_stage1_fields:
  "liquidity example_insurer_stage1 = \<lparr>B0 = 90, B1 = 10, B2 = 0, B3 = 0, E1 = 80, E2 = 0\<rparr>"
  "cumulative_repo_demand_mm example_insurer_stage1 = 0"
  "cumulative_asset_sales_mm example_insurer_stage1 = 0"
  "cumulative_gilt_sales_mm example_insurer_stage1 = 0"
  "theta example_insurer_stage1 = 0.45"
  by (simp_all add: example_insurer_stage1_def example_insurer_def)

lemma example_insurer_should_react: "should_react example_insurer_stage1"
  by (simp add: should_react_def example_insurer_stage1_fields)

lemma example_insurer_reactions:
  "compute_reactions (example_insurer_stage1\<lparr>has_reacted := True\<rparr>) stressed_market None []
    = ([(''draw_repo_line'', 2.4), (''draw_rcf'', 1.12)],
       example_insurer_stage1\<lparr>has_reacted := True\<rparr>)"
  by (simp add: compute_reactions_def example_insurer_stage1_def example_insurer_def
      Insurer_compute_reactions_def draw_step_def sell_step_def seek_repo_step_def
      redeem_mmf_step_def get_item_def BalanceSheetItem_init_def config_defs Let_def)

lemma realisation_draws:
  "realisation stressed_market ''draw_repo_line'' = 0.85"
  "realisation stressed_market ''draw_rcf'' = 0.8"
  by (simp_all add: realisation_def stressed_market_fields)

lemma example_insurer_stage2_eval:
  "compute_stage2 example_insurer_stage1 stressed_market None [] = example_insurer_stage2"
  by (simp add: compute_stage2_def example_insurer_should_react example_insurer_reactions
      realisation_draws count_sales_def Let_def example_insurer_stage2_def
      example_insurer_stage1_fields)

lemma example_insurer_stage2_fields:
  "liquidity example_insurer_stage2 = \<lparr>B0 = 90, B1 = 10, B2 = 12.936, B3 = 0, E1 = 80, E2 = 0\<rparr>"
  "reactions example_insurer_stage2 = [(''draw_repo_line'', 2.4), (''draw_rcf'', 1.12)]"
  "has_reacted example_insurer_stage2"
  by (simp_all add: example_insurer_stage2_def)

section \<open>What the methods leave unchanged\<close>

lemma compute_reactions_frame:
  "compute_reactions self market network agents = (rs, self') \<Longrightarrow>
     liquidity self' = liquidity self \<and> has_reacted self' = has_reacted self
     \<and> name self' = name self \<and> balance_sheet self' = balance_sheet self
     \<and> agent_type self' = agent_type self"
  by (auto simp: compute_reactions_def HedgeFund_compute_reactions_def
        LDIPension_compute_reactions_def Let_def split: AgentClass.splits)

lemma count_sales_frame:
  "liquidity (count_sales s r) = liquidity s \<and> reactions (count_sales s r) = reactions s
   \<and> has_reacted (count_sales s r) = has_reacted s"
  by (cases r) (simp add: count_sales_def Let_def)

lemma foldl_count_sales_frame:
  "liquidity (foldl count_sales s rs) = liquidity s
   \<and> reactions (foldl count_sales s rs) = reactions s
   \<and> has_reacted (foldl count_sales s rs) = has_reacted s"
  by (induction rs arbitrary: s) (simp_all add: count_sales_frame)

lemma compute_stage2_idle:
  "\<not> should_react self \<Longrightarrow>
     reactions (compute_stage2 self market network agents) = []
     \<and> \<not> has_reacted (compute_stage2 self market network agents)
     \<and> B2 (liquidity (compute_stage2 self market network agents)) = B1 (liquidity self)"
  by (simp add: compute_stage2_def)

lemma compute_stage2_react:
  assumes "should_react self"
  shows "reactions (compute_stage2 self market network agents)
           = fst (compute_reactions (self\<lparr>has_reacted := True\<rparr>) market network agents)"
    and "has_reacted (compute_stage2 self market network agents)"
    and "B2 (liquidity (compute_stage2 self market network agents)) =
           B1 (liquidity self)
           + (\<Sum>(action, amount)\<leftarrow>reactions (compute_stage2 self market network agents).
                amount * realisation market action)"
proof -
  obtain rs self1 where
    cr: "compute_reactions (self\<lparr>has_reacted := True\<rparr>) market network agents = (rs, self1)"
    by (cases "compute_reactions (self\<lparr>has_reacted := True\<rparr>) market network agents")
  from compute_reactions_frame[OF cr]
  have fr: "liquidity self1 = liquidity self" "has_reacted self1"
    by simp_all
  show "reactions (compute_stage2 self market network agents)
           = fst (compute_reactions (self\<lparr>has_reacted := True\<rparr>) market network agents)"
    using assms cr by (simp add: compute_stage2_def Let_def foldl_count_sales_frame)
  show "has_reacted (compute_stage2 self market network agents)"
    using assms cr fr by (simp add: compute_stage2_def Let_def foldl_count_sales_frame)
  show "B2 (liquidity (compute_stage2 self market network agents)) =
           B1 (liquidity self)
           + (\<Sum>(action, amount)\<leftarrow>reactions (compute_stage2 self market network agents).
                amount * realisation market action)"
    using assms cr fr by (simp add: compute_stage2_def Let_def foldl_count_sales_frame)
qed

lemma compute_stage2_frame:
  "B0 (liquidity (compute_stage2 self market network agents)) = B0 (liquidity self)
   \<and> B1 (liquidity (compute_stage2 self market network agents)) = B1 (liquidity self)
   \<and> E1 (liquidity (compute_stage2 self market network agents)) = E1 (liquidity self)
   \<and> E2 (liquidity (compute_stage2 self market network agents)) = E2 (liquidity self)
   \<and> B3 (liquidity (compute_stage2 self market network agents)) = B3 (liquidity self)"
proof (cases "should_react self")
  case False
  then show ?thesis by (simp add: compute_stage2_def)
next
  case True
  obtain rs self1 where
    cr: "compute_reactions (self\<lparr>has_reacted := True\<rparr>) market network agents = (rs, self1)"
    by (cases "compute_reactions (self\<lparr>has_reacted := True\<rparr>) market network agents")
  from compute_reactions_frame[OF cr] have fr: "liquidity self1 = liquidity self"
    by simp
  show ?thesis using True cr fr by (simp add: compute_stage2_def Let_def foldl_count_sales_frame)
qed

lemma compute_initial_buffer_frame:
  "compute_initial_buffer self = (b0, self') \<Longrightarrow> self' = set_B0 self b0"
  by (auto simp: compute_initial_buffer_def Bank_compute_initial_buffer_def
        HedgeFund_compute_initial_buffer_def LDIPension_compute_initial_buffer_def
        Insurer_compute_initial_buffer_def OEFMMF_compute_initial_buffer_def Let_def
        split: AgentClass.splits)

lemma compute_margin_calls_frame:
  "compute_margin_calls self market = Inr (m, self') \<Longrightarrow> liquidity self' = liquidity self"
  by (auto simp: compute_margin_calls_def LDIPension_compute_margin_calls_def Let_def
        split: AgentClass.splits option.splits if_splits)

lemma compute_redemptions_frame:
  "compute_redemptions self market network agents = (r, self') \<Longrightarrow> liquidity self' = liquidity self"
  by (auto simp: compute_redemptions_def OEFMMF_compute_redemptions_def Let_def
        split: AgentClass.splits option.splits if_splits)

lemma compute_stage1_result:
  assumes "compute_stage1 self market day_delta network agents = Inr (e1, self')"
  shows "B1 (liquidity self') = B0 (liquidity self') - E1 (liquidity self')"
    and "E1 (liquidity self') = e1"
    and "B0 (liquidity self') = B0 (liquidity self)"
    and "E2 (liquidity self') = E2 (liquidity self)"
proof -
  from assms obtain margin self1 where mc: "compute_margin_calls self market = Inr (margin, self1)"
    by (auto simp: compute_stage1_def Let_def split: sum.splits)
  obtain red self2 where rd: "compute_redemptions self1 market network agents = (red, self2)"
    by (cases "compute_redemptions self1 market network agents")
  have l2: "liquidity self2 = liquidity self"
    using compute_margin_calls_frame[OF mc] compute_redemptions_frame[OF rd] by simp
  from assms mc rd have
    self': "liquidity self' = (liquidity self2)\<lparr>E1 := e1, B1 := B0 (liquidity self2) - e1\<rparr>"
    by (auto simp: compute_stage1_def Let_def)
  show "B1 (liquidity self') = B0 (liquidity self') - E1 (liquidity self')" using self' by simp
  show "E1 (liquidity self') = e1" using self' by simp
  show "B0 (liquidity self') = B0 (liquidity self)" using self' l2 by simp
  show "E2 (liquidity self') = E2 (liquidity self)" using self' l2 by simp
qed

lemma apply_stage3_liquidity:
  "liquidity (apply_stage3 self e2) =
     (liquidity self)\<lparr>E2 := E2 (liquidity self) + e2,
                      B3 := B2 (liquidity self) - (E2 (liquidity self) + e2)\<rparr>"
  by (simp add: apply_stage3_def Let_def)

lemma foldl_apply_stage3:
  "E2 (liquidity (foldl apply_stage3 self es)) = E2 (liquidity self) + sum_list es
   \<and> B0 (liquidity (foldl apply_stage3 self es)) = B0 (liquidity self)
   \<and> B1 (liquidity (foldl apply_stage3 self es)) = B1 (liquidity self)
   \<and> B2 (liquidity (foldl apply_stage3 self es)) = B2 (liquidity self)
   \<and> E1 (liquidity (foldl apply_stage3 self es)) = E1 (liquidity self)
   \<and> (es \<noteq> [] \<longrightarrow> B3 (liquidity (foldl apply_stage3 self es))
                      = B2 (liquidity self) - (E2 (liquidity self) + sum_list es))"
proof (induction es arbitrary: self)
  case Nil
  then show ?case by simp
next
  case (Cons e es)
  show ?case
    using Cons[of "apply_stage3 self e"]
    by (cases es) (simp_all add: apply_stage3_liquidity algebra_simps)
qed

lemma exo_avail: "0.5 \<le> repo_market_availability_pct (apply_exogenous_scenario m dv)"
  by (simp add: apply_exogenous_scenario_def Let_def max_def)

lemma endo_avail:
  "apply_endogenous_feedback m = Inr m' \<Longrightarrow> 0.5 \<le> repo_market_availability_pct m'"
  by (auto simp: apply_endogenous_feedback_def Let_def repo_demand_feedback_def max_def
      split: if_splits)

lemma register_action_avail:
  "repo_market_availability_pct (register_action m r) = repo_market_availability_pct m"
  by (cases r) (simp add: register_action_def)

lemma register_avail:
  "repo_market_availability_pct (register_actions_to_market a m) = repo_market_availability_pct m"
proof -
  have "repo_market_availability_pct (foldl register_action m rs) = repo_market_availability_pct m"
    for rs
    by (induction rs arbitrary: m) (simp_all add: register_action_avail)
  then show ?thesis by (simp add: register_actions_to_market_def)
qed

lemma market_calls_avail:
  "0.5 \<le> repo_market_availability_pct m \<Longrightarrow> market_calls m cs = Inr m'
   \<Longrightarrow> 0.5 \<le> repo_market_availability_pct m'"
proof (induction m cs rule: market_calls.induct)
  case (1 m)
  then show ?case by simp
next
  case (2 m dv cs)
  from 2(3) have "market_calls (apply_exogenous_scenario m dv) cs = Inr m'" by simp
  with 2(1) exo_avail show ?case by blast
next
  case (3 m cs)
  from 3(3) obtain m1 where
    m1: "apply_endogenous_feedback m = Inr m1" "market_calls m1 cs = Inr m'"
    by (auto split: sum.splits)
  with 3(1) endo_avail show ?case by blast
next
  case (4 m a cs)
  from 4(3) have "market_calls (register_actions_to_market a m) cs = Inr m'" by simp
  with 4(1) 4(2) show ?case by (simp only: register_avail)
qed

section \<open>The action names of the reaction waterfalls\<close>

lemma keys_dict_set: "fst ` set (dict_set d k v) = insert k (fst ` set d)"
proof (induction d)
  case Nil
  then show ?case by simp
next
  case (Cons p d)
  then show ?case by (cases p) (auto simp: image_iff)
qed

lemma draw_step_keys:
  "fst ` set (fst st) \<subseteq> A \<Longrightarrow> action \<in> A
   \<Longrightarrow> fst ` set (fst (draw_step self item action caps st)) \<subseteq> A"
  by (cases st; cases caps)
     (auto simp: draw_step_def keys_dict_set Let_def split: option.splits)

lemma sell_step_keys:
  "fst ` set (fst st) \<subseteq> A \<Longrightarrow> action \<in> A
   \<Longrightarrow> fst ` set (fst (sell_step self item action caps st)) \<subseteq> A"
  using draw_step_keys[of st A action self item caps] by (simp add: sell_step_def)

lemma seek_repo_step_keys:
  "fst ` set (fst st) \<subseteq> A \<Longrightarrow> ''seek_repo'' \<in> A
   \<Longrightarrow> fst ` set (fst (seek_repo_step self market network agents conn pct st)) \<subseteq> A"
  by (cases st) (auto simp: seek_repo_step_def keys_dict_set Let_def split: option.splits)

lemma redeem_mmf_step_keys:
  "fst ` set (fst st) \<subseteq> A \<Longrightarrow> ''redeem_mmf'' \<in> A
   \<Longrightarrow> fst ` set (fst (redeem_mmf_step self network share cap st)) \<subseteq> A"
  by (cases st) (auto simp: redeem_mmf_step_def keys_dict_set Let_def split: option.splits)

lemma recapitalise_keys:
  "fst ` set (fst st) \<subseteq> A \<Longrightarrow> ''recapitalisation'' \<in> A
   \<Longrightarrow> fst ` set (fst (fst (LDIPension_recapitalise l st))) \<subseteq> A"
  by (cases st) (auto simp: LDIPension_recapitalise_def keys_dict_set Let_def)

lemma hf_seek_repo_keys:
  "fst ` set (fst st) \<subseteq> A \<Longrightarrow> ''seek_repo'' \<in> A
   \<Longrightarrow> fst ` set (fst (fst (HedgeFund_seek_repo self h market network agents st))) \<subseteq> A"
  by (cases st) (auto simp: HedgeFund_seek_repo_def keys_dict_set Let_def split: option.splits)

lemma hf_strategy_sales_keys:
  "fst ` set (fst st) \<subseteq> set recorded_action_names
   \<Longrightarrow> fst ` set (fst (HedgeFund_strategy_sales self h st)) \<subseteq> set recorded_action_names"
proof -
  assume st: "fst ` set (fst st) \<subseteq> set recorded_action_names"
  have m: "''sell_gilt'' \<in> set recorded_action_names"
    "''sell_gilt_basis_unwind'' \<in> set recorded_action_names"
    "''sell_corp_bonds'' \<in> set recorded_action_names"
    "''sell_equity'' \<in> set recorded_action_names"
    by (simp_all add: recorded_action_names_def)
  show ?thesis
    unfolding HedgeFund_strategy_sales_def
    by (simp only: split: if_splits) (intro conjI impI draw_step_keys sell_step_keys st m)
qed

lemma Bank_reaction_names:
  "fst ` set (Bank_compute_reactions self b) \<subseteq> set recorded_action_names"
  unfolding Bank_compute_reactions_def Let_def
  by (intro draw_step_keys sell_step_keys) (simp_all add: recorded_action_names_def)

lemma Insurer_reaction_names:
  "fst ` set (Insurer_compute_reactions self ins market network agents) \<subseteq> set recorded_action_names"
  unfolding Insurer_compute_reactions_def Let_def
  by (intro draw_step_keys sell_step_keys seek_repo_step_keys redeem_mmf_step_keys)
     (simp_all add: recorded_action_names_def)

lemma LDIPension_reaction_names:
  "fst ` set (fst (LDIPension_compute_reactions self l market network agents))
     \<subseteq> set recorded_action_names"
  unfolding LDIPension_compute_reactions_def Let_def fst_conv
  by (intro draw_step_keys sell_step_keys seek_repo_step_keys redeem_mmf_step_keys
        recapitalise_keys)
     (simp_all add: recorded_action_names_def)

lemma OEFMMF_reaction_names:
  "fst ` set (OEFMMF_compute_reactions self f) \<subseteq> set recorded_action_names"
proof -
  let ?st3 = "sell_step self ''Corporate Bond Holdings'' ''sell_corp_bonds''
                REACTION_PARAMS_oef_mmf_sell_corp
                (sell_step self ''Gilt Holdings'' ''sell_gilt'' REACTION_PARAMS_oef_mmf_sell_gilt
                  (draw_step self ''Cash Buffer'' ''use_cash_buffer'' (0.5, 0.7)
                     ([], max 0 (- B1 (liquidity self)) + E1 (liquidity self) * 0.1)))"
  have "fst ` set (fst ?st3) \<subseteq> set recorded_action_names"
    by (intro draw_step_keys sell_step_keys) (simp_all add: recorded_action_names_def)
  then show ?thesis
    by (auto simp: OEFMMF_compute_reactions_def Let_def keys_dict_set recorded_action_names_def)
qed

lemma HedgeFund_reaction_names:
  "fst ` set (fst (HedgeFund_compute_reactions self h market network agents))
     \<subseteq> set recorded_action_names"
proof -
  let ?r1 = "HedgeFund_seek_repo self h market network agents
               ([], max 0 (- B1 (liquidity self)) + E1 (liquidity self) * 0.2)"
  let ?st2 = "HedgeFund_strategy_sales self (snd ?r1) (fst ?r1)"
  have "fst ` set (fst (fst ?r1)) \<subseteq> set recorded_action_names"
    by (intro hf_seek_repo_keys) (simp_all add: recorded_action_names_def)
  then have "fst ` set (fst ?st2) \<subseteq> set recorded_action_names"
    by (rule hf_strategy_sales_keys)
  then show ?thesis
    by (auto simp: HedgeFund_compute_reactions_def Let_def keys_dict_set recorded_action_names_def
        split: option.splits)
qed

lemma compute_reactions_names:
  "fst ` set (fst (compute_reactions self market network agents)) \<subseteq> set recorded_action_names"
  using Bank_reaction_names Insurer_reaction_names LDIPension_reaction_names
    OEFMMF_reaction_names HedgeFund_reaction_names
  by (simp add: compute_reactions_def split: AgentClass.splits)

lemma realisation_table:
  "map (realisation market) recorded_action_names =
     (let sale = max 0.5 (1 - gilt_bid_ask_spread_bps market / 100);
          repo = repo_market_availability_pct market
      in [0.95, repo, sale, sale, repo, sale, sale, 0.90, 0.80, 0.80, sale, repo, 0.80, 0.80, 0.80])"
  by (simp add: recorded_action_names_def realisation_def Let_def)

section \<open>Evaluation of the bank and of the pooled fund\<close>

lemma example_bank_day_eval:
  "compute_initial_buffer (reset_daily example_bank) = (0.5, example_bank_day)"
  by (simp add: compute_initial_buffer_def example_bank_def reset_daily_def example_bank_day_def
      Bank_compute_initial_buffer_def get_item_def amount_or_zero_def BalanceSheetItem_init_def
      example_bank_fields_def config_defs set_B0_def LiquidityPosition_init_def Let_def)

lemma rates_up_market_fields:
  "vix_level rates_up_market = 15" "gilt_10y_yield_chg_bps rates_up_market = 100"
  "gilt_bid_ask_spread_bps rates_up_market = 2"
  "repo_market_availability_pct rates_up_market = 1"
  by (simp_all add: rates_up_market_def apply_exogenous_scenario_def MarketState_init_def
      dict_get_def Let_def)

lemma example_bank_stage1_eval:
  "compute_stage1 example_bank_day rates_up_market [(''gilt_10y_yield'', 100)] None []
     = Inr (0.082, example_bank_stage1)"
  by (simp add: compute_stage1_def compute_mtm_impact_def
      compute_margin_calls_def compute_redemptions_def rates_up_market_fields
      Bank_compute_mtm_impact_def Bank_compute_margin_calls_def Bank_compute_redemptions_def
      example_bank_stage1_def example_bank_day_def example_bank_def
      get_item_def BalanceSheetItem_init_def mtm_sum_def dict_get_def LiquidityPosition_init_def Let_def)

lemma is_connected_iff:
  "is_connected net bank_name requester \<longleftrightarrow>
     requester \<in> set (get_connected_hfs net bank_name @ get_connected_ldis net bank_name
                       @ [i. (bk, i) \<leftarrow> bank_insurer_edges net, bk = bank_name])"
  by (auto simp: is_connected_def get_connected_hfs_def get_connected_ldis_def)

lemma larger_bank_day_eval:
  "compute_initial_buffer (reset_daily larger_bank) = (2, larger_bank_day)"
  by (simp add: compute_initial_buffer_def larger_bank_def example_bank_def reset_daily_def
      larger_bank_day_def larger_bank_fields_def
      Bank_compute_initial_buffer_def get_item_def amount_or_zero_def BalanceSheetItem_init_def
      example_bank_fields_def config_defs set_B0_def LiquidityPosition_init_def Let_def)

lemma larger_bank_stage1_eval:
  "compute_stage1 larger_bank_day rates_up_market [(''gilt_10y_yield'', 100)] None []
     = Inr (0.082, larger_bank_stage1)"
  by (simp add: compute_stage1_def compute_mtm_impact_def
      compute_margin_calls_def compute_redemptions_def rates_up_market_fields
      Bank_compute_mtm_impact_def Bank_compute_margin_calls_def Bank_compute_redemptions_def
      larger_bank_stage1_def larger_bank_day_def larger_bank_def example_bank_def
      get_item_def BalanceSheetItem_init_def mtm_sum_def dict_get_def LiquidityPosition_init_def Let_def)

lemma example_bank_assess:
  "assess_repo_request example_bank_stage1 example_bank_fields ''HF_01'' 100 (Some example_network)
     = 1843530 / 266353"
  by (simp add: assess_repo_request_def example_bank_stage1_def example_bank_def
      example_bank_fields_def example_network_def get_connected_hfs_def get_connected_ldis_def
      config_defs Let_def)

lemma example_bank_claimed:
  "claimed_assess_repo_request example_bank_stage1 example_bank_fields ''HF_01'' 100 example_network
     = 1023530 / 266353"
  by (simp add: claimed_assess_repo_request_def example_bank_stage1_def example_bank_def
      example_bank_fields_def example_network_def is_connected_def stress_based_willingness_def
      config_defs Let_def)

lemma BankAgent_init_never_returns: "BankAgent_init config \<noteq> Inr a"
  by (auto simp: BankAgent_init_def and_then_def getitem_def
      BaseAgent_init_def BaseAgent_init_params_def split: option.splits sum.splits)

lemma example_oef_constructed: "OEFMMFAgent_init example_oef_config = Inr example_oef"
  by (simp add: OEFMMFAgent_init_def example_oef_config_def example_oef_def and_then_def
      getitem_def get_num_def get_str_def get_dict_def as_num_def as_str_def as_dict_def
      BaseAgent_init_def mid_def example_oef_fields_def
      BaseAgent_init_params_def dict_get_def BaseAgent.defs Agent.defs LiquidityPosition_init_def)

lemma example_oef_day_eval:
  "compute_initial_buffer (reset_daily example_oef) = (0.01, example_oef_day)"
  by (simp add: compute_initial_buffer_def example_oef_def reset_daily_def example_oef_day_def
      OEFMMF_compute_initial_buffer_def get_item_def amount_or_zero_def BalanceSheetItem_init_def
      example_oef_fields_def config_defs set_B0_def LiquidityPosition_init_def Let_def)

lemma agent_map_insurer:
  "agent_map [example_insurer_stage1, a] ''Insurer_01'' =
     (if name a = ''Insurer_01'' then Some a else Some example_insurer_stage1)"
  by (simp add: agent_map_def example_insurer_stage1_def example_insurer_def)

lemma redemption_from_insurer:
  "redemption_from (example_oef_fields\<lparr>cumulative_redemption_inflows_mm := c\<rparr>)
     (Some example_insurer_stage1) = 0.04"
  by (simp add: redemption_from_def example_oef_fields_def example_insurer_stage1_def
      example_insurer_def Let_def)

lemma example_oef_query1:
  "compute_redemptions example_oef_day stressed_market (Some redemption_network)
     [example_insurer_stage1, example_oef_day] = (0.04, example_oef_queried)"
  using redemption_from_insurer[of 0]
  by (simp add: compute_redemptions_def OEFMMF_compute_redemptions_def example_oef_day_def
      example_oef_def example_oef_queried_def redemption_network_def get_oef_redeemers_def
      agent_map_insurer Let_def)
     (simp add: example_oef_fields_def)


lemma example_oef_query2:
  "compute_redemptions example_oef_queried stressed_market (Some redemption_network)
     [example_insurer_stage1, example_oef_queried] = (0.04, example_oef_requeried)"
  using redemption_from_insurer[of "0.04"]
  by (simp add: compute_redemptions_def OEFMMF_compute_redemptions_def example_oef_day_def
      example_oef_def example_oef_queried_def example_oef_requeried_def redemption_network_def
      get_oef_redeemers_def agent_map_insurer Let_def)

lemma example_oef_cls:
  "cls example_oef_day = OEFMMFAgent example_oef_fields"
  "cls example_oef_queried =
     OEFMMFAgent (example_oef_fields\<lparr>cumulative_redemption_inflows_mm := 0.04\<rparr>)"
  by (simp_all add: example_oef_day_def example_oef_def example_oef_queried_def)

lemma example_oef_mtm:
  "compute_mtm_impact example_oef_day stressed_market [] = 0"
  "compute_mtm_impact example_oef_queried stressed_market [] = 0"
  by (simp_all add: compute_mtm_impact_def OEFMMF_compute_mtm_impact_def example_oef_day_def
      example_oef_def example_oef_queried_def mtm_sum_def BalanceSheetItem_init_def dict_get_def)

lemma example_oef_stage1_eval:
  "compute_stage1 example_oef_day stressed_market [] (Some redemption_network)
     [example_insurer_stage1, example_oef_day] = Inr (0.04, example_oef_stage1)"
  by (simp add: compute_stage1_def compute_margin_calls_def example_oef_cls example_oef_query1
        example_oef_mtm example_oef_stage1_def Let_def)
     (simp add: example_oef_queried_def example_oef_day_def example_oef_def)

lemma example_oef_stage1_requeried_eval:
  "compute_stage1 example_oef_queried stressed_market [] (Some redemption_network)
     [example_insurer_stage1, example_oef_queried] = Inr (0.04, example_oef_stage1_requeried)"
  by (simp add: compute_stage1_def compute_margin_calls_def example_oef_cls example_oef_query2
        example_oef_mtm example_oef_stage1_requeried_def Let_def)
     (simp add: example_oef_requeried_def example_oef_day_def example_oef_def)

lemma example_oef_reactions:
  "compute_reactions (example_oef_stage1\<lparr>has_reacted := True\<rparr>) stressed_market
     (Some redemption_network) ags
    = ([(''use_cash_buffer'', 0.014), (''sell_gilt'', 0.002), (''sell_corp_bonds'', 0.00144)],
       example_oef_stage1\<lparr>has_reacted := True\<rparr>)"
  by (simp add: compute_reactions_def example_oef_stage1_def example_oef_queried_def
      example_oef_day_def example_oef_def example_oef_fields_def
      OEFMMF_compute_reactions_def draw_step_def sell_step_def
      get_item_def BalanceSheetItem_init_def config_defs Let_def)

lemma example_oef_reactions_requeried:
  "compute_reactions (example_oef_stage1_requeried\<lparr>has_reacted := True\<rparr>) stressed_market
     (Some redemption_network) ags
    = ([(''use_cash_buffer'', 0.014), (''sell_gilt'', 0.002), (''sell_corp_bonds'', 0.00144),
        (''swing_pricing'', 0.003312)],
       example_oef_stage1_requeried\<lparr>has_reacted := True\<rparr>)"
  by (simp add: compute_reactions_def example_oef_stage1_requeried_def example_oef_requeried_def
      example_oef_day_def example_oef_def example_oef_fields_def
      OEFMMF_compute_reactions_def draw_step_def sell_step_def
      get_item_def BalanceSheetItem_init_def config_defs Let_def)

lemma example_oef_should_react:
  "should_react example_oef_stage1" "should_react example_oef_stage1_requeried"
  by (simp_all add: should_react_def example_oef_stage1_def example_oef_stage1_requeried_def
      example_oef_queried_def example_oef_requeried_def example_oef_day_def example_oef_def)

lemma example_oef_stage2_reactions:
  "reactions (compute_stage2 example_oef_stage1 stressed_market (Some redemption_network) ags)
     = [(''use_cash_buffer'', 0.014), (''sell_gilt'', 0.002), (''sell_corp_bonds'', 0.00144)]"
  "reactions (compute_stage2 example_oef_stage1_requeried stressed_market
                (Some redemption_network) ags)
     = [(''use_cash_buffer'', 0.014), (''sell_gilt'', 0.002), (''sell_corp_bonds'', 0.00144),
        (''swing_pricing'', 0.003312)]"
  by (simp_all add: compute_stage2_react(1)[OF example_oef_should_react(1)]
      compute_stage2_react(1)[OF example_oef_should_react(2)]
      example_oef_reactions example_oef_reactions_requeried)

section \<open>Repeating the buffer and stage-1 queries\<close>

lemma truncate_fields:
  "name (BaseAgent.truncate a) = name a"
  "liquidity (BaseAgent.truncate a) = liquidity a"
  "size_factor (BaseAgent.truncate a) = size_factor a"
  "agent_type (BaseAgent.truncate a) = agent_type a"
  by (simp_all add: BaseAgent.truncate_def)

lemma map_of_truncate:
  "map_option BaseAgent.truncate (map_of (map (\<lambda>a. (name a, a)) xs) n)
     = map_of (map (\<lambda>b. (name b, b)) (map BaseAgent.truncate xs)) n"
  by (induction xs) (simp_all add: truncate_fields)

lemma agent_map_truncate:
  assumes "map BaseAgent.truncate agents' = map BaseAgent.truncate agents"
  shows "map_option BaseAgent.truncate (agent_map agents' n)
           = map_option BaseAgent.truncate (agent_map agents n)"
proof -
  have "map_option BaseAgent.truncate (agent_map xs n)
          = map_of (map (\<lambda>b. (name b, b)) (rev (map BaseAgent.truncate xs))) n" for xs :: "Agent list"
    using map_of_truncate[of "rev xs" n] by (simp add: agent_map_def rev_map)
  then show ?thesis using assms by simp
qed

lemma redemption_from_truncate:
  "map_option BaseAgent.truncate x = map_option BaseAgent.truncate y
   \<Longrightarrow> redemption_from f x = redemption_from f y"
proof (cases x; cases y)
  fix a b assume "x = Some a" "y = Some b" "map_option BaseAgent.truncate x = map_option BaseAgent.truncate y"
  then have t: "BaseAgent.truncate a = BaseAgent.truncate b" by simp
  have "liquidity a = liquidity b" "size_factor a = size_factor b" "agent_type a = agent_type b"
    using truncate_fields[of a] truncate_fields[of b] t by simp_all
  then show ?thesis using \<open>x = Some a\<close> \<open>y = Some b\<close> by (simp add: redemption_from_def Let_def)
qed simp_all

lemma redemption_from_cumulative:
  "redemption_from (f\<lparr>cumulative_redemption_inflows_mm := c\<rparr>) x = redemption_from f x"
  by (simp add: redemption_from_def Let_def split: option.splits)

lemma OEFMMF_redemptions_same:
  assumes "map BaseAgent.truncate agents' = map BaseAgent.truncate agents"
    and "name a1 = name a"
  shows "fst (OEFMMF_compute_redemptions a1 (f\<lparr>cumulative_redemption_inflows_mm := c\<rparr>) network agents')
       = fst (OEFMMF_compute_redemptions a f network agents)"
proof -
  have "redemption_from (f\<lparr>cumulative_redemption_inflows_mm := c\<rparr>) (agent_map agents' n)
          = redemption_from f (agent_map agents n)" for n
    using redemption_from_truncate[OF agent_map_truncate[OF assms(1)]]
    by (simp add: redemption_from_cumulative)
  then show ?thesis
    by (simp add: OEFMMF_compute_redemptions_def assms(2) Let_def split: option.splits)
qed

lemma compute_initial_buffer_idem:
  "compute_initial_buffer (snd (compute_initial_buffer a)) = compute_initial_buffer a"
proof -
  have g: "get_item (set_B0 s v) n = get_item s n" for s v n
    by (simp add: get_item_def set_B0_def)
  have c: "cls (set_B0 s v) = cls s" for s v
    by (simp add: set_B0_def)
  have i: "set_B0 (set_B0 s v) v = set_B0 s v" for s v
    by (simp add: set_B0_def)
  show ?thesis
    by (cases "cls a")
       (simp_all add: compute_initial_buffer_def Bank_compute_initial_buffer_def
          HedgeFund_compute_initial_buffer_def LDIPension_compute_initial_buffer_def
          Insurer_compute_initial_buffer_def OEFMMF_compute_initial_buffer_def Let_def g c i)
qed

lemma LDIPension_margin_calls_idem:
  assumes "LDIPension_compute_margin_calls self l market = Inr (m, a1)"
  shows "(\<exists>l'. cls a1 = LDIPensionAgent l'
                \<and> LDIPension_compute_margin_calls a1 l' market = Inr (m, a1))
         \<or> (a1 = self \<and> get_item self ''Derivatives Exposure'' = None)"
proof (cases "get_item self ''Derivatives Exposure''")
  case None
  with assms show ?thesis by (simp add: LDIPension_compute_margin_calls_def)
next
  case (Some deriv)
  show ?thesis
  proof (cases "yield_buffer_bps l = 0")
    case True
    with assms Some show ?thesis by (simp add: LDIPension_compute_margin_calls_def Let_def)
  next
    case False
    define l' where "l' = l\<lparr>yield_buffer_consumed_pct :=
                             min 1 (\<bar>gilt_10y_yield_chg_bps market\<bar> / yield_buffer_bps l)\<rparr>"
    from assms Some False have a1: "a1 = self\<lparr>cls := LDIPensionAgent l'\<rparr>"
      by (simp add: LDIPension_compute_margin_calls_def Let_def l'_def)
    have g: "get_item a1 ''Derivatives Exposure'' = Some deriv"
      using Some a1 by (simp add: get_item_def)
    have "LDIPension_compute_margin_calls a1 l' market = Inr (m, a1)"
      using assms Some False g a1
      by (simp add: LDIPension_compute_margin_calls_def Let_def l'_def)
    with a1 show ?thesis by auto
  qed
qed

lemma compute_margin_calls_idem:
  assumes "compute_margin_calls a market = Inr (m, a1)"
  shows "compute_margin_calls a1 market = Inr (m, a1)"
proof (cases "cls a")
  case (LDIPensionAgent l)
  with assms have l: "LDIPension_compute_margin_calls a l market = Inr (m, a1)"
    by (simp add: compute_margin_calls_def)
  from LDIPension_margin_calls_idem[OF l] show ?thesis
  proof
    assume "\<exists>l'. cls a1 = LDIPensionAgent l' \<and> LDIPension_compute_margin_calls a1 l' market = Inr (m, a1)"
    then show ?thesis by (auto simp: compute_margin_calls_def)
  next
    assume "a1 = a \<and> get_item a ''Derivatives Exposure'' = None"
    then show ?thesis using assms by simp
  qed
qed (use assms in \<open>auto simp: compute_margin_calls_def\<close>)

lemma OEFMMF_redemptions_state:
  "snd (OEFMMF_compute_redemptions a f network agents) =
     a\<lparr>cls := OEFMMFAgent (f\<lparr>cumulative_redemption_inflows_mm :=
            cumulative_redemption_inflows_mm f
            + fst (OEFMMF_compute_redemptions a f network agents)\<rparr>)\<rparr>
   \<or> (snd (OEFMMF_compute_redemptions a f network agents) = a
       \<and> fst (OEFMMF_compute_redemptions a f network agents) = 0)"
  by (simp add: OEFMMF_compute_redemptions_def Let_def split: option.splits)

lemma compute_redemptions_repeat:
  assumes "compute_redemptions a market network agents = (r, a1)"
    and "map BaseAgent.truncate agents' = map BaseAgent.truncate agents"
  shows "fst (compute_redemptions a1 market network agents') = r
         \<and> BaseAgent.truncate a1 = BaseAgent.truncate a
         \<and> (case cls a of
               OEFMMFAgent f \<Rightarrow>
                 cls a1 = OEFMMFAgent (f\<lparr>cumulative_redemption_inflows_mm :=
                                           cumulative_redemption_inflows_mm f + r\<rparr>)
             | _ \<Rightarrow> a1 = a)"
proof (cases "cls a")
  case (OEFMMFAgent f)
  from assms(1) OEFMMFAgent have
    r: "r = fst (OEFMMF_compute_redemptions a f network agents)"
    and s: "a1 = snd (OEFMMF_compute_redemptions a f network agents)"
    by (simp_all add: compute_redemptions_def)
  let ?f' = "f\<lparr>cumulative_redemption_inflows_mm := cumulative_redemption_inflows_mm f + r\<rparr>"
  from OEFMMF_redemptions_state[of a f network agents] r s OEFMMFAgent
  have a1: "a1 = a\<lparr>cls := OEFMMFAgent ?f'\<rparr>"
    by auto
  then have n: "name a1 = name a" and c: "cls a1 = OEFMMFAgent ?f'"
    and t: "BaseAgent.truncate a1 = BaseAgent.truncate a"
    by (simp_all add: BaseAgent.truncate_def)
  have "fst (compute_redemptions a1 market network agents') = r"
    using OEFMMF_redemptions_same[OF assms(2) n, where f=f and network=network] c r
    by (simp add: compute_redemptions_def)
  then show ?thesis using c t OEFMMFAgent by simp
next
  case (BankAgent b)
  with assms(1) show ?thesis by (auto simp: compute_redemptions_def)
next
  case (HedgeFundAgent h)
  with assms(1) show ?thesis by (auto simp: compute_redemptions_def)
next
  case (LDIPensionAgent l)
  with assms(1) show ?thesis by (auto simp: compute_redemptions_def)
next
  case (InsurerAgent i)
  with assms(1) show ?thesis by (auto simp: compute_redemptions_def)
qed

lemma mtm_after_buffer:
  "compute_mtm_impact (snd (compute_initial_buffer a)) market dd = compute_mtm_impact a market dd"
proof -
  obtain b0 a' where ib: "compute_initial_buffer a = (b0, a')"
    by (cases "compute_initial_buffer a")
  from compute_initial_buffer_frame[OF ib] have "a' = set_B0 a b0" .
  then show ?thesis using ib
    by (simp add: compute_mtm_impact_def set_B0_def Bank_compute_mtm_impact_def
        HedgeFund_compute_mtm_impact_def LDIPension_compute_mtm_impact_def
        Insurer_compute_mtm_impact_def OEFMMF_compute_mtm_impact_def get_item_def
        split: AgentClass.splits)
qed

lemma mtm_after_margin:
  assumes "compute_margin_calls a market = Inr (m, a1)"
  shows "compute_mtm_impact a1 market2 dd = compute_mtm_impact a market2 dd"
proof (cases "cls a")
  case (LDIPensionAgent l)
  with assms have l: "LDIPension_compute_margin_calls a l market = Inr (m, a1)"
    by (simp add: compute_margin_calls_def)
  then have "a1 = a \<or> (\<exists>c. a1 = a\<lparr>cls := LDIPensionAgent (l\<lparr>yield_buffer_consumed_pct := c\<rparr>)\<rparr>)"
    by (auto simp: LDIPension_compute_margin_calls_def Let_def split: option.splits if_splits)
  then show ?thesis using LDIPensionAgent
    by (auto simp: compute_mtm_impact_def LDIPension_compute_mtm_impact_def)
qed (use assms in \<open>auto simp: compute_margin_calls_def\<close>)

lemma mtm_after_redemptions:
  assumes "compute_redemptions a market network agents = (r, a1)"
  shows "compute_mtm_impact a1 market2 dd = compute_mtm_impact a market2 dd"
proof (cases "cls a")
  case (OEFMMFAgent f)
  from assms OEFMMFAgent have
    s: "a1 = snd (OEFMMF_compute_redemptions a f network agents)"
    by (simp_all add: compute_redemptions_def)
  from OEFMMF_redemptions_state[of a f network agents] s OEFMMFAgent
  show ?thesis
    by (auto simp: compute_mtm_impact_def OEFMMF_compute_mtm_impact_def)
qed (use assms in \<open>auto simp: compute_redemptions_def\<close>)

section \<open>The network that \<open>build_network\<close> returns\<close>


















lemma example_hf_constructed: "HedgeFundAgent_init example_hf_config = Inr example_hf"
  by (simp add: HedgeFundAgent_init_def example_hf_config_def example_hf_def and_then_def
      getitem_def get_num_def get_str_def get_dict_def as_num_def as_str_def as_dict_def
      get_str_list_def BaseAgent_init_def mid_def example_hf_fields_def REPO_DEP_MULT_def
      build_gilt_sensitivity_def build_equity_sensitivity_def build_corp_sensitivity_def
      BaseAgent_init_params_def dict_get_def BaseAgent.defs Agent.defs LiquidityPosition_init_def
      Let_def)
















section \<open>A run of the simulation\<close>

lemma dict_get_dict_set: "dict_get (dict_set d k v) k dflt = v"
  by (induction d) (auto simp: dict_get_def)

lemma for_each_single: "for_each body [a] = [body [a] 0]"
  by (simp add: for_each_def)

lemma for_each_err_single:
  "for_each_err body [a] = (case body [a] 0 of Inl e \<Rightarrow> Inl e | Inr a' \<Rightarrow> Inr [a'])"
  by (simp add: for_each_err_def split: sum.splits)

lemma reset_example_insurer: "reset_daily example_insurer = example_insurer"
  by (simp add: reset_daily_def example_insurer_def LiquidityPosition_init_def)

lemma reset_example_insurer_day: "reset_daily example_insurer_day = example_insurer_day"
  by (simp add: reset_daily_def example_insurer_day_def example_insurer_def)

lemma example_insurer_day_again:
  "compute_initial_buffer example_insurer_day = (90, example_insurer_day)"
  by (simp add: compute_initial_buffer_def example_insurer_def example_insurer_day_def
      Insurer_compute_initial_buffer_def get_item_def amount_or_zero_def BalanceSheetItem_init_def
      config_defs set_B0_def LiquidityPosition_init_def Let_def)

lemma stressed_market_day0:
  "apply_exogenous_scenario (MarketState_init\<lparr>day := 0\<rparr>) [(''vix'', 30)] = stressed_market"
  by (simp add: stressed_market_def MarketState_init_def)

lemma example_insurer_stage1_run:
  "compute_stage1 example_insurer_day stressed_market [(''vix'', 30)]
     (Some RelationshipNetwork_init) [example_insurer_day] = Inr (80, example_insurer_stage1)"
  by (simp add: compute_stage1_def compute_mtm_impact_def
      compute_margin_calls_def compute_redemptions_def stressed_market_fields
      Insurer_compute_mtm_impact_def Insurer_compute_margin_calls_def Insurer_compute_redemptions_def
      example_insurer_stage1_def example_insurer_day_def example_insurer_def
      get_item_def BalanceSheetItem_init_def mtm_sum_def dict_get_def LiquidityPosition_init_def Let_def)

lemma example_insurer_reactions_run:
  "compute_reactions (example_insurer_stage1\<lparr>has_reacted := True\<rparr>) stressed_market
     (Some RelationshipNetwork_init) [example_insurer_stage1]
    = ([(''draw_repo_line'', 2.4), (''draw_rcf'', 1.12)],
       example_insurer_stage1\<lparr>has_reacted := True\<rparr>)"
  by (simp add: compute_reactions_def example_insurer_stage1_def example_insurer_def
      Insurer_compute_reactions_def draw_step_def sell_step_def seek_repo_step_def
      redeem_mmf_step_def get_item_def BalanceSheetItem_init_def config_defs Let_def
      RelationshipNetwork_init_def seek_repo_from_def get_redemption_targets_def)

lemma example_insurer_stage2_run:
  "compute_stage2 example_insurer_stage1 stressed_market (Some RelationshipNetwork_init)
     [example_insurer_stage1] = example_insurer_stage2"
  by (simp add: compute_stage2_def example_insurer_should_react example_insurer_reactions_run
      realisation_draws count_sales_def Let_def example_insurer_stage2_def
      example_insurer_stage1_fields)

lemma example_insurer_stage2_type:
  "agent_type example_insurer_stage2 = ''insurer''" "name example_insurer_stage2 = ''Insurer_01''"
  "balance_sheet example_insurer_stage2 = balance_sheet example_insurer"
  by (simp_all add: example_insurer_stage2_def example_insurer_stage1_def example_insurer_def)

lemma lone_insurer_stages_1_2:
  "stages_1_2 RelationshipNetwork_init stressed_market [(''vix'', 30)] [example_insurer_day]
     = Inr ([example_insurer_stage2],
            register_actions_to_market example_insurer_stage2 stressed_market)"
  by (simp add: stages_1_2_def for_each_err_single for_each_single stage1_body_def
      stage2_body_def reset_example_insurer_day example_insurer_day_again
      example_insurer_stage1_run example_insurer_stage2_run banks_absorb_def
      example_insurer_stage2_type absorb_share_def Let_def)

lemma example_insurer_feedback_off: "feedback_off example_insurer_stage2 = example_insurer_final"
  by (simp add: feedback_off_def example_insurer_final_def example_insurer_stage2_fields Let_def)

lemma example_insurer_final_fields:
  "liquidity example_insurer_final = \<lparr>B0 = 90, B1 = 10, B2 = 12.936, B3 = 12.936, E1 = 80, E2 = 0\<rparr>"
  "reactions example_insurer_final = [(''draw_repo_line'', 2.4), (''draw_rcf'', 1.12)]"
  "name example_insurer_final = ''Insurer_01''"
  "agent_type example_insurer_final = ''insurer''"
  by (simp_all add: example_insurer_final_def example_insurer_stage2_def
      example_insurer_stage1_def example_insurer_def)

lemma example_insurer_holdings_kept:
  "update_balance_sheets [example_insurer_final] = [example_insurer_final]"
  by (simp add: update_balance_sheets_def example_insurer_final_fields update_for_action_def)

lemma lone_insurer_day:
  "run_day lone_insurer_scenario RelationshipNetwork_init False n 0
     ([example_insurer_day], MarketState_init)
   = Inr ([example_insurer_final],
          register_actions_to_market example_insurer_stage2 stressed_market)"
  by (simp add: run_day_def lone_insurer_scenario_def get_scenario_day_def day_delta_of_def
      dict_get_def stressed_market_day0 lone_insurer_stages_1_2 stage3_def
      example_insurer_feedback_off example_insurer_holdings_kept)

lemma example_insurer_first_buffer:
  "compute_initial_buffer example_insurer = (90, example_insurer_day)"
  using example_insurer_day_eval by (simp add: reset_example_insurer)

lemma lone_insurer_run:
  "run_simulation [example_insurer] RelationshipNetwork_init lone_insurer_scenario False n
   = Inr \<lparr>amplification_ratios =
             [(''Insurer_01'', 0.9633), (''Type:insurer'', 0.9633), (''System-Wide'', 0.9633)],
           summary = compute_summary [example_insurer_final]
                       (register_actions_to_market example_insurer_stage2 stressed_market),
           initial_buffers = [(''Insurer_01'', 90)],
           final_agents = [example_insurer_final],
           final_market = register_actions_to_market example_insurer_stage2 stressed_market\<rparr>"
proof -
  have hz: "horizon_days lone_insurer_scenario = Some 1"
    by (simp add: lone_insurer_scenario_def)
  have nm: "name example_insurer_day = ''Insurer_01''" "B0 (liquidity example_insurer_day) = 90"
    by (simp_all add: example_insurer_day_def example_insurer_def)
  have amp: "compute_amplification [example_insurer_final] [(''Insurer_01'', 90)]
    = Inr [(''Insurer_01'', 0.9633), (''Type:insurer'', 0.9633), (''System-Wide'', 0.9633)]"
    by (simp add: compute_amplification_def agent_ratio_def type_ratio_def system_wide_ratio_def
        direct_loss_def total_loss_def dict_get_def example_insurer_final_fields floor_eps_def
        Let_def)
  show ?thesis
    by (simp add: run_simulation_def hz for_each_single example_insurer_first_buffer nm
        lone_insurer_day amp Let_def)
qed


lemma map_of_dict_set: "map_of (dict_set d k v) k = Some v"
  by (induction d) auto

lemma length_for_each_fold:
  "length (fold (\<lambda>i ags. ags[i := body ags i]) js agents) = length agents"
  by (induction js arbitrary: agents) simp_all

lemma length_for_each: "length (for_each body agents) = length agents"
  by (simp add: for_each_def length_for_each_fold)

lemma for_each_err_fold_Inl:
  "fold (\<lambda>i r. case r of Inl e \<Rightarrow> Inl e
                | Inr ags \<Rightarrow> (case body ags i of Inl e \<Rightarrow> Inl e | Inr a \<Rightarrow> Inr (ags[i := a])))
     js (Inl e) = Inl e"
  by (induction js) simp_all

lemma length_for_each_err_fold:
  "fold (\<lambda>i r. case r of Inl e \<Rightarrow> Inl e
                | Inr ags \<Rightarrow> (case body ags i of Inl e \<Rightarrow> Inl e | Inr a \<Rightarrow> Inr (ags[i := a])))
     js (Inr agents) = Inr agents' \<Longrightarrow> length agents' = length agents"
proof (induction js arbitrary: agents)
  case Nil
  then show ?case by simp
next
  case (Cons j js)
  show ?case
  proof (cases "body agents j")
    case (Inl e)
    with Cons.prems show ?thesis by (simp add: for_each_err_fold_Inl)
  next
    case (Inr a)
    with Cons.prems Cons.IH[of "agents[j := a]"] show ?thesis by simp
  qed
qed

lemma length_for_each_err:
  "for_each_err body agents = Inr agents' \<Longrightarrow> length agents' = length agents"
  unfolding for_each_err_def by (rule length_for_each_err_fold)

lemma length_banks_absorb:
  "banks_absorb agents market = Inr agents' \<Longrightarrow> length agents' = length agents"
  by (auto simp: banks_absorb_def Let_def split: sum.splits)

lemma length_stages_1_2:
  "stages_1_2 net market dd agents = Inr (agents', market')
     \<Longrightarrow> length agents' = length agents"
  by (auto simp: stages_1_2_def Let_def length_for_each split: sum.splits
      dest!: length_for_each_err length_banks_absorb)

lemma length_compute_stage3_feedback:
  "length (compute_stage3_feedback agents market net) = length agents"
  by (simp add: compute_stage3_feedback_def Let_def length_for_each)

lemma length_feedback_iterate:
  "feedback_iterate n net (agents, market) = Inr (agents', market')
     \<Longrightarrow> length agents' = length agents"
proof (induction n arbitrary: agents market)
  case 0
  then show ?case by simp
next
  case (Suc n)
  then show ?case
    by (auto simp: length_compute_stage3_feedback split: sum.splits)
qed

lemma length_stage3:
  "stage3 fb n net (agents, market) = Inr (agents', market')
     \<Longrightarrow> length agents' = length agents"
  by (auto simp: stage3_def dest: length_feedback_iterate split: if_splits)

lemma length_run_day:
  assumes "run_day sc net fb n d (agents, market) = Inr (agents', market')"
  shows "length agents' = length agents"
proof -
  from assms obtain dv pv ags2 m2 ags3 m3 where
    s12: "stages_1_2 net (apply_exogenous_scenario (market\<lparr>day := d\<rparr>) dv)
            (day_delta_of dv pv) agents = Inr (ags2, m2)"
    and s3: "stage3 fb n net (ags2, m2) = Inr (ags3, m3)"
    and res: "agents' = update_balance_sheets ags3"
    by (auto simp: run_day_def Let_def split: sum.splits prod.splits)
  from length_stages_1_2[OF s12] length_stage3[OF s3] res
  show ?thesis by (simp add: update_balance_sheets_def)
qed

lemma length_run_days:
  "run_days sc net fb n ds (agents, market) = Inr (agents', market')
     \<Longrightarrow> length agents' = length agents"
proof (induction ds arbitrary: agents market)
  case Nil
  then show ?case by simp
next
  case (Cons d ds)
  from Cons.prems obtain ags1 m1 where
    d1: "run_day sc net fb n d (agents, market) = Inr (ags1, m1)"
    and rest: "run_days sc net fb n ds (ags1, m1) = Inr (agents', market')"
    by (auto split: sum.splits)
  from Cons.IH[OF rest] length_run_day[OF d1] show ?case by simp
qed

lemma run_simulation_result:
  assumes "run_simulation agents net sc fb n = Inr r"
  shows "length (final_agents r) = length agents"
    and "map_of (amplification_ratios r) ''System-Wide''
           = Some (system_wide_ratio (initial_buffers r) (final_agents r))"
proof -
  let ?a0 = "for_each (\<lambda>ags i. snd (compute_initial_buffer (ags ! i))) agents"
  let ?ib = "foldl (\<lambda>d a. dict_set d (name a) (B0 (liquidity a))) [] ?a0"
  from assms obtain ags' m' ratios where
    days: "run_days sc net fb n [0..<(case horizon_days sc of None \<Rightarrow> 10 | Some k \<Rightarrow> k)]
             (?a0, MarketState_init) = Inr (ags', m')"
    and amp: "compute_amplification ags' ?ib = Inr ratios"
    and r: "r = \<lparr>amplification_ratios = ratios, summary = compute_summary ags' m',
                 initial_buffers = ?ib, final_agents = ags', final_market = m'\<rparr>"
    by (auto simp: run_simulation_def Let_def split: sum.splits prod.splits)
  from length_run_days[OF days] r show "length (final_agents r) = length agents"
    by (simp add: length_for_each)
  from amp r show "map_of (amplification_ratios r) ''System-Wide''
           = Some (system_wide_ratio (initial_buffers r) (final_agents r))"
    by (auto simp: compute_amplification_def Let_def map_of_dict_set split: if_splits)
qed

lemma floored_sum_positive:
  "agents \<noteq> [] \<Longrightarrow> 0 < (\<Sum>a\<leftarrow>agents. max (f a) floor_eps)"
proof (induction agents)
  case Nil
  then show ?case by simp
next
  case (Cons a agents)
  have "0 < max (f a) floor_eps" by (simp add: floor_eps_def max_def)
  moreover have "0 \<le> (\<Sum>a\<leftarrow>agents. max (f a) floor_eps)"
    by (rule sum_list_nonneg) (auto simp: floor_eps_def max_def)
  ultimately show ?case by simp
qed

lemma floored_sum_mono:
  "(\<And>a. a \<in> set agents \<Longrightarrow> f a \<le> g a)
     \<Longrightarrow> (\<Sum>a\<leftarrow>agents. max (f a) floor_eps) \<le> (\<Sum>a\<leftarrow>agents. max (g a) floor_eps)"
proof (rule sum_list_mono)
  fix a
  assume "a \<in> set agents" "\<And>a. a \<in> set agents \<Longrightarrow> f a \<le> g a"
  then have "f a \<le> g a" by simp
  then show "max (f a) floor_eps \<le> max (g a) floor_eps" by (simp add: max_def)
qed

lemma floored_sum_exact:
  "(\<And>a. a \<in> set agents \<Longrightarrow> floor_eps \<le> f a)
     \<Longrightarrow> (\<Sum>a\<leftarrow>agents. max (f a) floor_eps) = (\<Sum>a\<leftarrow>agents. f a)"
  by (induction agents) (simp_all add: max_absorb1)

lemma system_wide_ratio_eq:
  "agents \<noteq> [] \<Longrightarrow>
     system_wide_ratio ib agents =
       (\<Sum>a\<leftarrow>agents. max (total_loss ib a) floor_eps)
       / (\<Sum>a\<leftarrow>agents. max (direct_loss ib a) floor_eps)"
  by (simp add: system_wide_ratio_def Let_def floored_sum_positive)

lemma system_wide_ratio_positive: "0 < system_wide_ratio ib agents"
proof (cases "agents = []")
  case True
  then show ?thesis by (simp add: system_wide_ratio_def)
next
  case False
  then show ?thesis
    by (simp add: system_wide_ratio_eq floored_sum_positive)
qed

lemma system_wide_ratio_ge_1:
  assumes "\<And>a. a \<in> set agents \<Longrightarrow> B3 (liquidity a) \<le> B1 (liquidity a)"
  shows "1 \<le> system_wide_ratio ib agents"
proof (cases "agents = []")
  case True
  then show ?thesis by (simp add: system_wide_ratio_def)
next
  case False
  have "(\<Sum>a\<leftarrow>agents. max (direct_loss ib a) floor_eps)
          \<le> (\<Sum>a\<leftarrow>agents. max (total_loss ib a) floor_eps)"
    by (rule floored_sum_mono) (use assms in \<open>simp add: direct_loss_def total_loss_def\<close>)
  with False show ?thesis
    by (simp add: system_wide_ratio_eq floored_sum_positive)
qed

lemma sum_list_diff:
  "(\<Sum>a\<leftarrow>xs. f a - g a) = (\<Sum>a\<leftarrow>xs. f a) - (\<Sum>a\<leftarrow>xs. (g a :: real))"
  by (induction xs) simp_all

lemma system_wide_ratio_unfloored:
  assumes "agents \<noteq> []"
    and "\<And>a. a \<in> set agents \<Longrightarrow> floor_eps \<le> direct_loss ib a \<and> floor_eps \<le> total_loss ib a"
  shows "system_wide_ratio ib agents =
           ((\<Sum>a\<leftarrow>agents. dict_get ib (name a) 0) - (\<Sum>a\<leftarrow>agents. B3 (liquidity a)))
           / ((\<Sum>a\<leftarrow>agents. dict_get ib (name a) 0) - (\<Sum>a\<leftarrow>agents. B1 (liquidity a)))"
proof -
  have d: "(\<Sum>a\<leftarrow>agents. max (direct_loss ib a) floor_eps) = (\<Sum>a\<leftarrow>agents. direct_loss ib a)"
    by (rule floored_sum_exact) (use assms(2) in simp)
  have t: "(\<Sum>a\<leftarrow>agents. max (total_loss ib a) floor_eps) = (\<Sum>a\<leftarrow>agents. total_loss ib a)"
    by (rule floored_sum_exact) (use assms(2) in simp)
  have d': "(\<Sum>a\<leftarrow>agents. direct_loss ib a)
              = (\<Sum>a\<leftarrow>agents. dict_get ib (name a) 0) - (\<Sum>a\<leftarrow>agents. B1 (liquidity a))"
    unfolding direct_loss_def by (rule sum_list_diff)
  have t': "(\<Sum>a\<leftarrow>agents. total_loss ib a)
              = (\<Sum>a\<leftarrow>agents. dict_get ib (name a) 0) - (\<Sum>a\<leftarrow>agents. B3 (liquidity a))"
    unfolding total_loss_def by (rule sum_list_diff)
  show ?thesis
    unfolding system_wide_ratio_eq[OF assms(1)] d t d' t' ..
qed


lemma mild_market_fields:
  "vix_level mild_market = 21" "gilt_10y_yield_chg_bps mild_market = 0"
  "repo_haircut_corp_chg_pct mild_market = 0"
  by (simp_all add: mild_market_def apply_exogenous_scenario_def MarketState_init_def
      dict_get_def Let_def)

lemma mild_market_day0:
  "apply_exogenous_scenario (MarketState_init\<lparr>day := 0\<rparr>) [(''vix'', 21)] = mild_market"
  by (simp add: mild_market_def MarketState_init_def)

lemma example_insurer_mild_stage1:
  "compute_stage1 example_insurer_day mild_market [(''vix'', 21)]
     (Some RelationshipNetwork_init) [example_insurer_day] = Inr (32, example_insurer_mild)"
  by (simp add: compute_stage1_def compute_mtm_impact_def
      compute_margin_calls_def compute_redemptions_def mild_market_fields
      Insurer_compute_mtm_impact_def Insurer_compute_margin_calls_def Insurer_compute_redemptions_def
      example_insurer_mild_def example_insurer_day_def example_insurer_def
      get_item_def BalanceSheetItem_init_def mtm_sum_def dict_get_def LiquidityPosition_init_def Let_def)

lemma example_insurer_mild_fields:
  "liquidity example_insurer_mild = \<lparr>B0 = 90, B1 = 58, B2 = 0, B3 = 0, E1 = 32, E2 = 0\<rparr>"
  "theta example_insurer_mild = 0.45" "agent_type example_insurer_mild = ''insurer''"
  "has_reacted example_insurer_mild = False" "reactions example_insurer_mild = []"
  by (simp_all add: example_insurer_mild_def example_insurer_def)

lemma example_insurer_mild_stage2:
  "compute_stage2 example_insurer_mild mild_market (Some RelationshipNetwork_init)
     [example_insurer_mild]
   = example_insurer_mild\<lparr>liquidity := \<lparr>B0 = 90, B1 = 58, B2 = 58, B3 = 0, E1 = 32, E2 = 0\<rparr>\<rparr>"
  by (simp add: compute_stage2_def should_react_def example_insurer_mild_fields)

lemma example_insurer_idle_fields:
  "liquidity example_insurer_idle = \<lparr>B0 = 90, B1 = 58, B2 = 58, B3 = 58, E1 = 32, E2 = 0\<rparr>"
  "reactions example_insurer_idle = []" "name example_insurer_idle = ''Insurer_01''"
  "agent_type example_insurer_idle = ''insurer''"
  by (simp_all add: example_insurer_idle_def example_insurer_mild_def example_insurer_def)

lemma mild_day:
  "run_day mild_scenario RelationshipNetwork_init False n 0
     ([example_insurer_day], MarketState_init) = Inr ([example_insurer_idle], mild_market)"
proof -
  have s12: "stages_1_2 RelationshipNetwork_init mild_market [(''vix'', 21)] [example_insurer_day]
     = Inr ([example_insurer_mild\<lparr>liquidity :=
               \<lparr>B0 = 90, B1 = 58, B2 = 58, B3 = 0, E1 = 32, E2 = 0\<rparr>\<rparr>], mild_market)"
    by (simp add: stages_1_2_def for_each_err_single for_each_single stage1_body_def
        stage2_body_def reset_example_insurer_day example_insurer_day_again
        example_insurer_mild_stage1 example_insurer_mild_stage2 banks_absorb_def
        example_insurer_mild_fields absorb_share_def register_actions_to_market_def Let_def)
  have off: "feedback_off (example_insurer_mild\<lparr>liquidity :=
               \<lparr>B0 = 90, B1 = 58, B2 = 58, B3 = 0, E1 = 32, E2 = 0\<rparr>\<rparr>) = example_insurer_idle"
    by (simp add: feedback_off_def example_insurer_idle_def Let_def)
  have keep: "update_balance_sheets [example_insurer_idle] = [example_insurer_idle]"
    by (simp add: update_balance_sheets_def example_insurer_idle_fields)
  show ?thesis
    by (simp add: run_day_def mild_scenario_def get_scenario_day_def day_delta_of_def
        dict_get_def mild_market_day0 s12 stage3_def off keep)
qed

lemma mild_run:
  "run_simulation [example_insurer] RelationshipNetwork_init mild_scenario False n
   = Inr \<lparr>amplification_ratios =
             [(''Insurer_01'', 1), (''Type:insurer'', 1), (''System-Wide'', 1)],
           summary = compute_summary [example_insurer_idle] mild_market,
           initial_buffers = [(''Insurer_01'', 90)],
           final_agents = [example_insurer_idle],
           final_market = mild_market\<rparr>"
proof -
  have hz: "horizon_days mild_scenario = Some 1"
    by (simp add: mild_scenario_def)
  have nm: "name example_insurer_day = ''Insurer_01''" "B0 (liquidity example_insurer_day) = 90"
    by (simp_all add: example_insurer_day_def example_insurer_def)
  have amp: "compute_amplification [example_insurer_idle] [(''Insurer_01'', 90)]
    = Inr [(''Insurer_01'', 1), (''Type:insurer'', 1), (''System-Wide'', 1)]"
    by (simp add: compute_amplification_def agent_ratio_def type_ratio_def system_wide_ratio_def
        direct_loss_def total_loss_def dict_get_def example_insurer_idle_fields floor_eps_def
        Let_def)
  show ?thesis
    by (simp add: run_simulation_def hz for_each_single example_insurer_first_buffer nm
        mild_day amp Let_def)
qed

section \<open>Claims\<close>

text \<open>
  C1. For every agent of every class, \<open>should_react\<close> is true if and only if \<open>B0 > 0\<close> and
  \<open>E1 / B0 > theta\<close>; whenever \<open>B0 \<le> 0\<close> it is false, whatever \<open>E1\<close> is. The method is
  defined once, in the base class, and no subclass overrides it.
\<close>

theorem should_react_iff:
  "should_react self =
     (B0 (liquidity self) > 0 \<and> E1 (liquidity self) / B0 (liquidity self) > theta self)
   \<and> (B0 (liquidity self) \<le> 0 \<longrightarrow> \<not> should_react self)"
  by (auto simp: should_react_def)

theorem should_react_iff_witness:
  "B0 (liquidity example_insurer) \<le> 0 \<and> \<not> should_react example_insurer
   \<and> should_react example_insurer_stage1
   \<and> B0 (liquidity example_insurer_stage1) > 0
   \<and> E1 (liquidity example_insurer_stage1) / B0 (liquidity example_insurer_stage1)
       > theta example_insurer_stage1"
  using should_react_iff[of example_insurer] should_react_iff[of example_insurer_stage1]
  by (simp add: example_insurer_def LiquidityPosition_init_def example_insurer_stage1_fields)

text \<open>
  C2. On a simulated day an agent is reset, its buffer is recomputed and \<open>compute_stage1\<close>
  runs; when it returns, \<open>B1 = B0 - E1\<close>. After \<open>compute_stage2\<close> and any non-empty sequence
  \<open>es\<close> of \<open>apply_stage3\<close> calls, \<open>E2\<close> is the sum of the contributions applied so far that
  day, \<open>B3 = B2 - E2\<close>, and \<open>B1 = B0 - E1\<close> still holds.
\<close>

theorem liquidity_position_identities:
  assumes "compute_stage1 (snd (compute_initial_buffer (reset_daily a))) market day_delta
             network agents = Inr (e1, s1)"
    and "es \<noteq> []"
    and "s3 = foldl apply_stage3 (compute_stage2 s1 market2 network2 agents2) es"
  shows "B1 (liquidity s1) = B0 (liquidity s1) - E1 (liquidity s1)
         \<and> E2 (liquidity s3) = sum_list es
         \<and> B3 (liquidity s3) = B2 (liquidity s3) - E2 (liquidity s3)
         \<and> B1 (liquidity s3) = B0 (liquidity s3) - E1 (liquidity s3)"
proof -
  obtain b0 a' where ib: "compute_initial_buffer (reset_daily a) = (b0, a')"
    by (cases "compute_initial_buffer (reset_daily a)")
  have e2a': "E2 (liquidity a') = 0"
    using compute_initial_buffer_frame[OF ib] by (simp add: set_B0_def reset_daily_def)
  from assms(1) ib have st1: "compute_stage1 a' market day_delta network agents = Inr (e1, s1)"
    by simp
  note r1 = compute_stage1_result[OF st1]
  let ?s2 = "compute_stage2 s1 market2 network2 agents2"
  note f2 = compute_stage2_frame[of s1 market2 network2 agents2]
  note f3 = foldl_apply_stage3[of ?s2 es]
  have "E2 (liquidity ?s2) = 0" using f2 r1(4) e2a' by simp
  then show ?thesis using r1 f2 f3 assms(2,3) by simp
qed

theorem liquidity_position_identities_witness:
  "compute_stage1 (snd (compute_initial_buffer (reset_daily example_insurer)))
     stressed_market [] None [] = Inr (80, example_insurer_stage1)
   \<and> B1 (liquidity example_insurer_stage1) = 10
   \<and> B0 (liquidity example_insurer_stage1) - E1 (liquidity example_insurer_stage1) = 10
   \<and> E2 (liquidity (foldl apply_stage3 example_insurer_stage2 [1, 2])) = 3
   \<and> B3 (liquidity (foldl apply_stage3 example_insurer_stage2 [1, 2])) = 9.936
   \<and> B2 (liquidity (foldl apply_stage3 example_insurer_stage2 [1, 2])) = 12.936"
  using liquidity_position_identities[OF example_insurer_stage1_eval, of "[1, 2]"
          "foldl apply_stage3 example_insurer_stage2 [1, 2]" stressed_market None "[]"]
  by (simp add: example_insurer_stage1_eval example_insurer_stage2_eval
      example_insurer_stage1_fields example_insurer_stage2_fields apply_stage3_liquidity)

text \<open>
  C3, as the code has it. \<open>compute_stage2\<close> sets \<open>B2 = B1\<close> and records no reactions when
  \<open>should_react\<close> is false; otherwise \<open>B2 = B1\<close> plus the sum over the recorded reactions of
  amount times realisation rate. Every action the five classes record is one of
  \<open>recorded_action_names\<close>, and the rates are: the sales (\<open>sell_...\<close>) at
  \<open>max(0.5, 1 - gilt bid-ask spread / 100)\<close>; \<open>seek_repo\<close>, \<open>reduce_repo_lending\<close> and the
  insurer's \<open>draw_repo_line\<close> at the repo-market availability; the bank's \<open>boe_facility\<close> at
  0.95; \<open>redeem_mmf\<close> at 0.90; everything else, the insurer's \<open>draw_rcf\<close> among it, at 0.80.
\<close>

theorem compute_stage2_mitigation:
  assumes "s' = compute_stage2 self market network agents"
  shows "(\<not> should_react self \<longrightarrow>
            reactions s' = [] \<and> B2 (liquidity s') = B1 (liquidity s'))
         \<and> (should_react self \<longrightarrow>
            reactions s' = fst (compute_reactions (self\<lparr>has_reacted := True\<rparr>) market network agents)
            \<and> B2 (liquidity s') =
                B1 (liquidity s')
                + (\<Sum>(action, amount)\<leftarrow>reactions s'. amount * realisation market action))
         \<and> fst ` set (reactions s') \<subseteq> set recorded_action_names
         \<and> map (realisation market) recorded_action_names =
             (let sale = max 0.5 (1 - gilt_bid_ask_spread_bps market / 100);
                  repo = repo_market_availability_pct market
              in [0.95, repo, sale, sale, repo, sale, sale, 0.90, 0.80, 0.80, sale, repo,
                  0.80, 0.80, 0.80])"
proof (cases "should_react self")
  case False
  have "B1 (liquidity s') = B1 (liquidity self)"
    using compute_stage2_frame[of self market network agents] assms by simp
  then show ?thesis
    using False compute_stage2_idle[OF False, of market network agents] assms realisation_table
    by simp
next
  case True
  have b1: "B1 (liquidity s') = B1 (liquidity self)"
    using compute_stage2_frame[of self market network agents] assms by simp
  note r = compute_stage2_react[OF True, of market network agents]
  have "fst ` set (reactions s') \<subseteq> set recorded_action_names"
    using r(1) compute_reactions_names assms by simp
  then show ?thesis
    using True r(1) r(3) b1 assms realisation_table by simp
qed

theorem compute_stage2_mitigation_witness:
  "should_react example_insurer_stage1
   \<and> reactions (compute_stage2 example_insurer_stage1 stressed_market None [])
       = [(''draw_repo_line'', 2.4), (''draw_rcf'', 1.12)]
   \<and> B2 (liquidity (compute_stage2 example_insurer_stage1 stressed_market None []))
       = 10 + (2.4 * 0.85 + 1.12 * 0.80)
   \<and> realisation stressed_market ''draw_repo_line'' = 0.85
   \<and> realisation stressed_market ''draw_rcf'' = 0.80"
  using compute_stage2_mitigation[of "compute_stage2 example_insurer_stage1 stressed_market None []"
          example_insurer_stage1 stressed_market None "[]"]
  by (simp add: example_insurer_should_react example_insurer_stage2_eval
      example_insurer_stage2_fields realisation_draws)

text \<open>
  C3 as stated fails on the insurer: its committed-repo-line draw is credited at the
  repo-market availability (0.85 on this day) and its RCF draw at 0.80, not at 0.95.
\<close>

theorem insurer_draws_counterexample:
  "should_react example_insurer_stage1
   \<and> reactions (compute_stage2 example_insurer_stage1 stressed_market None [])
       = [(''draw_repo_line'', 2.4), (''draw_rcf'', 1.12)]
   \<and> B2 (liquidity (compute_stage2 example_insurer_stage1 stressed_market None [])) = 12.936
   \<and> B1 (liquidity (compute_stage2 example_insurer_stage1 stressed_market None []))
       + (2.4 * 0.95 + 1.12 * 0.95) = 13.344
   \<and> B2 (liquidity (compute_stage2 example_insurer_stage1 stressed_market None []))
       \<noteq> B1 (liquidity (compute_stage2 example_insurer_stage1 stressed_market None []))
          + (2.4 * 0.95 + 1.12 * 0.95)"
  by (simp add: example_insurer_should_react example_insurer_stage2_eval
      example_insurer_stage2_fields)

text \<open>
  C10. Starting from the initial market state, after any sequence of
  \<open>apply_exogenous_scenario\<close>, \<open>apply_endogenous_feedback\<close> and action-registration calls
  that returns, \<open>repo_market_availability_pct\<close> is at least 0.5.
\<close>

theorem repo_availability_floor:
  "market_calls MarketState_init calls = Inr m \<Longrightarrow> 0.5 \<le> repo_market_availability_pct m"
  by (rule market_calls_avail[of MarketState_init calls m]) (simp_all add: MarketState_init_def)

theorem repo_availability_floor_witness:
  "market_calls MarketState_init crisis_calls = Inr (projr (market_calls MarketState_init crisis_calls))
   \<and> repo_market_availability_pct (projr (market_calls MarketState_init crisis_calls)) = 0.5
   \<and> endogenous_repo_demand_mm (projr (market_calls MarketState_init crisis_calls)) = 2.4"
proof -
  have e: "market_calls MarketState_init crisis_calls
             = Inr (projr (market_calls MarketState_init crisis_calls))"
    by (simp add: crisis_calls_def apply_exogenous_scenario_def register_actions_to_market_def
        register_action_def example_insurer_stage2_fields apply_endogenous_feedback_def
        gilt_selling_feedback_def corp_selling_feedback_def repo_demand_feedback_def
        MarketState_init_def dict_get_def Let_def)
  have v: "repo_market_availability_pct (projr (market_calls MarketState_init crisis_calls)) \<le> 0.5
     \<and> endogenous_repo_demand_mm (projr (market_calls MarketState_init crisis_calls)) = 2.4"
    by (simp add: crisis_calls_def apply_exogenous_scenario_def register_actions_to_market_def
        register_action_def example_insurer_stage2_fields apply_endogenous_feedback_def
        gilt_selling_feedback_def corp_selling_feedback_def repo_demand_feedback_def
        MarketState_init_def dict_get_def Let_def)
  from repo_availability_floor[OF e] e v show ?thesis by simp
qed

text \<open>
  C8, as the code has it. \<open>assess_repo_request\<close> returns 0 without a network and for a
  requester that has no edge to the bank; for a connected requester it returns the smaller
  of the requested amount and new-repo capacity times risk appetite times the willingness,
  where the willingness is 1 at zero stress, falls linearly to 0 at the refusal threshold
  and stays 0 beyond it, and the stress ratio is \<open>E1 / max(B0, 1)\<close>. For a bank whose
  buffer is at least 1 this is the specification's \<open>E1 / B0\<close>.
\<close>

theorem assess_repo_request_amended:
  "assess_repo_request self b requester amount network =
     (case network of
        None \<Rightarrow> 0
      | Some net \<Rightarrow>
          if \<not> is_connected net (name self) requester then 0
          else min amount
                 (repo_capacity_mm b * willingness_to_extend_new_pct b * risk_appetite b
                  * stress_based_willingness (E1 (liquidity self) / max (B0 (liquidity self)) 1)))
   \<and> stress_based_willingness 0 = 1
   \<and> (\<forall>s. FEEDBACK_PARAMS_bank_repo_refusal_stress_threshold \<le> s
          \<longrightarrow> stress_based_willingness s = 0)
   \<and> (\<forall>s. 0 \<le> s \<and> s \<le> FEEDBACK_PARAMS_bank_repo_refusal_stress_threshold
          \<longrightarrow> stress_based_willingness s
              = 1 - s / FEEDBACK_PARAMS_bank_repo_refusal_stress_threshold)
   \<and> (1 \<le> B0 (liquidity self) \<longrightarrow>
        (\<forall>net. assess_repo_request self b requester amount (Some net)
               = claimed_assess_repo_request self b requester amount net))"
proof -
  have thr: "0 < FEEDBACK_PARAMS_bank_repo_refusal_stress_threshold"
    by (simp add: config_defs)
  have a: "assess_repo_request self b requester amount network =
     (case network of
        None \<Rightarrow> 0
      | Some net \<Rightarrow>
          if \<not> is_connected net (name self) requester then 0
          else min amount
                 (repo_capacity_mm b * willingness_to_extend_new_pct b * risk_appetite b
                  * stress_based_willingness (E1 (liquidity self) / max (B0 (liquidity self)) 1)))"
    by (simp add: assess_repo_request_def is_connected_iff stress_based_willingness_def Let_def
        split: option.splits)
  have b: "stress_based_willingness 0 = 1" by (simp add: stress_based_willingness_def)
  have c: "stress_based_willingness s = 0"
    if "FEEDBACK_PARAMS_bank_repo_refusal_stress_threshold \<le> s" for s
    using that thr by (simp add: stress_based_willingness_def)
  have d: "stress_based_willingness s = 1 - s / FEEDBACK_PARAMS_bank_repo_refusal_stress_threshold"
    if "0 \<le> s \<and> s \<le> FEEDBACK_PARAMS_bank_repo_refusal_stress_threshold" for s
    using that thr by (simp add: stress_based_willingness_def)
  have e: "assess_repo_request self b requester amount (Some net)
               = claimed_assess_repo_request self b requester amount net"
    if "1 \<le> B0 (liquidity self)" for net
    using that by (simp add: assess_repo_request_def claimed_assess_repo_request_def
        is_connected_iff stress_based_willingness_def Let_def max_def)
  from a b c d e show ?thesis by blast
qed

theorem assess_repo_request_amended_witness:
  "1 \<le> B0 (liquidity larger_bank_stage1)
   \<and> compute_stage1 (snd (compute_initial_buffer (reset_daily larger_bank))) rates_up_market
       [(''gilt_10y_yield'', 100)] None [] = Inr (0.082, larger_bank_stage1)
   \<and> assess_repo_request larger_bank_stage1 larger_bank_fields ''HF_01'' 100 (Some example_network)
       = claimed_assess_repo_request larger_bank_stage1 larger_bank_fields ''HF_01'' 100
           example_network
   \<and> assess_repo_request larger_bank_stage1 larger_bank_fields ''HF_01'' 100 (Some example_network)
       = 2253530 / 266353
   \<and> assess_repo_request larger_bank_stage1 larger_bank_fields ''HF_02'' 100 (Some example_network)
       = 0
   \<and> assess_repo_request larger_bank_stage1 larger_bank_fields ''HF_01'' 100 None = 0
   \<and> stress_based_willingness 0.3 = 0"
proof -
  have b0: "1 \<le> B0 (liquidity larger_bank_stage1)"
    by (simp add: larger_bank_stage1_def)
  have v: "claimed_assess_repo_request larger_bank_stage1 larger_bank_fields ''HF_01'' 100
             example_network = 2253530 / 266353"
    by (simp add: claimed_assess_repo_request_def larger_bank_stage1_def larger_bank_def
        example_bank_def larger_bank_fields_def example_bank_fields_def example_network_def
        is_connected_def stress_based_willingness_def config_defs Let_def)
  have n: "\<not> is_connected example_network (name larger_bank_stage1) ''HF_02''"
    by (simp add: is_connected_def example_network_def)
  have t: "FEEDBACK_PARAMS_bank_repo_refusal_stress_threshold \<le> 0.3"
    by (simp add: config_defs)
  note a = assess_repo_request_amended[of larger_bank_stage1 larger_bank_fields]
  from a[of "''HF_01''" 100 "Some example_network"] b0 t
  have 1: "assess_repo_request larger_bank_stage1 larger_bank_fields ''HF_01'' 100
             (Some example_network)
           = claimed_assess_repo_request larger_bank_stage1 larger_bank_fields ''HF_01'' 100
               example_network"
    and 4: "stress_based_willingness 0.3 = 0"
    by blast+
  from a[of "''HF_02''" 100 "Some example_network"] n
  have 2: "assess_repo_request larger_bank_stage1 larger_bank_fields ''HF_02'' 100
             (Some example_network) = 0"
    by simp
  from a[of "''HF_01''" 100 None]
  have 3: "assess_repo_request larger_bank_stage1 larger_bank_fields ''HF_01'' 100 None = 0"
    by simp
  show ?thesis
    using b0 1 2 3 4 v by (simp add: larger_bank_day_eval larger_bank_stage1_eval)
qed

text \<open>
  C8 as stated fails for a bank whose buffer is below 1: the small bank has \<open>B0 = 0.5\<close> and
  \<open>E1 = 0.082\<close>; the code scales by the stress 0.082, the claim by \<open>E1 / B0 = 0.164\<close>.
\<close>

theorem assess_repo_request_counterexample:
  "compute_stage1 (snd (compute_initial_buffer (reset_daily example_bank))) rates_up_market
     [(''gilt_10y_yield'', 100)] None [] = Inr (0.082, example_bank_stage1)
   \<and> B0 (liquidity example_bank_stage1) = 0.5
   \<and> assess_repo_request example_bank_stage1 example_bank_fields ''HF_01'' 100 (Some example_network)
       = 1843530 / 266353
   \<and> claimed_assess_repo_request example_bank_stage1 example_bank_fields ''HF_01'' 100 example_network
       = 1023530 / 266353
   \<and> assess_repo_request example_bank_stage1 example_bank_fields ''HF_01'' 100 (Some example_network)
       \<noteq> claimed_assess_repo_request example_bank_stage1 example_bank_fields ''HF_01'' 100
            example_network"
  by (simp add: example_bank_day_eval example_bank_stage1_eval example_bank_assess
      example_bank_claimed) (simp add: example_bank_stage1_def)

text \<open>
  C6. The run of the claim starts by constructing twelve banks. \<open>BankAgent.__init__\<close> passes
  the keyword \<open>buffer_usability\<close> to \<open>BaseAgent.__init__\<close>, which has no such parameter: on
  a well-formed bank configuration the constructor raises \<open>TypeError\<close>, so the population
  is never built.
\<close>

theorem BankAgent_init_raises: "BankAgent_init example_bank_config = Inl TypeError"
  by (simp add: BankAgent_init_def example_bank_config_def and_then_def getitem_def
      BaseAgent_init_def BaseAgent_init_params_def dict_get_def)

text \<open>
  C9, as the code has it. Called twice in succession, each of \<open>compute_initial_buffer\<close>,
  \<open>compute_mtm_impact\<close>, \<open>compute_margin_calls\<close> and \<open>compute_redemptions\<close> returns the same
  result; the first three leave the agent after the second call as it was after the
  first, and none of the queries changes a later \<open>compute_mtm_impact\<close>. The second call of
  \<open>compute_redemptions\<close> may see the agent list with the agent itself updated
  (\<open>agents'\<close>). \<open>compute_redemptions\<close> changes nothing on a bank, hedge fund, LDI fund or
  insurer; on a pooled fund every call adds the returned amount to
  \<open>cumulative_redemption_inflows_mm\<close>.
\<close>

theorem hook_queries_repeatable:
  assumes "compute_margin_calls a market = Inr (m, a1)"
    and "compute_redemptions a market network agents = (r, a2)"
    and "map BaseAgent.truncate agents' = map BaseAgent.truncate agents"
  shows "compute_initial_buffer (snd (compute_initial_buffer a)) = compute_initial_buffer a
         \<and> compute_mtm_impact (snd (compute_initial_buffer a)) market dd
             = compute_mtm_impact a market dd
         \<and> compute_mtm_impact a1 market dd = compute_mtm_impact a market dd
         \<and> compute_mtm_impact a2 market dd = compute_mtm_impact a market dd
         \<and> compute_margin_calls a1 market = Inr (m, a1)
         \<and> fst (compute_redemptions a2 market network agents') = r
         \<and> BaseAgent.truncate a2 = BaseAgent.truncate a
         \<and> (case cls a of
               OEFMMFAgent f \<Rightarrow>
                 cls a2 = OEFMMFAgent (f\<lparr>cumulative_redemption_inflows_mm :=
                                           cumulative_redemption_inflows_mm f + r\<rparr>)
             | _ \<Rightarrow> a2 = a)"
  using compute_initial_buffer_idem[of a] mtm_after_buffer[of a market dd]
    mtm_after_margin[OF assms(1), of market dd] mtm_after_redemptions[OF assms(2), of market dd]
    compute_margin_calls_idem[OF assms(1)] compute_redemptions_repeat[OF assms(2) assms(3)]
  by simp

theorem hook_queries_repeatable_witness:
  "compute_margin_calls example_oef_day stressed_market = Inr (0, example_oef_day)
   \<and> compute_redemptions example_oef_day stressed_market (Some redemption_network)
       [example_insurer_stage1, example_oef_day] = (0.04, example_oef_queried)
   \<and> map BaseAgent.truncate [example_insurer_stage1, example_oef_queried]
       = map BaseAgent.truncate [example_insurer_stage1, example_oef_day]
   \<and> fst (compute_redemptions example_oef_queried stressed_market (Some redemption_network)
            [example_insurer_stage1, example_oef_queried]) = 0.04
   \<and> compute_initial_buffer (snd (compute_initial_buffer example_oef_day))
       = compute_initial_buffer example_oef_day
   \<and> cls example_oef_queried
       = OEFMMFAgent (example_oef_fields\<lparr>cumulative_redemption_inflows_mm := 0.04\<rparr>)"
proof -
  have mc: "compute_margin_calls example_oef_day stressed_market = Inr (0, example_oef_day)"
    by (simp add: compute_margin_calls_def example_oef_cls)
  have tr: "map BaseAgent.truncate [example_insurer_stage1, example_oef_queried]
              = map BaseAgent.truncate [example_insurer_stage1, example_oef_day]"
    by (simp add: example_oef_queried_def BaseAgent.truncate_def)
  from hook_queries_repeatable[OF mc example_oef_query1 tr, of "[]"] mc tr
  show ?thesis
    by (simp add: example_oef_query1 example_oef_cls)
qed

text \<open>
  C9 as stated fails on the pooled fund: both calls of \<open>compute_redemptions\<close> return 0.04,
  but each advances \<open>cumulative_redemption_inflows_mm\<close> (0, then 0.04, then 0.08), and the
  day that follows differs: after one extra query the fund's reactions contain the
  swing-pricing step, which they do not contain without it.
\<close>

theorem redemption_query_counterexample:
  "compute_redemptions example_oef_day stressed_market (Some redemption_network)
     [example_insurer_stage1, example_oef_day] = (0.04, example_oef_queried)
   \<and> compute_redemptions example_oef_queried stressed_market (Some redemption_network)
       [example_insurer_stage1, example_oef_queried] = (0.04, example_oef_requeried)
   \<and> example_oef_queried \<noteq> example_oef_day
   \<and> example_oef_requeried \<noteq> example_oef_queried
   \<and> compute_stage1 example_oef_day stressed_market [] (Some redemption_network)
       [example_insurer_stage1, example_oef_day] = Inr (0.04, example_oef_stage1)
   \<and> compute_stage1 example_oef_queried stressed_market [] (Some redemption_network)
       [example_insurer_stage1, example_oef_queried] = Inr (0.04, example_oef_stage1_requeried)
   \<and> reactions (compute_stage2 example_oef_stage1 stressed_market (Some redemption_network)
                  [example_insurer_stage2, example_oef_stage1])
       = [(''use_cash_buffer'', 0.014), (''sell_gilt'', 0.002), (''sell_corp_bonds'', 0.00144)]
   \<and> reactions (compute_stage2 example_oef_stage1_requeried stressed_market
                  (Some redemption_network) [example_insurer_stage2, example_oef_stage1_requeried])
       = [(''use_cash_buffer'', 0.014), (''sell_gilt'', 0.002), (''sell_corp_bonds'', 0.00144),
          (''swing_pricing'', 0.003312)]"
proof -
  have "cls example_oef_queried \<noteq> cls example_oef_day"
    by (simp add: example_oef_queried_def example_oef_day_def example_oef_def
        example_oef_fields_def)
  then have a: "example_oef_queried \<noteq> example_oef_day" by auto
  have "cls example_oef_requeried \<noteq> cls example_oef_queried"
    by (simp add: example_oef_queried_def example_oef_requeried_def example_oef_fields_def)
  then have b: "example_oef_requeried \<noteq> example_oef_queried" by auto
  show ?thesis
    using a b
    by (simp add: example_oef_query1 example_oef_query2 example_oef_stage1_eval
        example_oef_stage1_requeried_eval example_oef_stage2_reactions)
qed




text \<open>
  C4, amended. For every run that returns, on a non-empty population, the ratio reported
  under \<open>System-Wide\<close> is the sum over the agents of \<open>max(initial buffer - B3, 0.001)\<close>
  divided by the sum of \<open>max(initial buffer - B1, 0.001)\<close>: numerator and denominator are
  both floored agent by agent. It is positive. It is at least 1 when every agent ends with
  \<open>B3 \<le> B1\<close>, and it equals \<open>(\<Sigma>B0 - \<Sigma>B3) / (\<Sigma>B0 - \<Sigma>B1)\<close>, with \<open>B0\<close> the initial
  buffers, when no floor applies.
\<close>

theorem system_wide_amplification:
  assumes "run_simulation agents net scenario enable_feedback feedback_iterations = Inr r"
    and "agents \<noteq> []"
  shows "map_of (amplification_ratios r) ''System-Wide''
           = Some (system_wide_ratio (initial_buffers r) (final_agents r))
       \<and> system_wide_ratio (initial_buffers r) (final_agents r)
           = (\<Sum>a\<leftarrow>final_agents r.
                 max (dict_get (initial_buffers r) (name a) 0 - B3 (liquidity a)) 0.001)
             / (\<Sum>a\<leftarrow>final_agents r.
                 max (dict_get (initial_buffers r) (name a) 0 - B1 (liquidity a)) 0.001)
       \<and> 0 < system_wide_ratio (initial_buffers r) (final_agents r)
       \<and> ((\<forall>a\<in>set (final_agents r). B3 (liquidity a) \<le> B1 (liquidity a))
            \<longrightarrow> 1 \<le> system_wide_ratio (initial_buffers r) (final_agents r))
       \<and> ((\<forall>a\<in>set (final_agents r).
               0.001 \<le> dict_get (initial_buffers r) (name a) 0 - B1 (liquidity a)
               \<and> 0.001 \<le> dict_get (initial_buffers r) (name a) 0 - B3 (liquidity a))
            \<longrightarrow> system_wide_ratio (initial_buffers r) (final_agents r)
                = ((\<Sum>a\<leftarrow>final_agents r. dict_get (initial_buffers r) (name a) 0)
                     - (\<Sum>a\<leftarrow>final_agents r. B3 (liquidity a)))
                  / ((\<Sum>a\<leftarrow>final_agents r. dict_get (initial_buffers r) (name a) 0)
                     - (\<Sum>a\<leftarrow>final_agents r. B1 (liquidity a))))"
proof -
  from run_simulation_result(1)[OF assms(1)] assms(2)
  have ne: "final_agents r \<noteq> []" by auto
  have unfloored: "system_wide_ratio (initial_buffers r) (final_agents r)
                = ((\<Sum>a\<leftarrow>final_agents r. dict_get (initial_buffers r) (name a) 0)
                     - (\<Sum>a\<leftarrow>final_agents r. B3 (liquidity a)))
                  / ((\<Sum>a\<leftarrow>final_agents r. dict_get (initial_buffers r) (name a) 0)
                     - (\<Sum>a\<leftarrow>final_agents r. B1 (liquidity a)))"
    if "\<forall>a\<in>set (final_agents r).
               0.001 \<le> dict_get (initial_buffers r) (name a) 0 - B1 (liquidity a)
               \<and> 0.001 \<le> dict_get (initial_buffers r) (name a) 0 - B3 (liquidity a)"
    by (rule system_wide_ratio_unfloored[OF ne])
       (use that in \<open>simp add: direct_loss_def total_loss_def floor_eps_def\<close>)
  from system_wide_ratio_eq[OF ne, of "initial_buffers r"]
  have eq: "system_wide_ratio (initial_buffers r) (final_agents r)
           = (\<Sum>a\<leftarrow>final_agents r.
                 max (dict_get (initial_buffers r) (name a) 0 - B3 (liquidity a)) 0.001)
             / (\<Sum>a\<leftarrow>final_agents r.
                 max (dict_get (initial_buffers r) (name a) 0 - B1 (liquidity a)) 0.001)"
    by (simp add: direct_loss_def total_loss_def floor_eps_def)
  show ?thesis
    using run_simulation_result(2)[OF assms(1)] eq system_wide_ratio_positive
      system_wide_ratio_ge_1 unfloored
    by (intro conjI impI) blast+
qed

theorem system_wide_amplification_witness:
  "run_simulation [example_insurer] RelationshipNetwork_init mild_scenario False 3
     = Inr \<lparr>amplification_ratios =
               [(''Insurer_01'', 1), (''Type:insurer'', 1), (''System-Wide'', 1)],
             summary = compute_summary [example_insurer_idle] mild_market,
             initial_buffers = [(''Insurer_01'', 90)],
             final_agents = [example_insurer_idle],
             final_market = mild_market\<rparr>
   \<and> [example_insurer] \<noteq> []
   \<and> B3 (liquidity example_insurer_idle) \<le> B1 (liquidity example_insurer_idle)
   \<and> 0.001 \<le> dict_get [(''Insurer_01'', 90)] (name example_insurer_idle) 0
               - B1 (liquidity example_insurer_idle)
   \<and> 0.001 \<le> dict_get [(''Insurer_01'', 90)] (name example_insurer_idle) 0
               - B3 (liquidity example_insurer_idle)
   \<and> system_wide_ratio [(''Insurer_01'', 90)] [example_insurer_idle] = (90 - 58) / (90 - 58)
   \<and> 1 \<le> system_wide_ratio [(''Insurer_01'', 90)] [example_insurer_idle]"
  using system_wide_amplification[OF mild_run[of 3]]
  by (simp add: mild_run example_insurer_idle_fields dict_get_def)

text \<open>
  C4 as stated fails: the ratio can lie below 1. \<open>B3\<close> is \<open>B1\<close> plus the mitigation of stage 2
  minus the losses of stage 3, so an agent whose reactions raise more than the second round
  costs ends above \<open>B1\<close>. The insurer on its own, on a day on which the volatility index
  doubles, with feedback disabled: the initial buffer is 90, \<open>B1 = 10\<close>, the two facility
  draws give \<open>B3 = B2 = 12.936\<close>, and the run reports 77.064 / 80 = 0.9633.
\<close>

theorem amplification_below_one_counterexample:
  "run_simulation [example_insurer] RelationshipNetwork_init lone_insurer_scenario False 3
     = Inr \<lparr>amplification_ratios =
               [(''Insurer_01'', 0.9633), (''Type:insurer'', 0.9633), (''System-Wide'', 0.9633)],
             summary = compute_summary [example_insurer_final]
                         (register_actions_to_market example_insurer_stage2 stressed_market),
             initial_buffers = [(''Insurer_01'', 90)],
             final_agents = [example_insurer_final],
             final_market = register_actions_to_market example_insurer_stage2 stressed_market\<rparr>
   \<and> B1 (liquidity example_insurer_final) = 10
   \<and> B3 (liquidity example_insurer_final) = 12.936
   \<and> (90 - 12.936) / (90 - 10) = (0.9633 :: real)
   \<and> (0.9633 :: real) < 1"
  by (simp add: lone_insurer_run example_insurer_final_fields)

end
